theory Spec2Isabelle
  imports Complex_Main "HOL-Library.Multiset"
begin

section \<open>The ToDo token client: data model\<close>

text \<open>
  The repository holds two variants of the same React component: \<^verbatim>\<open>src/App.tsx\<close>
  (called the root variant below, suffix \<open>_root\<close>) and \<^verbatim>\<open>frontend/src/App.tsx\<close>
  (the frontend variant, suffix \<open>_frontend\<close>). Each has three workflows:
  \<^verbatim>\<open>handleCreateSubmit\<close>, \<^verbatim>\<open>handleCompleteSubmit\<close> and the discovery of tasks
  (\<^verbatim>\<open>loadTasks\<close> in the frontend variant, an anonymous \<^verbatim>\<open>useEffect\<close> body in the
  root variant).

  A JavaScript string is a \<^typ>\<open>string\<close>. The workflows look inside a string only to
  find the dot of an outpoint and to cut a description at 128 code units, so one
  \<^typ>\<open>char\<close> stands for one code unit of plain (ASCII) text; the two success toasts
  of redemption are the only literals with other characters, and they are written as
  the bytes of their source file. A \<^verbatim>\<open>number[]\<close> byte array is a
  list of naturals and \<^verbatim>\<open>undefined\<close> is \<^term>\<open>None\<close>. A workflow runs from the state
  it starts in to the state it leaves, with no other handler in between.
\<close>

type_synonym bytes = "nat list"

type_synonym WalletProtocol = "nat \<times> string"

subsection \<open>JavaScript numbers\<close>

text \<open>
  A \<^verbatim>\<open>number\<close> is NaN, an infinity or a finite value; the finite doubles are
  rationals, and the code only compares and copies them.
\<close>

datatype number = NaN | NegInfinity | Finite rat | PosInfinity

fun isNaN :: "number \<Rightarrow> bool" where
  "isNaN NaN = True"
| "isNaN _ = False"

text \<open>The operator \<^verbatim>\<open>===\<close> on numbers: NaN equals nothing.\<close>

fun strictEq :: "number \<Rightarrow> number \<Rightarrow> bool" where
  "strictEq NaN _ = False"
| "strictEq _ NaN = False"
| "strictEq a b = (a = b)"

text \<open>The operator \<^verbatim>\<open><\<close> on numbers: false as soon as one side is NaN.\<close>

fun lessThan_js :: "number \<Rightarrow> number \<Rightarrow> bool" where
  "lessThan_js NaN _ = False"
| "lessThan_js _ NaN = False"
| "lessThan_js PosInfinity _ = False"
| "lessThan_js _ NegInfinity = False"
| "lessThan_js NegInfinity _ = True"
| "lessThan_js _ PosInfinity = True"
| "lessThan_js (Finite a) (Finite b) = (a < b)"

subsection \<open>Errors, scripts, transactions\<close>

text \<open>
  A thrown value, as the handlers read it: \<^verbatim>\<open>(e as Error).message\<close> and
  \<^verbatim>\<open>(e as any).code\<close>.
\<close>

datatype error = Error (message: string) (code: "string option")

text \<open>
  Reading a property of \<^verbatim>\<open>undefined\<close> throws a TypeError; its message text is
  chosen by the JavaScript engine (here the text of V8, with the name of the property
  between single quotes).
\<close>

definition TypeError_undefined :: "string \<Rightarrow> error" where
  "TypeError_undefined prop =
     Error (''Cannot read properties of undefined (reading '' @ [CHR 0x27] @ prop
              @ [CHR 0x27] @ '')'') None"

text \<open>A \<^verbatim>\<open>LockingScript\<close> object, identified with its serialisation \<^verbatim>\<open>toHex()\<close>.\<close>

datatype LockingScript = LockingScript (toHex: string)

datatype UnlockingScript = UnlockingScript (us_toHex: string)

record TransactionOutput =
  out_lockingScript :: LockingScript

record Transaction =
  tx_outputs :: "TransactionOutput list"

datatype Beef = Beef bytes

datatype ChainTracker = ChainTracker string

subsection \<open>The Task of \<^verbatim>\<open>types/types.d.ts\<close>\<close>

record Task =
  task :: string
  sats :: number
  outpoint :: string
  lockingScript :: string
  beef :: "bytes option"

text \<open>
  Task objects are compared by reference (\<^verbatim>\<open>task !== selectedTask\<close>,
  \<^verbatim>\<open>x === selectedTask\<close>), so an object is its address together with its
  (never mutated) content.
\<close>

type_synonym 'a obj = "nat \<times> 'a"

subsection \<open>Arguments and results of the wallet interface\<close>

record WalletOutput =
  wo_outpoint :: string
  wo_satoshis :: "number option"

record ListOutputsArgs =
  lo_basket :: string
  lo_include :: string
  lo_limit :: "nat option"

record ListOutputsResult =
  lr_outputs :: "WalletOutput list"
  lr_BEEF :: "bytes option"

record CreateActionOutput =
  co_lockingScript :: string
  co_satoshis :: number
  co_basket :: string
  co_outputDescription :: string

record CreateActionInput =
  ci_inputDescription :: string
  ci_outpoint :: string
  ci_unlockingScriptLength :: nat

record CreateActionOptions =
  randomizeOutputs :: "bool option"
  acceptDelayedBroadcast :: "bool option"

record CreateActionArgs =
  ca_description :: string
  ca_inputBEEF :: "bytes option"
  ca_inputs :: "CreateActionInput list"
  ca_outputs :: "CreateActionOutput list"
  ca_options :: CreateActionOptions

record SignableTransaction =
  st_tx :: bytes
  st_reference :: string

record CreateActionResult =
  cr_txid :: "string option"
  cr_tx :: "bytes option"
  cr_signableTransaction :: "SignableTransaction option"

record SignActionArgs =
  sa_reference :: string
  sa_spends :: "(nat \<times> string) list"

datatype SignActionResult = SignActionResult "string option" "bytes option"

text \<open>
  The object that \<^verbatim>\<open>new PushDrop(walletClient).unlock(...)\<close> returns keeps the seven
  arguments it was built from.
\<close>

record Unlocker =
  u_protocolID :: WalletProtocol
  u_keyID :: string
  u_counterparty :: string
  u_signOutputs :: string
  u_anyoneCanPay :: bool
  u_sourceSatoshis :: number
  u_lockingScript :: LockingScript

definition unlock :: "WalletProtocol \<Rightarrow> string \<Rightarrow> string \<Rightarrow> string \<Rightarrow> bool \<Rightarrow> number
    \<Rightarrow> LockingScript \<Rightarrow> Unlocker" where
  "unlock protocolID keyID counterparty signOutputs anyoneCanPay sourceSatoshis ls =
     \<lparr>u_protocolID = protocolID, u_keyID = keyID, u_counterparty = counterparty,
      u_signOutputs = signOutputs, u_anyoneCanPay = anyoneCanPay,
      u_sourceSatoshis = sourceSatoshis, u_lockingScript = ls\<rparr>"

subsection \<open>The external collaborators\<close>

text \<open>
  The Signing Service (\<^verbatim>\<open>WalletClient\<close>), the script builder (\<^verbatim>\<open>PushDrop\<close>), the
  parsers of \<^verbatim>\<open>@bsv/sdk\<close> and the Chain Verifier are not code of this repository.
  They are a parameter of every workflow: a record of the answers they give, where
  \<^term>\<open>Inl\<close> is a thrown error or a rejected promise.
\<close>

record sdk =
  toArray :: "string \<Rightarrow> bytes"
  toUTF8 :: "bytes \<Rightarrow> string"
  encrypt :: "bytes \<Rightarrow> WalletProtocol \<Rightarrow> string \<Rightarrow> error + bytes"
  decrypt :: "bytes option \<Rightarrow> WalletProtocol \<Rightarrow> string \<Rightarrow> error + bytes"
  lock :: "bytes list \<Rightarrow> WalletProtocol \<Rightarrow> string \<Rightarrow> string \<Rightarrow> error + LockingScript"
  decode :: "LockingScript \<Rightarrow> error + bytes list"
  fromHex :: "string \<Rightarrow> error + LockingScript"
  sign :: "Unlocker \<Rightarrow> Transaction \<Rightarrow> nat \<Rightarrow> error + UnlockingScript"
  createAction :: "CreateActionArgs \<Rightarrow> error + CreateActionResult"
  signAction :: "SignActionArgs \<Rightarrow> error + SignActionResult"
  listOutputs :: "ListOutputsArgs \<Rightarrow> error + ListOutputsResult"
  fromBEEF :: "bytes option \<Rightarrow> string option \<Rightarrow> error + Transaction"
  fromBinary :: "bytes option \<Rightarrow> error + Beef"
  toBinary :: "Beef \<Rightarrow> bytes"
  getChainTracker :: "string \<Rightarrow> error + ChainTracker"
  verify :: "Beef \<Rightarrow> ChainTracker \<Rightarrow> bool \<Rightarrow> error + bool"

text \<open>Every call that leaves the component is recorded, with its arguments.\<close>

datatype call =
    CallEncrypt bytes WalletProtocol string
  | CallDecrypt "bytes option" WalletProtocol string
  | CallLock "bytes list" WalletProtocol string string
  | CallCreateAction CreateActionArgs
  | CallSignAction SignActionArgs
  | CallListOutputs ListOutputsArgs
  | CallUnlock Unlocker
  | CallSign Unlocker Transaction nat
  | CallGetChainTracker string
  | CallVerify Beef ChainTracker bool

subsection \<open>The component's state and what the user sees\<close>

datatype toast = ToastError string | ToastDark string

datatype consoleEntry =
    ConsoleError error
  | ConsoleErrorLabelled string error
  | ConsoleLog SignActionResult

text \<open>
  The \<^verbatim>\<open>useState\<close> variables of \<^verbatim>\<open>App\<close>, then the toasts shown, the console
  output, the calls issued and the next free object address. The flag
  \<^verbatim>\<open>isMncMissing\<close> of the availability poll is left out: no workflow reads or
  writes it.
\<close>

record app =
  createOpen :: bool
  createTask :: string
  createAmount :: number
  createLoading :: bool
  tasksLoading :: bool
  tasks :: "Task obj list"
  completeOpen :: bool
  selectedTask :: "Task obj option"
  completeLoading :: bool
  toasts :: "toast list"
  console :: "consoleEntry list"
  calls :: "call list"
  nextRef :: nat

definition toast_error :: "string \<Rightarrow> app \<Rightarrow> app" where
  "toast_error msg s = s\<lparr>toasts := toasts s @ [ToastError msg]\<rparr>"

definition toast_dark :: "string \<Rightarrow> app \<Rightarrow> app" where
  "toast_dark msg s = s\<lparr>toasts := toasts s @ [ToastDark msg]\<rparr>"

definition console_error :: "error \<Rightarrow> app \<Rightarrow> app" where
  "console_error e s = s\<lparr>console := console s @ [ConsoleError e]\<rparr>"

definition console_log :: "SignActionResult \<Rightarrow> app \<Rightarrow> app" where
  "console_log r s = s\<lparr>console := console s @ [ConsoleLog r]\<rparr>"

definition issue :: "call \<Rightarrow> app \<Rightarrow> app" where
  "issue c s = s\<lparr>calls := calls s @ [c]\<rparr>"

text \<open>An object literal evaluated: a fresh address.\<close>

definition new_obj :: "'a \<Rightarrow> nat \<Rightarrow> 'a obj \<times> nat" where
  "new_obj v n = ((n, v), Suc n)"

subsection \<open>Constants and string helpers\<close>

definition TODO_PROTO_ADDR :: string where
  "TODO_PROTO_ADDR = ''1ToDoDtKreEzbHYKFjmoBuduFmSXXUGZG''"

definition PROTOCOL_ID :: WalletProtocol where
  "PROTOCOL_ID = (0, ''todo list'')"

definition KEY_ID :: string where
  "KEY_ID = ''1''"

definition DEFAULT_CREATE_AMOUNT :: number where
  "DEFAULT_CREATE_AMOUNT = Finite 1"

text \<open>\<^verbatim>\<open>s.split('.')[0]\<close>: the text before the first dot, all of it when there is none.\<close>

definition split_dot_0 :: "string \<Rightarrow> string" where
  "split_dot_0 s = takeWhile (\<lambda>c. c \<noteq> CHR ''.'') s"

text \<open>A string-typed variable inside a template literal.\<close>

definition template :: "string option \<Rightarrow> string" where
  "template v = (case v of None \<Rightarrow> ''undefined'' | Some t \<Rightarrow> t)"

text \<open>An array index inside a template literal: its decimal digits.\<close>

definition digit :: "nat \<Rightarrow> char" where
  "digit d = char_of (48 + d)"

function toString_nat :: "nat \<Rightarrow> string" where
  "toString_nat n = (if n < 10 then [digit n] else toString_nat (n div 10) @ [digit (n mod 10)])"
  by pat_completeness auto
termination
  by (relation "measure id") auto

text \<open>\<^verbatim>\<open>xs[i]\<close> read out of range is \<^verbatim>\<open>undefined\<close>.\<close>

definition at_index :: "'a list \<Rightarrow> nat \<Rightarrow> 'a option" where
  "at_index xs i = (if i < length xs then Some (xs ! i) else None)"

section \<open>Creation\<close>

text \<open>
  The argument of \<^verbatim>\<open>createAction\<close> at creation: one output that carries the script
  and the amount of the form. The variants differ in \<^verbatim>\<open>acceptDelayedBroadcast\<close> only.
\<close>

definition create_args :: "bool \<Rightarrow> app \<Rightarrow> LockingScript \<Rightarrow> CreateActionArgs" where
  "create_args delayed s bitcoinOutputScript =
     \<lparr>ca_description = ''Create a TODO task: '' @ createTask s,
      ca_inputBEEF = None,
      ca_inputs = [],
      ca_outputs = [\<lparr>co_lockingScript = toHex bitcoinOutputScript,
                     co_satoshis = createAmount s,
                     co_basket = ''todo tokens'',
                     co_outputDescription = ''New ToDo list item''\<rparr>],
      ca_options = \<lparr>randomizeOutputs = Some False, acceptDelayedBroadcast = Some delayed\<rparr>\<rparr>"

text \<open>
  The \<^verbatim>\<open>try\<close> block of \<^verbatim>\<open>handleCreateSubmit\<close> in \<^verbatim>\<open>frontend/src/App.tsx\<close>. The
  result is the error thrown, if any, and the state reached. The names
  \<^verbatim>\<open>createTask\<close>, \<^verbatim>\<open>createAmount\<close> and \<^verbatim>\<open>tasks\<close> are the values captured when the
  handler started.
\<close>

definition handleCreateSubmit_frontend_try :: "sdk \<Rightarrow> app \<Rightarrow> error option \<times> app" where
  "handleCreateSubmit_frontend_try sv s =
    (if createTask s = [] then (None, toast_error ''Enter a task to complete!'' s)
     else if strictEq (createAmount s) (Finite 0) \<or> isNaN (createAmount s)
       then (None, toast_error ''Enter an amount for the new task!'' s)
     else if lessThan_js (createAmount s) (Finite 1)
       then (None, toast_error ''The amount must at least 1 satoshi!'' s)
     else
       let s1 = s\<lparr>createLoading := True\<rparr>;
           plaintext = toArray sv (createTask s);
           s2 = issue (CallEncrypt plaintext PROTOCOL_ID KEY_ID) s1
       in (case encrypt sv plaintext PROTOCOL_ID KEY_ID of
            Inl e \<Rightarrow> (Some e, s2)
          | Inr encryptedTask \<Rightarrow>
              let payload = [toArray sv TODO_PROTO_ADDR, encryptedTask];
                  s3 = issue (CallLock payload PROTOCOL_ID KEY_ID ''self'') s2
              in (case lock sv payload PROTOCOL_ID KEY_ID ''self'' of
                   Inl e \<Rightarrow> (Some e, s3)
                 | Inr bitcoinOutputScript \<Rightarrow>
                     let args = create_args True s bitcoinOutputScript;
                         s4 = issue (CallCreateAction args) s3
                     in (case createAction sv args of
                          Inl e \<Rightarrow> (Some e, s4)
                        | Inr newToDoToken \<Rightarrow>
                            let (newTask, n) = new_obj
                                  \<lparr>task = createTask s,
                                   sats = createAmount s,
                                   outpoint = template (cr_txid newToDoToken) @ ''.0'',
                                   lockingScript = toHex bitcoinOutputScript,
                                   beef = cr_tx newToDoToken\<rparr> (nextRef s4);
                                s5 = s4\<lparr>nextRef := n, tasks := newTask # tasks s\<rparr>;
                                s6 = s5\<lparr>createLoading := False\<rparr>;
                                s7 = toast_dark ''Task successfully created!'' s6
                            in (None, s7\<lparr>createTask := [],
                                         createAmount := DEFAULT_CREATE_AMOUNT,
                                         createOpen := False\<rparr>)))))"

text \<open>The whole handler: the \<^verbatim>\<open>catch\<close> block shows the message and logs the error.\<close>

definition handleCreateSubmit_frontend :: "sdk \<Rightarrow> app \<Rightarrow> app" where
  "handleCreateSubmit_frontend sv s =
    (case handleCreateSubmit_frontend_try sv s of
       (None, s') \<Rightarrow> s'
     | (Some e, s') \<Rightarrow> (console_error e (toast_error (message e) s'))\<lparr>createLoading := False\<rparr>)"


text \<open>
  \<^verbatim>\<open>handleCreateSubmit\<close> in \<^verbatim>\<open>src/App.tsx\<close>: another wording of the third message,
  immediate broadcast, the toast before the list update, 1000 as the amount the form
  goes back to.
\<close>

definition handleCreateSubmit_root_try :: "sdk \<Rightarrow> app \<Rightarrow> error option \<times> app" where
  "handleCreateSubmit_root_try sv s =
    (if createTask s = [] then (None, toast_error ''Enter a task to complete!'' s)
     else if strictEq (createAmount s) (Finite 0) \<or> isNaN (createAmount s)
       then (None, toast_error ''Enter an amount for the new task!'' s)
     else if lessThan_js (createAmount s) (Finite 1)
       then (None, toast_error ''The amount must be more than 1 satoshis!'' s)
     else
       let s1 = s\<lparr>createLoading := True\<rparr>;
           plaintext = toArray sv (createTask s);
           s2 = issue (CallEncrypt plaintext (0, ''todo list'') ''1'') s1
       in (case encrypt sv plaintext (0, ''todo list'') ''1'' of
            Inl e \<Rightarrow> (Some e, s2)
          | Inr encryptedTask \<Rightarrow>
              let payload = [toArray sv TODO_PROTO_ADDR, encryptedTask];
                  s3 = issue (CallLock payload (0, ''todo list'') ''1'' ''self'') s2
              in (case lock sv payload (0, ''todo list'') ''1'' ''self'' of
                   Inl e \<Rightarrow> (Some e, s3)
                 | Inr bitcoinOutputScript \<Rightarrow>
                     let args = create_args False s bitcoinOutputScript;
                         s4 = issue (CallCreateAction args) s3
                     in (case createAction sv args of
                          Inl e \<Rightarrow> (Some e, s4)
                        | Inr newToDoToken \<Rightarrow>
                            let s5 = toast_dark ''Task successfully created!'' s4;
                                (newTask, n) = new_obj
                                  \<lparr>task = createTask s,
                                   sats = createAmount s,
                                   outpoint = template (cr_txid newToDoToken) @ ''.0'',
                                   lockingScript = toHex bitcoinOutputScript,
                                   beef = cr_tx newToDoToken\<rparr> (nextRef s5);
                                s6 = s5\<lparr>nextRef := n, tasks := newTask # tasks s\<rparr>
                            in (None, s6\<lparr>createTask := [],
                                         createAmount := Finite 1000,
                                         createOpen := False\<rparr>)))))"

text \<open>Here \<^verbatim>\<open>setCreateLoading(false)\<close> is in a \<^verbatim>\<open>finally\<close> block: it runs on every path.\<close>

definition handleCreateSubmit_root :: "sdk \<Rightarrow> app \<Rightarrow> app" where
  "handleCreateSubmit_root sv s =
    (case handleCreateSubmit_root_try sv s of
       (None, s') \<Rightarrow> s'\<lparr>createLoading := False\<rparr>
     | (Some e, s') \<Rightarrow> (console_error e (toast_error (message e) s'))\<lparr>createLoading := False\<rparr>)"

section \<open>Redemption\<close>

text \<open>
  The description shown by the wallet, cut at 128 code units. \<^verbatim>\<open>description.length\<close>
  and \<^verbatim>\<open>substring(0, 128)\<close> count UTF-16 code units, \<^term>\<open>length\<close> and \<^term>\<open>take\<close>
  count the \<^typ>\<open>char\<close>s of the model: the two agree on every task text of plain ASCII,
  and the cut may fall elsewhere in a text with other characters.
\<close>

definition complete_description :: "Task \<Rightarrow> string" where
  "complete_description t =
     (let description = ''Complete a TODO task: '' @ [CHR 0x22] @ task t @ [CHR 0x22]
      in if length description > 128 then take 128 description else description)"

text \<open>
  The argument of \<^verbatim>\<open>createAction\<close> at redemption: one input that names the outpoint of
  the Task and reserves 73 bytes for the unlocking script. The variants differ in the
  evidence they attach and in \<^verbatim>\<open>acceptDelayedBroadcast\<close>, which the root variant leaves
  out.
\<close>

definition complete_args :: "bytes option \<Rightarrow> bool option \<Rightarrow> Task \<Rightarrow> CreateActionArgs" where
  "complete_args inputBEEF delayed t =
     \<lparr>ca_description = complete_description t,
      ca_inputBEEF = inputBEEF,
      ca_inputs = [\<lparr>ci_inputDescription = ''Complete a ToDo list item'',
                    ci_outpoint = outpoint t,
                    ci_unlockingScriptLength = 73\<rparr>],
      ca_outputs = [],
      ca_options = \<lparr>randomizeOutputs = Some False, acceptDelayedBroadcast = delayed\<rparr>\<rparr>"

text \<open>
  The text of the success toast, with its last characters as the bytes of the source
  file: in \<^verbatim>\<open>src/App.tsx\<close> the four bytes of an emoji, in \<^verbatim>\<open>frontend/src/App.tsx\<close>
  the nine bytes that the same emoji became when the file was saved in another
  encoding.
\<close>

definition congrats :: string where
  "congrats = ''Congrats! Task complete '' @ [CHR 0xF0, CHR 0x9F, CHR 0x8E, CHR 0x89]"

definition congrats_frontend :: string where
  "congrats_frontend =
     ''Congrats! Task complete '' @ [CHR 0xC3, CHR 0xB0, CHR 0xC5, CHR 0xB8, CHR 0xC5, CHR 0xBD,
                                    CHR 0xE2, CHR 0x80, CHR 0xB0]"

text \<open>
  \<^verbatim>\<open>openCompleteModal(task)\<close>, the click on an entry of the list: the Task becomes the
  selected one and the dialog opens.
\<close>

definition openCompleteModal :: "Task obj \<Rightarrow> app \<Rightarrow> app" where
  "openCompleteModal x s = s\<lparr>selectedTask := Some x, completeOpen := True\<rparr>"

text \<open>
  The \<^verbatim>\<open>try\<close> block of \<^verbatim>\<open>handleCompleteSubmit\<close> in \<^verbatim>\<open>frontend/src/App.tsx\<close>. This
  variant hands the stored evidence to \<^verbatim>\<open>createAction\<close> without verifying it.
\<close>

definition handleCompleteSubmit_frontend_try :: "sdk \<Rightarrow> app \<Rightarrow> error option \<times> app" where
  "handleCompleteSubmit_frontend_try sv s =
    (let s1 = s\<lparr>completeLoading := True\<rparr>
     in case selectedTask s of
          None \<Rightarrow> (Some (Error ''selectedTask does not exist'' None), s1)
        | Some sel \<Rightarrow>
            let args = complete_args (beef (snd sel)) (Some True) (snd sel);
                s2 = issue (CallCreateAction args) s1
            in (case createAction sv args of
                 Inl e \<Rightarrow> (Some e, s2)
               | Inr res \<Rightarrow>
                  (case cr_signableTransaction res of
                     None \<Rightarrow> (Some (Error ''Failed to create signable transaction'' None), s2)
                   | Some signableTransaction \<Rightarrow>
                      (case fromBEEF sv (Some (st_tx signableTransaction)) None of
                         Inl e \<Rightarrow> (Some e, s2)
                       | Inr partialTx \<Rightarrow>
                          (case fromHex sv (lockingScript (snd sel)) of
                             Inl e \<Rightarrow> (Some e, s2)
                           | Inr ls \<Rightarrow>
                              let unlocker = unlock PROTOCOL_ID KEY_ID ''self'' ''all'' False
                                               (sats (snd sel)) ls;
                                  s3 = issue (CallUnlock unlocker) s2;
                                  s4 = issue (CallSign unlocker partialTx 0) s3
                              in (case sign sv unlocker partialTx 0 of
                                   Inl e \<Rightarrow> (Some e, s4)
                                 | Inr unlockingScript \<Rightarrow>
                                    let sargs = \<lparr>sa_reference = st_reference signableTransaction,
                                                 sa_spends = [(0, us_toHex unlockingScript)]\<rparr>;
                                        s5 = issue (CallSignAction sargs) s4
                                    in (case signAction sv sargs of
                                         Inl e \<Rightarrow> (Some e, s5)
                                       | Inr signResult \<Rightarrow>
                                          let s6 = s5\<lparr>completeLoading := False,
                                                      completeOpen := False\<rparr>;
                                              s7 = toast_dark congrats_frontend
                                                     (console_log signResult s6);
                                              s8 = s7\<lparr>tasks :=
                                                     filter (\<lambda>task. fst task \<noteq> fst sel) (tasks s7)\<rparr>
                                          in (None, s8\<lparr>selectedTask := None\<rparr>))))))))"

text \<open>
  Both variants end \<^verbatim>\<open>handleCompleteSubmit\<close> alike: the \<^verbatim>\<open>catch\<close> block shows the
  message after a fixed prefix and logs the error, the \<^verbatim>\<open>finally\<close> block stops
  the loading bar.
\<close>

definition complete_catch_finally :: "error option \<times> app \<Rightarrow> app" where
  "complete_catch_finally r =
    (case r of
       (None, s') \<Rightarrow> s'\<lparr>completeLoading := False\<rparr>
     | (Some e, s') \<Rightarrow>
         (console_error e (toast_error (''Error completing task: '' @ message e) s'))
           \<lparr>completeLoading := False\<rparr>)"

definition handleCompleteSubmit_frontend :: "sdk \<Rightarrow> app \<Rightarrow> app" where
  "handleCompleteSubmit_frontend sv s =
     complete_catch_finally (handleCompleteSubmit_frontend_try sv s)"

text \<open>\<^verbatim>\<open>findIndex\<close> gives -1 when nothing matches; \<^verbatim>\<open>splice(index, 1)\<close> drops one element.\<close>

fun findIndex :: "('a \<Rightarrow> bool) \<Rightarrow> 'a list \<Rightarrow> int" where
  "findIndex P [] = -1"
| "findIndex P (x # xs) =
     (if P x then 0 else (let i = findIndex P xs in if i = -1 then -1 else i + 1))"

definition splice1 :: "nat \<Rightarrow> 'a list \<Rightarrow> 'a list" where
  "splice1 i xs = take i xs @ drop (Suc i) xs"

text \<open>
  The \<^verbatim>\<open>try\<close> block of \<^verbatim>\<open>handleCompleteSubmit\<close> in \<^verbatim>\<open>src/App.tsx\<close>. This variant
  parses the stored evidence and asks the Chain Verifier about it; the answer is
  bound to \<^verbatim>\<open>ok\<close>, a constant the rest of the function never reads. The same holds
  for \<^verbatim>\<open>txid\<close>.
\<close>

definition handleCompleteSubmit_root_try :: "sdk \<Rightarrow> app \<Rightarrow> error option \<times> app" where
  "handleCompleteSubmit_root_try sv s =
    (let s1 = s\<lparr>completeLoading := True\<rparr>
     in case selectedTask s of
          None \<Rightarrow> (Some (Error ''selectedTask does not exist'' None), s1)
        | Some sel \<Rightarrow>
            let txid = split_dot_0 (outpoint (snd sel))
            in (case fromBinary sv (beef (snd sel)) of
                 Inl e \<Rightarrow> (Some e, s1)
               | Inr loadedBeef \<Rightarrow>
                  let s2 = issue (CallGetChainTracker ''main'') s1
                  in (case getChainTracker sv ''main'' of
                       Inl e \<Rightarrow> (Some e, s2)
                     | Inr tracker \<Rightarrow>
                        let s3 = issue (CallVerify loadedBeef tracker True) s2
                        in (case verify sv loadedBeef tracker True of
                             Inl e \<Rightarrow> (Some e, s3)
                           | Inr ok \<Rightarrow>
    let args = complete_args (Some (toBinary sv loadedBeef)) None (snd sel);
        s4 = issue (CallCreateAction args) s3
    in (case createAction sv args of
         Inl e \<Rightarrow> (Some e, s4)
       | Inr res \<Rightarrow>
          (case cr_signableTransaction res of
             None \<Rightarrow> (Some (Error ''Failed to create signable transaction'' None), s4)
           | Some signableTransaction \<Rightarrow>
              (case fromBEEF sv (Some (st_tx signableTransaction)) None of
                 Inl e \<Rightarrow> (Some e, s4)
               | Inr partialTx \<Rightarrow>
                  (case fromHex sv (lockingScript (snd sel)) of
                     Inl e \<Rightarrow> (Some e, s4)
                   | Inr ls \<Rightarrow>
                      let unlocker = unlock (0, ''todo list'') ''1'' ''self'' ''all'' False
                                       (sats (snd sel)) ls;
                          s5 = issue (CallUnlock unlocker) s4;
                          s6 = issue (CallSign unlocker partialTx 0) s5
                      in (case sign sv unlocker partialTx 0 of
                           Inl e \<Rightarrow> (Some e, s6)
                         | Inr unlockingScript \<Rightarrow>
                            let sargs = \<lparr>sa_reference = st_reference signableTransaction,
                                         sa_spends = [(0, us_toHex unlockingScript)]\<rparr>;
                                s7 = issue (CallSignAction sargs) s6
                            in (case signAction sv sargs of
                                 Inl e \<Rightarrow> (Some e, s7)
                               | Inr signResult \<Rightarrow>
                                  let s8 = toast_dark congrats (console_log signResult s7);
                                      index = findIndex (\<lambda>x. fst x = fst sel) (tasks s8);
                                      s9 = s8\<lparr>tasks := (if index > -1
                                                         then splice1 (nat index) (tasks s8)
                                                         else tasks s8)\<rparr>
                                  in (None, s9\<lparr>selectedTask := None,
                                               completeOpen := False\<rparr>)))))))))))"

definition handleCompleteSubmit_root :: "sdk \<Rightarrow> app \<Rightarrow> app" where
  "handleCompleteSubmit_root sv s =
     complete_catch_finally (handleCompleteSubmit_root_try sv s)"

text \<open>
  The error that a redemption throws once \<^verbatim>\<open>createAction\<close> has answered, if any: the
  phases that follow are the same in both variants.
\<close>

definition complete_throws :: "sdk \<Rightarrow> Task \<Rightarrow> CreateActionResult \<Rightarrow> error option" where
  "complete_throws sv t res =
    (case cr_signableTransaction res of
       None \<Rightarrow> Some (Error ''Failed to create signable transaction'' None)
     | Some signableTransaction \<Rightarrow>
        (case fromBEEF sv (Some (st_tx signableTransaction)) None of
           Inl e \<Rightarrow> Some e
         | Inr partialTx \<Rightarrow>
            (case fromHex sv (lockingScript t) of
               Inl e \<Rightarrow> Some e
             | Inr ls \<Rightarrow>
                (case sign sv (unlock PROTOCOL_ID KEY_ID ''self'' ''all'' False (sats t) ls)
                        partialTx 0 of
                   Inl e \<Rightarrow> Some e
                 | Inr unlockingScript \<Rightarrow>
                    (case signAction sv \<lparr>sa_reference = st_reference signableTransaction,
                                         sa_spends = [(0, us_toHex unlockingScript)]\<rparr> of
                       Inl e \<Rightarrow> Some e
                     | Inr signResult \<Rightarrow> None)))))"

section \<open>Discovery\<close>

text \<open>
  Discovery maps an \<^verbatim>\<open>async\<close> callback over the outputs of the basket and awaits
  \<^verbatim>\<open>Promise.all\<close> of the promises. \<^verbatim>\<open>map\<close> calls the callback on each output in
  turn, and each call runs until its first \<^verbatim>\<open>await\<close> (the one on \<^verbatim>\<open>decrypt\<close>) or
  until it throws; the code after the \<^verbatim>\<open>await\<close> runs only once \<^verbatim>\<open>map\<close> has returned.
  The variable \<^verbatim>\<open>txid\<close> is declared outside the callback, so all the calls write to
  the same variable and the code after the \<^verbatim>\<open>await\<close> reads what the last call left
  there. The model follows this in two passes.
\<close>

text \<open>What a suspended callback still holds: the output, its index, the script and the ciphertext.\<close>

type_synonym pending = "nat \<times> WalletOutput \<times> LockingScript \<times> bytes option"

text \<open>
  First pass, one call in \<^verbatim>\<open>frontend/src/App.tsx\<close>: the value written to \<^verbatim>\<open>txid\<close>, and
  either the error caught by the callback's own \<^verbatim>\<open>catch\<close> or the suspended state.
\<close>

definition loadTasks_callback_frontend ::
    "sdk \<Rightarrow> bytes option \<Rightarrow> nat \<times> WalletOutput \<Rightarrow> string \<times> (error + pending)" where
  "loadTasks_callback_frontend sv BEEF = (\<lambda>(i, out).
     let txid = split_dot_0 (wo_outpoint out)
     in (txid,
         case fromBEEF sv BEEF (Some txid) of
           Inl e \<Rightarrow> Inl e
         | Inr tx \<Rightarrow>
            (case tx_outputs tx of
               [] \<Rightarrow> Inl (TypeError_undefined ''lockingScript'')
             | out0 # _ \<Rightarrow>
                let lockingScript = out_lockingScript out0
                in (case decode sv lockingScript of
                     Inl e \<Rightarrow> Inl e
                   | Inr decodedTask \<Rightarrow>
                      let encryptedTask = at_index decodedTask 1
                      in Inr (i, out, lockingScript, encryptedTask)))))"

text \<open>
  The same in \<^verbatim>\<open>src/App.tsx\<close>: the transaction is looked up under the output's own
  \<^verbatim>\<open>outpoint.split('.')[0]\<close>, which is also what is written to \<^verbatim>\<open>txid\<close>.
\<close>

definition loadTasks_callback_root ::
    "sdk \<Rightarrow> bytes option \<Rightarrow> nat \<times> WalletOutput \<Rightarrow> string \<times> (error + pending)" where
  "loadTasks_callback_root sv BEEF = (\<lambda>(i, out).
     let txid = split_dot_0 (wo_outpoint out)
     in (txid,
         case fromBEEF sv BEEF (Some (split_dot_0 (wo_outpoint out))) of
           Inl e \<Rightarrow> Inl e
         | Inr tx \<Rightarrow>
            (case tx_outputs tx of
               [] \<Rightarrow> Inl (TypeError_undefined ''lockingScript'')
             | out0 # _ \<Rightarrow>
                let lockingScript = out_lockingScript out0
                in (case decode sv lockingScript of
                     Inl e \<Rightarrow> Inl e
                   | Inr decodedTask \<Rightarrow>
                      let encryptedTask = at_index decodedTask 1
                      in Inr (i, out, lockingScript, encryptedTask)))))"

text \<open>\<^verbatim>\<open>map\<close> over the outputs: the calls in order, each overwriting \<^verbatim>\<open>txid\<close>.\<close>

fun map_async_start ::
    "('a \<Rightarrow> string \<times> 'r) \<Rightarrow> 'a list \<Rightarrow> string option \<Rightarrow> 'r list \<times> string option" where
  "map_async_start f [] txid = ([], txid)"
| "map_async_start f (x # xs) txid =
     (let (txid', r) = f x;
          (rs, txid'') = map_async_start f xs (Some txid')
      in (r # rs, txid''))"

text \<open>
  Second pass: a callback resumed with the answer of \<^verbatim>\<open>decrypt\<close>. It reads \<^verbatim>\<open>txid\<close>
  now. The frontend variant writes output index 0 into the outpoint, the root
  variant the position of the output in the list.
\<close>

definition loadTasks_resume_frontend ::
    "sdk \<Rightarrow> bytes option \<Rightarrow> string option \<Rightarrow> pending \<Rightarrow> error + Task" where
  "loadTasks_resume_frontend sv BEEF txid = (\<lambda>(i, out, lockingScript, encryptedTask).
     case decrypt sv encryptedTask PROTOCOL_ID KEY_ID of
       Inl e \<Rightarrow> Inl e
     | Inr plaintext \<Rightarrow>
         Inr \<lparr>task = toUTF8 sv plaintext,
              sats = (case wo_satoshis out of None \<Rightarrow> Finite 0 | Some v \<Rightarrow> v),
              outpoint = template txid @ ''.0'',
              lockingScript = toHex lockingScript,
              beef = BEEF\<rparr>)"

definition loadTasks_resume_root ::
    "sdk \<Rightarrow> bytes option \<Rightarrow> string option \<Rightarrow> pending \<Rightarrow> error + Task" where
  "loadTasks_resume_root sv BEEF txid = (\<lambda>(i, out, lockingScript, encryptedTask).
     case decrypt sv encryptedTask (0, ''todo list'') ''1'' of
       Inl e \<Rightarrow> Inl e
     | Inr plaintext \<Rightarrow>
         Inr \<lparr>task = toUTF8 sv plaintext,
              sats = (case wo_satoshis out of None \<Rightarrow> Finite 0 | Some v \<Rightarrow> v),
              outpoint = template txid @ ''.'' @ toString_nat i,
              lockingScript = toHex lockingScript,
              beef = BEEF\<rparr>)"

fun lefts :: "('a + 'b) list \<Rightarrow> 'a list" where
  "lefts [] = []"
| "lefts (Inl a # xs) = a # lefts xs"
| "lefts (Inr b # xs) = lefts xs"

fun rights :: "('a + 'b) list \<Rightarrow> 'b list" where
  "rights [] = []"
| "rights (Inl a # xs) = rights xs"
| "rights (Inr b # xs) = b # rights xs"

definition decrypt_call :: "WalletProtocol \<Rightarrow> string \<Rightarrow> pending \<Rightarrow> call" where
  "decrypt_call protocolID keyID = (\<lambda>(i, out, lockingScript, encryptedTask).
     CallDecrypt encryptedTask protocolID keyID)"

definition decrypt_error_entry :: "error \<Rightarrow> consoleEntry" where
  "decrypt_error_entry e = ConsoleErrorLabelled ''Error decrypting task:'' e"

text \<open>The objects of the list built from the results: one fresh address each.\<close>

definition new_objs :: "'a list \<Rightarrow> nat \<Rightarrow> 'a obj list \<times> nat" where
  "new_objs vs n = (zip [n..<n + length vs] vs, n + length vs)"

text \<open>
  The outcome of \<^verbatim>\<open>Promise.all\<close>, the filter and the reversal, common to both
  variants. \<open>started\<close> is the first pass, \<open>resume\<close> the second. The errors caught
  before the \<^verbatim>\<open>await\<close> reach the console first; those of rejected decryptions
  follow, here in the order of the list (the wallet decides the real order).
\<close>

definition collect_tasks ::
    "(error + pending) list \<Rightarrow> (pending \<Rightarrow> error + Task) \<Rightarrow> (pending \<Rightarrow> call) \<Rightarrow> app \<Rightarrow> app" where
  "collect_tasks started resume dcall s =
    (let s1 = s\<lparr>calls := calls s @ map dcall (rights started)\<rparr>;
         decryptedTasksResults = map (case_sum Inl resume) started;
         s2 = s1\<lparr>console := console s1
                   @ map decrypt_error_entry (lefts started)
                   @ map decrypt_error_entry (lefts (map resume (rights started)))\<rparr>;
         decryptedTasks = rights decryptedTasksResults;
         (objs, n) = new_objs decryptedTasks (nextRef s2)
     in s2\<lparr>nextRef := n, tasks := rev objs\<rparr>)"

text \<open>The argument of \<^verbatim>\<open>listOutputs\<close>: the frontend variant asks for up to 1000 outputs.\<close>

definition listOutputs_args_frontend :: ListOutputsArgs where
  "listOutputs_args_frontend =
     \<lparr>lo_basket = ''todo tokens'', lo_include = ''entire transactions'', lo_limit = Some 1000\<rparr>"

definition listOutputs_args_root :: ListOutputsArgs where
  "listOutputs_args_root =
     \<lparr>lo_basket = ''todo tokens'', lo_include = ''entire transactions'', lo_limit = None\<rparr>"

definition loadTasks_frontend_try :: "sdk \<Rightarrow> app \<Rightarrow> error option \<times> app" where
  "loadTasks_frontend_try sv s =
    (let s1 = s\<lparr>tasksLoading := True\<rparr>;
         largs = listOutputs_args_frontend;
         s2 = issue (CallListOutputs largs) s1
     in case listOutputs sv largs of
          Inl e \<Rightarrow> (Some e, s2)
        | Inr tasksFromBasket \<Rightarrow>
            let BEEF = lr_BEEF tasksFromBasket;
                (started, txid) = map_async_start (loadTasks_callback_frontend sv BEEF)
                                    (enumerate 0 (lr_outputs tasksFromBasket)) None
            in (None, collect_tasks started (loadTasks_resume_frontend sv BEEF txid)
                        (decrypt_call PROTOCOL_ID KEY_ID) s2))"

definition loadTasks_root_try :: "sdk \<Rightarrow> app \<Rightarrow> error option \<times> app" where
  "loadTasks_root_try sv s =
    (let largs = listOutputs_args_root;
         s2 = issue (CallListOutputs largs) s
     in case listOutputs sv largs of
          Inl e \<Rightarrow> (Some e, s2)
        | Inr tasksFromBasket \<Rightarrow>
            let BEEF = lr_BEEF tasksFromBasket;
                (started, txid) = map_async_start (loadTasks_callback_root sv BEEF)
                                    (enumerate 0 (lr_outputs tasksFromBasket)) None
            in (None, collect_tasks started (loadTasks_resume_root sv BEEF txid)
                        (decrypt_call (0, ''todo list'') ''1'') s2))"

text \<open>
  The outer \<^verbatim>\<open>catch\<close> keeps quiet about a wallet that is not running yet; the
  \<^verbatim>\<open>finally\<close> block stops the loading bar.
\<close>

definition load_catch_finally :: "error option \<times> app \<Rightarrow> app" where
  "load_catch_finally r =
    (case r of
       (None, s') \<Rightarrow> s'\<lparr>tasksLoading := False\<rparr>
     | (Some e, s') \<Rightarrow>
         (if code e \<noteq> Some ''ERR_NO_METANET_IDENTITY''
          then console_error e (toast_error (''Failed to load ToDo tasks! Error: '' @ message e) s')
          else s')\<lparr>tasksLoading := False\<rparr>)"

definition loadTasks_frontend :: "sdk \<Rightarrow> app \<Rightarrow> app" where
  "loadTasks_frontend sv s = load_catch_finally (loadTasks_frontend_try sv s)"

definition loadTasks_root :: "sdk \<Rightarrow> app \<Rightarrow> app" where
  "loadTasks_root sv s = load_catch_finally (loadTasks_root_try sv s)"

text \<open>
  The array \<^verbatim>\<open>decryptedTasksResults\<close> that \<^verbatim>\<open>Promise.all\<close> resolves to, for a given
  answer of \<^verbatim>\<open>listOutputs\<close>: position by position the Task built for an output, or
  the error that made its callback return \<^verbatim>\<open>null\<close>.
\<close>

definition decryptedTasksResults_frontend :: "sdk \<Rightarrow> ListOutputsResult \<Rightarrow> (error + Task) list" where
  "decryptedTasksResults_frontend sv tasksFromBasket =
    (let BEEF = lr_BEEF tasksFromBasket;
         (started, txid) = map_async_start (loadTasks_callback_frontend sv BEEF)
                             (enumerate 0 (lr_outputs tasksFromBasket)) None
     in map (case_sum Inl (loadTasks_resume_frontend sv BEEF txid)) started)"

definition decryptedTasksResults_root :: "sdk \<Rightarrow> ListOutputsResult \<Rightarrow> (error + Task) list" where
  "decryptedTasksResults_root sv tasksFromBasket =
    (let BEEF = lr_BEEF tasksFromBasket;
         (started, txid) = map_async_start (loadTasks_callback_root sv BEEF)
                             (enumerate 0 (lr_outputs tasksFromBasket)) None
     in map (case_sum Inl (loadTasks_resume_root sv BEEF txid)) started)"

text \<open>The calls a workflow issued: what it appended to the record of calls.\<close>

definition issued :: "app \<Rightarrow> app \<Rightarrow> call list" where
  "issued s s' = drop (length (calls s)) (calls s')"

section \<open>A test double for the external collaborators\<close>

text \<open>
  A small wallet to run the workflows on: it encrypts by reversing the bytes, writes a
  script as its fields, each followed by a slash, and decodes any such script, whatever
  its first field, as a script builder that is handed nothing but the script has to.
\<close>

fun fake_fields :: "string \<Rightarrow> bytes list" where
  "fake_fields [] = []"
| "fake_fields (c # cs) =
     (if c = CHR ''/'' then [] # fake_fields cs
      else (case fake_fields cs of [] \<Rightarrow> [[of_char c]] | f # fs \<Rightarrow> (of_char c # f) # fs))"

definition fake_lock :: "bytes list \<Rightarrow> LockingScript" where
  "fake_lock flds = LockingScript (concat (map (\<lambda>f. map char_of f @ ''/'') flds))"

definition fake_decode :: "LockingScript \<Rightarrow> error + bytes list" where
  "fake_decode ls =
     (if toHex ls = [] then Inl (Error ''not a PushDrop script'' None)
      else Inr (fake_fields (toHex ls)))"

text \<open>
  The store of the test double holds four outputs, oldest first: \<open>cc.0\<close>, whose script
  does not decode; \<open>aa.0\<close>, created by this application for the task \<open>ab\<close>; \<open>ee.0\<close>,
  whose script has the marker \<open>x\<close> of some other protocol; and \<open>bb.2\<close>, the third
  output of a transaction whose first output is another token of this application.
  The store gives no amount for the last. A second store holds the last three only.
\<close>

definition fake_outputs :: "WalletOutput list" where
  "fake_outputs = [\<lparr>wo_outpoint = ''aa.0'', wo_satoshis = Some (Finite 5)\<rparr>,
                   \<lparr>wo_outpoint = ''ee.0'', wo_satoshis = Some (Finite 9)\<rparr>,
                   \<lparr>wo_outpoint = ''bb.2'', wo_satoshis = None\<rparr>]"

definition fake_store :: ListOutputsResult where
  "fake_store =
     \<lparr>lr_outputs = \<lparr>wo_outpoint = ''cc.0'', wo_satoshis = Some (Finite 7)\<rparr> # fake_outputs,
      lr_BEEF = Some [1]\<rparr>"

definition fake_store_ok :: ListOutputsResult where
  "fake_store_ok = \<lparr>lr_outputs = fake_outputs, lr_BEEF = Some [1]\<rparr>"

definition fake_fromBEEF :: "bytes option \<Rightarrow> string option \<Rightarrow> error + Transaction" where
  "fake_fromBEEF b txid =
     (if txid = Some ''aa'' then
        Inr \<lparr>tx_outputs = [\<lparr>out_lockingScript = fake_lock [map of_char TODO_PROTO_ADDR, [98, 97]]\<rparr>]\<rparr>
      else if txid = Some ''ee'' then
        Inr \<lparr>tx_outputs = [\<lparr>out_lockingScript = fake_lock [[120], [100, 99]]\<rparr>]\<rparr>
      else if txid = Some ''bb'' then
        Inr \<lparr>tx_outputs = [\<lparr>out_lockingScript = fake_lock [map of_char TODO_PROTO_ADDR, [102, 101]]\<rparr>,
                           \<lparr>out_lockingScript = fake_lock [[121]]\<rparr>,
                           \<lparr>out_lockingScript = fake_lock [map of_char TODO_PROTO_ADDR, [104, 103]]\<rparr>]\<rparr>
      else if txid = Some ''cc'' then
        Inr \<lparr>tx_outputs = [\<lparr>out_lockingScript = LockingScript []\<rparr>]\<rparr>
      else if txid = None then Inr \<lparr>tx_outputs = []\<rparr>
      else Inl (Error ''txid not in BEEF'' None))"

definition fake_createAction :: "CreateActionArgs \<Rightarrow> error + CreateActionResult" where
  "fake_createAction args =
     (if ca_inputs args = []
      then Inr \<lparr>cr_txid = Some ''dd'', cr_tx = Some [2], cr_signableTransaction = None\<rparr>
      else Inr \<lparr>cr_txid = None, cr_tx = None,
                cr_signableTransaction = Some \<lparr>st_tx = [3], st_reference = ''ref''\<rparr>\<rparr>)"

definition fake_sdk :: sdk where
  "fake_sdk =
     \<lparr>toArray = map of_char,
      toUTF8 = map char_of,
      encrypt = (\<lambda>plaintext protocolID keyID. Inr (rev plaintext)),
      decrypt = (\<lambda>ciphertext protocolID keyID.
                  case ciphertext of None \<Rightarrow> Inl (Error ''ciphertext missing'' None)
                                   | Some c \<Rightarrow> Inr (rev c)),
      lock = (\<lambda>flds protocolID keyID counterparty. Inr (fake_lock flds)),
      decode = fake_decode,
      fromHex = (\<lambda>h. Inr (LockingScript h)),
      sign = (\<lambda>u tx i. Inr (UnlockingScript ''sig'')),
      createAction = fake_createAction,
      signAction = (\<lambda>a. Inr (SignActionResult (Some ''ee'') None)),
      listOutputs = (\<lambda>a. Inr fake_store),
      fromBEEF = fake_fromBEEF,
      fromBinary = (\<lambda>b. case b of None \<Rightarrow> Inl (Error ''no BEEF'' None) | Some x \<Rightarrow> Inr (Beef x)),
      toBinary = (\<lambda>b. case b of Beef x \<Rightarrow> x),
      getChainTracker = (\<lambda>chain. Inr (ChainTracker chain)),
      verify = (\<lambda>b tracker strict. Inr False)\<rparr>"

text \<open>
  The state of a freshly mounted component of the frontend variant, where the amount
  field starts at \<^verbatim>\<open>DEFAULT_CREATE_AMOUNT\<close>, and of the root variant, where it starts at
  1000; and a component with the form filled in. Discovery and redemption neither read
  nor write the amount field.
\<close>

definition app0 :: app where
  "app0 = \<lparr>createOpen = False, createTask = [], createAmount = Finite 1,
           createLoading = False, tasksLoading = True, tasks = [], completeOpen = False,
           selectedTask = None, completeLoading = False, toasts = [], console = [],
           calls = [], nextRef = 0\<rparr>"

definition app0_root :: app where
  "app0_root = app0\<lparr>createAmount := Finite 1000\<rparr>"

definition app_form :: "string \<Rightarrow> number \<Rightarrow> app" where
  "app_form text amount = app0\<lparr>createOpen := True, createTask := text, createAmount := amount\<rparr>"

text \<open>A catalogued Task, and the component with that Task selected for completion.\<close>

definition fake_task :: Task where
  "fake_task = \<lparr>task = ''ab'', sats = Finite 5, outpoint = ''aa.0'',
                 lockingScript = ''1ToDoDtKreEzbHYKFjmoBuduFmSXXUGZG/ba/'',
                 beef = Some [1]\<rparr>"

definition app_selected :: "Task \<Rightarrow> app" where
  "app_selected t = app0\<lparr>tasksLoading := False, tasks := [(0, t)], completeOpen := True,
                          selectedTask := Some (0, t), nextRef := 1\<rparr>"

text \<open>The Task that discovery builds for the output without an amount.\<close>

definition zero_task :: Task where
  "zero_task = \<lparr>task = ''ef'', sats = Finite 0, outpoint = ''bb.0'',
                 lockingScript = ''1ToDoDtKreEzbHYKFjmoBuduFmSXXUGZG/fe/'',
                 beef = Some [1]\<rparr>"

text \<open>Wallets that refuse one of their services.\<close>

definition boom :: error where
  "boom = Error ''boom'' None"

definition sdk_encrypt_fails :: sdk where
  "sdk_encrypt_fails = fake_sdk\<lparr>encrypt := (\<lambda>plaintext protocolID keyID. Inl boom)\<rparr>"

definition sdk_createAction_fails :: sdk where
  "sdk_createAction_fails = fake_sdk\<lparr>createAction := (\<lambda>args. Inl boom)\<rparr>"

definition sdk_signAction_fails :: sdk where
  "sdk_signAction_fails = fake_sdk\<lparr>signAction := (\<lambda>args. Inl boom)\<rparr>"

definition sdk_sign_fails :: sdk where
  "sdk_sign_fails = fake_sdk\<lparr>sign := (\<lambda>u tx i. Inl boom)\<rparr>"

definition sdk_store_ok :: sdk where
  "sdk_store_ok = fake_sdk\<lparr>listOutputs := (\<lambda>args. Inr fake_store_ok)\<rparr>"

text \<open>
  A wallet whose script builder appends a signature to the fields it is handed (the
  comment at the call of \<^verbatim>\<open>pushdrop.lock\<close> says that the library handles the public
  key, signature, and \<^verbatim>\<open>OP_DROP\<close> fields automatically), so that decoding one of its
  scripts returns one field more. Its store holds one output, \<open>gg.0\<close>, created by this
  application with that builder for the task \<open>ab\<close>.
\<close>

definition signature_field :: bytes where
  "signature_field = [115, 105, 103]"

definition signing_lock :: "bytes list \<Rightarrow> LockingScript" where
  "signing_lock flds = fake_lock (flds @ [signature_field])"

definition signed_store :: ListOutputsResult where
  "signed_store = \<lparr>lr_outputs = [\<lparr>wo_outpoint = ''gg.0'', wo_satoshis = Some (Finite 5)\<rparr>],
                    lr_BEEF = Some [4]\<rparr>"

definition signed_fromBEEF :: "bytes option \<Rightarrow> string option \<Rightarrow> error + Transaction" where
  "signed_fromBEEF b txid =
     (if txid = Some ''gg'' then
        Inr \<lparr>tx_outputs =
               [\<lparr>out_lockingScript = signing_lock [map of_char TODO_PROTO_ADDR, [98, 97]]\<rparr>]\<rparr>
      else fake_fromBEEF b txid)"

definition sdk_signing :: sdk where
  "sdk_signing = fake_sdk\<lparr>lock := (\<lambda>flds protocolID keyID counterparty. Inr (signing_lock flds)),
                          listOutputs := (\<lambda>args. Inr signed_store),
                          fromBEEF := signed_fromBEEF\<rparr>"

lemmas effects = toast_error_def toast_dark_def console_error_def console_log_def issue_def
  new_obj_def

lemmas fake_defs = fake_sdk_def fake_createAction_def fake_fromBEEF_def fake_decode_def
  fake_lock_def fake_store_def fake_store_ok_def fake_outputs_def app0_def app_form_def
  app_selected_def fake_task_def zero_task_def boom_def

lemmas signing_defs = sdk_signing_def signing_lock_def signature_field_def signed_store_def
  signed_fromBEEF_def

section \<open>Validation of a create request\<close>

text \<open>
  A request that fails one of the three checks leaves the handler at the \<^verbatim>\<open>return\<close>
  after the toast: the state is the old one with that toast added (and, in the root
  variant, the loading flag cleared by \<^verbatim>\<open>finally\<close>).
\<close>

lemma handleCreateSubmit_frontend_invalid:
  assumes "createTask s = [] \<or> createAmount s = Finite 0 \<or> createAmount s = NaN
           \<or> lessThan_js (createAmount s) (Finite 1)"
  shows "\<exists>msg. handleCreateSubmit_frontend sv s = toast_error msg s"
  using assms by (auto simp: handleCreateSubmit_frontend_def handleCreateSubmit_frontend_try_def)

lemma handleCreateSubmit_root_invalid:
  assumes "createTask s = [] \<or> createAmount s = Finite 0 \<or> createAmount s = NaN
           \<or> lessThan_js (createAmount s) (Finite 1)"
  shows "\<exists>msg. handleCreateSubmit_root sv s = (toast_error msg s)\<lparr>createLoading := False\<rparr>"
  using assms by (auto simp: handleCreateSubmit_root_def handleCreateSubmit_root_try_def)

text \<open>
  Claim C3. A create request whose task text is empty, or whose amount is 0, NaN or
  below 1, is rejected in both variants before any call leaves the component (the
  record of calls is unchanged, so no \<^verbatim>\<open>encrypt\<close>, \<^verbatim>\<open>lock\<close> or \<^verbatim>\<open>createAction\<close> was
  issued), one error toast is shown, and the list of tasks is unchanged.
\<close>

theorem create_validation_rejects:
  assumes "createTask s = [] \<or> createAmount s = Finite 0 \<or> createAmount s = NaN
           \<or> lessThan_js (createAmount s) (Finite 1)"
  shows "(\<exists>msg. toasts (handleCreateSubmit_frontend sv s) = toasts s @ [ToastError msg])
       \<and> calls (handleCreateSubmit_frontend sv s) = calls s
       \<and> tasks (handleCreateSubmit_frontend sv s) = tasks s
       \<and> (\<exists>msg. toasts (handleCreateSubmit_root sv s) = toasts s @ [ToastError msg])
       \<and> calls (handleCreateSubmit_root sv s) = calls s
       \<and> tasks (handleCreateSubmit_root sv s) = tasks s"
proof -
  from assms obtain m1 where f: "handleCreateSubmit_frontend sv s = toast_error m1 s"
    using handleCreateSubmit_frontend_invalid by blast
  from assms obtain m2 where r: "handleCreateSubmit_root sv s = (toast_error m2 s)\<lparr>createLoading := False\<rparr>"
    using handleCreateSubmit_root_invalid by blast
  show ?thesis unfolding f r by (simp add: toast_error_def)
qed

theorem create_validation_rejects_witness:
  "createAmount (app_form ''ab'' (Finite 0)) = Finite 0
   \<and> toasts (handleCreateSubmit_frontend fake_sdk (app_form ''ab'' (Finite 0)))
       = [ToastError ''Enter an amount for the new task!'']
   \<and> calls (handleCreateSubmit_frontend fake_sdk (app_form ''ab'' (Finite 0))) = []
   \<and> tasks (handleCreateSubmit_frontend fake_sdk (app_form ''ab'' (Finite 0))) = []
   \<and> calls (handleCreateSubmit_root fake_sdk (app_form ''ab'' (Finite 0))) = []
   \<and> tasks (handleCreateSubmit_root fake_sdk (app_form ''ab'' (Finite 0))) = []"
proof -
  have h: "createAmount (app_form ''ab'' (Finite 0)) = Finite 0"
    by (simp add: app_form_def)
  have t: "toasts (handleCreateSubmit_frontend fake_sdk (app_form ''ab'' (Finite 0)))
       = [ToastError ''Enter an amount for the new task!'']"
    by (simp add: handleCreateSubmit_frontend_def handleCreateSubmit_frontend_try_def
        app_form_def app0_def toast_error_def)
  from h have "createTask (app_form ''ab'' (Finite 0)) = []
      \<or> createAmount (app_form ''ab'' (Finite 0)) = Finite 0
      \<or> createAmount (app_form ''ab'' (Finite 0)) = NaN
      \<or> lessThan_js (createAmount (app_form ''ab'' (Finite 0))) (Finite 1)"
    by simp
  from create_validation_rejects [OF this, of fake_sdk] h t show ?thesis
    by (simp add: app_form_def app0_def)
qed

section \<open>Failure of a workflow\<close>

text \<open>
  When the \<^verbatim>\<open>try\<close> block of a handler throws, the state it leaves differs from the
  initial one in loading flags and in the record of calls only.
\<close>

lemma handleCreateSubmit_frontend_try_error:
  "handleCreateSubmit_frontend_try sv s = (Some e, s') \<Longrightarrow>
     tasks s' = tasks s \<and> toasts s' = toasts s \<and> console s' = console s"
  by (auto simp: handleCreateSubmit_frontend_try_def effects Let_def
      split: if_splits sum.splits prod.splits)

lemma handleCreateSubmit_root_try_error:
  "handleCreateSubmit_root_try sv s = (Some e, s') \<Longrightarrow>
     tasks s' = tasks s \<and> toasts s' = toasts s \<and> console s' = console s"
  by (auto simp: handleCreateSubmit_root_try_def effects Let_def
      split: if_splits sum.splits prod.splits)

lemma handleCompleteSubmit_frontend_try_error:
  "handleCompleteSubmit_frontend_try sv s = (Some e, s') \<Longrightarrow>
     tasks s' = tasks s \<and> toasts s' = toasts s \<and> console s' = console s"
  by (auto simp: handleCompleteSubmit_frontend_try_def effects Let_def
      split: if_splits sum.splits prod.splits option.splits)

lemma handleCompleteSubmit_root_try_error:
  "handleCompleteSubmit_root_try sv s = (Some e, s') \<Longrightarrow>
     tasks s' = tasks s \<and> toasts s' = toasts s \<and> console s' = console s"
  by (auto simp: handleCompleteSubmit_root_try_def effects Let_def
      split: if_splits sum.splits prod.splits option.splits)

text \<open>
  What the \<^verbatim>\<open>try\<close> block throws, phase by phase: the error of the first service
  that fails, and nothing when all of them answer.
\<close>

lemma handleCreateSubmit_frontend_try_throws:
  assumes "createTask s \<noteq> []" and "\<not> strictEq (createAmount s) (Finite 0)"
    and "\<not> isNaN (createAmount s)" and "\<not> lessThan_js (createAmount s) (Finite 1)"
  shows "fst (handleCreateSubmit_frontend_try sv s) =
    (case encrypt sv (toArray sv (createTask s)) PROTOCOL_ID KEY_ID of
       Inl e \<Rightarrow> Some e
     | Inr ct \<Rightarrow>
        (case lock sv [toArray sv TODO_PROTO_ADDR, ct] PROTOCOL_ID KEY_ID ''self'' of
           Inl e \<Rightarrow> Some e
         | Inr ls \<Rightarrow>
            (case createAction sv (create_args True s ls) of
               Inl e \<Rightarrow> Some e
             | Inr res \<Rightarrow> None)))"
  using assms
  by (simp add: handleCreateSubmit_frontend_try_def Let_def new_obj_def split: sum.splits)

lemma handleCreateSubmit_root_try_throws:
  assumes "createTask s \<noteq> []" and "\<not> strictEq (createAmount s) (Finite 0)"
    and "\<not> isNaN (createAmount s)" and "\<not> lessThan_js (createAmount s) (Finite 1)"
  shows "fst (handleCreateSubmit_root_try sv s) =
    (case encrypt sv (toArray sv (createTask s)) PROTOCOL_ID KEY_ID of
       Inl e \<Rightarrow> Some e
     | Inr ct \<Rightarrow>
        (case lock sv [toArray sv TODO_PROTO_ADDR, ct] PROTOCOL_ID KEY_ID ''self'' of
           Inl e \<Rightarrow> Some e
         | Inr ls \<Rightarrow>
            (case createAction sv (create_args False s ls) of
               Inl e \<Rightarrow> Some e
             | Inr res \<Rightarrow> None)))"
  using assms
  by (simp add: handleCreateSubmit_root_try_def Let_def new_obj_def PROTOCOL_ID_def KEY_ID_def
      split: sum.splits)

lemma handleCompleteSubmit_frontend_try_throws:
  "fst (handleCompleteSubmit_frontend_try sv s) =
    (case selectedTask s of
       None \<Rightarrow> Some (Error ''selectedTask does not exist'' None)
     | Some sel \<Rightarrow>
        (case createAction sv (complete_args (beef (snd sel)) (Some True) (snd sel)) of
           Inl e \<Rightarrow> Some e
         | Inr res \<Rightarrow> complete_throws sv (snd sel) res))"
  by (simp add: handleCompleteSubmit_frontend_try_def complete_throws_def Let_def
      split: sum.splits option.splits)

lemma handleCompleteSubmit_root_try_throws:
  "fst (handleCompleteSubmit_root_try sv s) =
    (case selectedTask s of
       None \<Rightarrow> Some (Error ''selectedTask does not exist'' None)
     | Some sel \<Rightarrow>
        (case fromBinary sv (beef (snd sel)) of
           Inl e \<Rightarrow> Some e
         | Inr loadedBeef \<Rightarrow>
            (case getChainTracker sv ''main'' of
               Inl e \<Rightarrow> Some e
             | Inr tracker \<Rightarrow>
                (case verify sv loadedBeef tracker True of
                   Inl e \<Rightarrow> Some e
                 | Inr ok \<Rightarrow>
                    (case createAction sv
                            (complete_args (Some (toBinary sv loadedBeef)) None (snd sel)) of
                       Inl e \<Rightarrow> Some e
                     | Inr res \<Rightarrow> complete_throws sv (snd sel) res)))))"
  by (simp add: handleCompleteSubmit_root_try_def complete_throws_def Let_def
      PROTOCOL_ID_def KEY_ID_def split: sum.splits option.splits)

text \<open>
  Claim C2. Whenever the \<^verbatim>\<open>try\<close> block of a create or redeem handler throws an
  error \<open>e\<close>, at whatever phase, the list of tasks after the handler is the list before
  it, the error toast carries \<open>message e\<close> character for character (after the fixed
  label \<open>Error completing task: \<close> in the redeem handlers) and the error object itself
  goes to the console.
\<close>

theorem workflow_failure_atomic:
  "(handleCreateSubmit_frontend_try sv s = (Some e, s') \<longrightarrow>
      tasks (handleCreateSubmit_frontend sv s) = tasks s
      \<and> toasts (handleCreateSubmit_frontend sv s) = toasts s @ [ToastError (message e)]
      \<and> console (handleCreateSubmit_frontend sv s) = console s @ [ConsoleError e])
   \<and> (handleCreateSubmit_root_try sv s = (Some e, s') \<longrightarrow>
      tasks (handleCreateSubmit_root sv s) = tasks s
      \<and> toasts (handleCreateSubmit_root sv s) = toasts s @ [ToastError (message e)]
      \<and> console (handleCreateSubmit_root sv s) = console s @ [ConsoleError e])
   \<and> (handleCompleteSubmit_frontend_try sv s = (Some e, s') \<longrightarrow>
      tasks (handleCompleteSubmit_frontend sv s) = tasks s
      \<and> toasts (handleCompleteSubmit_frontend sv s)
          = toasts s @ [ToastError (''Error completing task: '' @ message e)]
      \<and> console (handleCompleteSubmit_frontend sv s) = console s @ [ConsoleError e])
   \<and> (handleCompleteSubmit_root_try sv s = (Some e, s') \<longrightarrow>
      tasks (handleCompleteSubmit_root sv s) = tasks s
      \<and> toasts (handleCompleteSubmit_root sv s)
          = toasts s @ [ToastError (''Error completing task: '' @ message e)]
      \<and> console (handleCompleteSubmit_root sv s) = console s @ [ConsoleError e])"
proof (intro conjI impI)
  assume a: "handleCreateSubmit_frontend_try sv s = (Some e, s')"
  note b = handleCreateSubmit_frontend_try_error [OF a]
  show "tasks (handleCreateSubmit_frontend sv s) = tasks s"
    using b by (simp add: handleCreateSubmit_frontend_def a effects)
  show "toasts (handleCreateSubmit_frontend sv s) = toasts s @ [ToastError (message e)]"
    using b by (simp add: handleCreateSubmit_frontend_def a effects)
  show "console (handleCreateSubmit_frontend sv s) = console s @ [ConsoleError e]"
    using b by (simp add: handleCreateSubmit_frontend_def a effects)
next
  assume a: "handleCreateSubmit_root_try sv s = (Some e, s')"
  note b = handleCreateSubmit_root_try_error [OF a]
  show "tasks (handleCreateSubmit_root sv s) = tasks s"
    using b by (simp add: handleCreateSubmit_root_def a effects)
  show "toasts (handleCreateSubmit_root sv s) = toasts s @ [ToastError (message e)]"
    using b by (simp add: handleCreateSubmit_root_def a effects)
  show "console (handleCreateSubmit_root sv s) = console s @ [ConsoleError e]"
    using b by (simp add: handleCreateSubmit_root_def a effects)
next
  assume a: "handleCompleteSubmit_frontend_try sv s = (Some e, s')"
  note b = handleCompleteSubmit_frontend_try_error [OF a]
  show "tasks (handleCompleteSubmit_frontend sv s) = tasks s"
    using b by (simp add: handleCompleteSubmit_frontend_def complete_catch_finally_def a effects)
  show "toasts (handleCompleteSubmit_frontend sv s)
          = toasts s @ [ToastError (''Error completing task: '' @ message e)]"
    using b by (simp add: handleCompleteSubmit_frontend_def complete_catch_finally_def a effects)
  show "console (handleCompleteSubmit_frontend sv s) = console s @ [ConsoleError e]"
    using b by (simp add: handleCompleteSubmit_frontend_def complete_catch_finally_def a effects)
next
  assume a: "handleCompleteSubmit_root_try sv s = (Some e, s')"
  note b = handleCompleteSubmit_root_try_error [OF a]
  show "tasks (handleCompleteSubmit_root sv s) = tasks s"
    using b by (simp add: handleCompleteSubmit_root_def complete_catch_finally_def a effects)
  show "toasts (handleCompleteSubmit_root sv s)
          = toasts s @ [ToastError (''Error completing task: '' @ message e)]"
    using b by (simp add: handleCompleteSubmit_root_def complete_catch_finally_def a effects)
  show "console (handleCompleteSubmit_root sv s) = console s @ [ConsoleError e]"
    using b by (simp add: handleCompleteSubmit_root_def complete_catch_finally_def a effects)
qed


text \<open>Four runs that fail: at encryption, at transaction assembly, at signature completion, at signing.\<close>

lemma create_frontend_encrypt_fails:
  "fst (handleCreateSubmit_frontend_try sdk_encrypt_fails (app_form ''ab'' (Finite 5))) = Some boom"
  by (simp add: handleCreateSubmit_frontend_try_def sdk_encrypt_fails_def fake_defs effects Let_def)

lemma create_root_createAction_fails:
  "fst (handleCreateSubmit_root_try sdk_createAction_fails (app_form ''ab'' (Finite 5))) = Some boom"
  by (simp add: handleCreateSubmit_root_try_def sdk_createAction_fails_def fake_defs effects Let_def
      create_args_def)

lemma complete_frontend_signAction_fails:
  "fst (handleCompleteSubmit_frontend_try sdk_signAction_fails (app_selected fake_task)) = Some boom"
  by (simp add: handleCompleteSubmit_frontend_try_def sdk_signAction_fails_def fake_defs effects
      Let_def unlock_def complete_args_def)

lemma complete_root_sign_fails:
  "fst (handleCompleteSubmit_root_try sdk_sign_fails (app_selected fake_task)) = Some boom"
  by (simp add: handleCompleteSubmit_root_try_def sdk_sign_fails_def fake_defs effects
      Let_def unlock_def complete_args_def)

theorem workflow_failure_atomic_witness:
  "fst (handleCreateSubmit_frontend_try sdk_encrypt_fails (app_form ''ab'' (Finite 5))) = Some boom
   \<and> tasks (handleCreateSubmit_frontend sdk_encrypt_fails (app_form ''ab'' (Finite 5))) = []
   \<and> toasts (handleCreateSubmit_frontend sdk_encrypt_fails (app_form ''ab'' (Finite 5)))
       = [ToastError ''boom'']
   \<and> fst (handleCreateSubmit_root_try sdk_createAction_fails (app_form ''ab'' (Finite 5))) = Some boom
   \<and> tasks (handleCreateSubmit_root sdk_createAction_fails (app_form ''ab'' (Finite 5))) = []
   \<and> toasts (handleCreateSubmit_root sdk_createAction_fails (app_form ''ab'' (Finite 5)))
       = [ToastError ''boom'']
   \<and> fst (handleCompleteSubmit_frontend_try sdk_signAction_fails (app_selected fake_task)) = Some boom
   \<and> tasks (handleCompleteSubmit_frontend sdk_signAction_fails (app_selected fake_task))
       = [(0, fake_task)]
   \<and> toasts (handleCompleteSubmit_frontend sdk_signAction_fails (app_selected fake_task))
       = [ToastError ''Error completing task: boom'']
   \<and> fst (handleCompleteSubmit_root_try sdk_sign_fails (app_selected fake_task)) = Some boom
   \<and> tasks (handleCompleteSubmit_root sdk_sign_fails (app_selected fake_task)) = [(0, fake_task)]
   \<and> toasts (handleCompleteSubmit_root sdk_sign_fails (app_selected fake_task))
       = [ToastError ''Error completing task: boom'']"
proof -
  have a1: "handleCreateSubmit_frontend_try sdk_encrypt_fails (app_form ''ab'' (Finite 5))
      = (Some boom, snd (handleCreateSubmit_frontend_try sdk_encrypt_fails (app_form ''ab'' (Finite 5))))"
    using create_frontend_encrypt_fails by (simp add: prod_eq_iff)
  have a2: "handleCreateSubmit_root_try sdk_createAction_fails (app_form ''ab'' (Finite 5))
      = (Some boom, snd (handleCreateSubmit_root_try sdk_createAction_fails (app_form ''ab'' (Finite 5))))"
    using create_root_createAction_fails by (simp add: prod_eq_iff)
  have a3: "handleCompleteSubmit_frontend_try sdk_signAction_fails (app_selected fake_task)
      = (Some boom, snd (handleCompleteSubmit_frontend_try sdk_signAction_fails (app_selected fake_task)))"
    using complete_frontend_signAction_fails by (simp add: prod_eq_iff)
  have a4: "handleCompleteSubmit_root_try sdk_sign_fails (app_selected fake_task)
      = (Some boom, snd (handleCompleteSubmit_root_try sdk_sign_fails (app_selected fake_task)))"
    using complete_root_sign_fails by (simp add: prod_eq_iff)
  note t1 = workflow_failure_atomic [THEN conjunct1, rule_format, OF a1]
  note t2 = workflow_failure_atomic [THEN conjunct2, THEN conjunct1, rule_format, OF a2]
  note t3 = workflow_failure_atomic [THEN conjunct2, THEN conjunct2, THEN conjunct1, rule_format, OF a3]
  note t4 = workflow_failure_atomic [THEN conjunct2, THEN conjunct2, THEN conjunct2, rule_format, OF a4]
  have s1: "tasks (app_form ''ab'' (Finite 5)) = []" "toasts (app_form ''ab'' (Finite 5)) = []"
    by (simp_all add: app_form_def app0_def)
  have s2: "tasks (app_selected fake_task) = [(0, fake_task)]" "toasts (app_selected fake_task) = []"
    by (simp_all add: app_selected_def app0_def)
  have m: "message boom = ''boom''"
    by (simp add: boom_def)
  show ?thesis
    using t1 t2 t3 t4 create_frontend_encrypt_fails create_root_createAction_fails
      complete_frontend_signAction_fails complete_root_sign_fails
    by (simp add: s1 s2 m)
qed

section \<open>Creation: what is locked and what is added\<close>

text \<open>
  The ways a create handler can end: rejected by validation, failed at \<^verbatim>\<open>encrypt\<close>,
  at \<^verbatim>\<open>lock\<close> or at \<^verbatim>\<open>createAction\<close>, or completed; with the calls issued by then.
\<close>

lemma issued_append: "calls s' = calls s @ cs \<Longrightarrow> issued s s' = cs"
  by (simp add: issued_def)

lemma handleCreateSubmit_frontend_cases:
  "(issued s (handleCreateSubmit_frontend sv s) = [] \<and> tasks (handleCreateSubmit_frontend sv s) = tasks s)
   \<or> (\<exists>e. encrypt sv (toArray sv (createTask s)) PROTOCOL_ID KEY_ID = Inl e
        \<and> issued s (handleCreateSubmit_frontend sv s)
            = [CallEncrypt (toArray sv (createTask s)) PROTOCOL_ID KEY_ID]
        \<and> tasks (handleCreateSubmit_frontend sv s) = tasks s)
   \<or> (\<exists>ct e. encrypt sv (toArray sv (createTask s)) PROTOCOL_ID KEY_ID = Inr ct
        \<and> lock sv [toArray sv TODO_PROTO_ADDR, ct] PROTOCOL_ID KEY_ID ''self'' = Inl e
        \<and> issued s (handleCreateSubmit_frontend sv s)
            = [CallEncrypt (toArray sv (createTask s)) PROTOCOL_ID KEY_ID,
               CallLock [toArray sv TODO_PROTO_ADDR, ct] PROTOCOL_ID KEY_ID ''self'']
        \<and> tasks (handleCreateSubmit_frontend sv s) = tasks s)
   \<or> (\<exists>ct ls. encrypt sv (toArray sv (createTask s)) PROTOCOL_ID KEY_ID = Inr ct
        \<and> lock sv [toArray sv TODO_PROTO_ADDR, ct] PROTOCOL_ID KEY_ID ''self'' = Inr ls
        \<and> issued s (handleCreateSubmit_frontend sv s)
            = [CallEncrypt (toArray sv (createTask s)) PROTOCOL_ID KEY_ID,
               CallLock [toArray sv TODO_PROTO_ADDR, ct] PROTOCOL_ID KEY_ID ''self'',
               CallCreateAction (create_args True s ls)]
        \<and> ((\<exists>e. createAction sv (create_args True s ls) = Inl e
              \<and> tasks (handleCreateSubmit_frontend sv s) = tasks s)
           \<or> (\<exists>res. createAction sv (create_args True s ls) = Inr res
              \<and> tasks (handleCreateSubmit_frontend sv s)
                  = (nextRef s, \<lparr>task = createTask s, sats = createAmount s,
                                 outpoint = template (cr_txid res) @ ''.0'',
                                 lockingScript = toHex ls, beef = cr_tx res\<rparr>) # tasks s)))"
  by (auto simp: handleCreateSubmit_frontend_def handleCreateSubmit_frontend_try_def
      toast_error_def toast_dark_def console_error_def issue_def new_obj_def
      issued_def create_args_def Let_def split: sum.splits)

lemma handleCreateSubmit_root_cases:
  "(issued s (handleCreateSubmit_root sv s) = [] \<and> tasks (handleCreateSubmit_root sv s) = tasks s)
   \<or> (\<exists>e. encrypt sv (toArray sv (createTask s)) PROTOCOL_ID KEY_ID = Inl e
        \<and> issued s (handleCreateSubmit_root sv s)
            = [CallEncrypt (toArray sv (createTask s)) PROTOCOL_ID KEY_ID]
        \<and> tasks (handleCreateSubmit_root sv s) = tasks s)
   \<or> (\<exists>ct e. encrypt sv (toArray sv (createTask s)) PROTOCOL_ID KEY_ID = Inr ct
        \<and> lock sv [toArray sv TODO_PROTO_ADDR, ct] PROTOCOL_ID KEY_ID ''self'' = Inl e
        \<and> issued s (handleCreateSubmit_root sv s)
            = [CallEncrypt (toArray sv (createTask s)) PROTOCOL_ID KEY_ID,
               CallLock [toArray sv TODO_PROTO_ADDR, ct] PROTOCOL_ID KEY_ID ''self'']
        \<and> tasks (handleCreateSubmit_root sv s) = tasks s)
   \<or> (\<exists>ct ls. encrypt sv (toArray sv (createTask s)) PROTOCOL_ID KEY_ID = Inr ct
        \<and> lock sv [toArray sv TODO_PROTO_ADDR, ct] PROTOCOL_ID KEY_ID ''self'' = Inr ls
        \<and> issued s (handleCreateSubmit_root sv s)
            = [CallEncrypt (toArray sv (createTask s)) PROTOCOL_ID KEY_ID,
               CallLock [toArray sv TODO_PROTO_ADDR, ct] PROTOCOL_ID KEY_ID ''self'',
               CallCreateAction (create_args False s ls)]
        \<and> ((\<exists>e. createAction sv (create_args False s ls) = Inl e
              \<and> tasks (handleCreateSubmit_root sv s) = tasks s)
           \<or> (\<exists>res. createAction sv (create_args False s ls) = Inr res
              \<and> tasks (handleCreateSubmit_root sv s)
                  = (nextRef s, \<lparr>task = createTask s, sats = createAmount s,
                                 outpoint = template (cr_txid res) @ ''.0'',
                                 lockingScript = toHex ls, beef = cr_tx res\<rparr>) # tasks s)))"
  by (auto simp: handleCreateSubmit_root_def handleCreateSubmit_root_try_def
      toast_error_def toast_dark_def console_error_def issue_def new_obj_def
      issued_def create_args_def Let_def PROTOCOL_ID_def KEY_ID_def split: sum.splits)


text \<open>
  Claim C6. In both variants every \<^verbatim>\<open>lock\<close> call of a creation receives exactly two
  fields, in this order: the bytes of \<^verbatim>\<open>TODO_PROTO_ADDR\<close> and the ciphertext that
  \<^verbatim>\<open>encrypt\<close> returned for the task text. The script that \<^verbatim>\<open>lock\<close> returned for these
  two fields is the one sent to \<^verbatim>\<open>createAction\<close> and the one kept in the new Task.
\<close>

theorem lock_commits_two_fields:
  "(CallLock flds p k c \<in> set (issued s (handleCreateSubmit_frontend sv s)) \<longrightarrow>
      (\<exists>ct. encrypt sv (toArray sv (createTask s)) PROTOCOL_ID KEY_ID = Inr ct
            \<and> flds = [toArray sv TODO_PROTO_ADDR, ct]))
   \<and> (CallCreateAction args \<in> set (issued s (handleCreateSubmit_frontend sv s)) \<longrightarrow>
      (\<exists>ct ls. encrypt sv (toArray sv (createTask s)) PROTOCOL_ID KEY_ID = Inr ct
            \<and> lock sv [toArray sv TODO_PROTO_ADDR, ct] PROTOCOL_ID KEY_ID ''self'' = Inr ls
            \<and> map co_lockingScript (ca_outputs args) = [toHex ls]))
   \<and> (tasks (handleCreateSubmit_frontend sv s) = t # tasks s \<longrightarrow>
      (\<exists>ct ls. encrypt sv (toArray sv (createTask s)) PROTOCOL_ID KEY_ID = Inr ct
            \<and> lock sv [toArray sv TODO_PROTO_ADDR, ct] PROTOCOL_ID KEY_ID ''self'' = Inr ls
            \<and> lockingScript (snd t) = toHex ls))
   \<and> (CallLock flds p k c \<in> set (issued s (handleCreateSubmit_root sv s)) \<longrightarrow>
      (\<exists>ct. encrypt sv (toArray sv (createTask s)) PROTOCOL_ID KEY_ID = Inr ct
            \<and> flds = [toArray sv TODO_PROTO_ADDR, ct]))
   \<and> (CallCreateAction args \<in> set (issued s (handleCreateSubmit_root sv s)) \<longrightarrow>
      (\<exists>ct ls. encrypt sv (toArray sv (createTask s)) PROTOCOL_ID KEY_ID = Inr ct
            \<and> lock sv [toArray sv TODO_PROTO_ADDR, ct] PROTOCOL_ID KEY_ID ''self'' = Inr ls
            \<and> map co_lockingScript (ca_outputs args) = [toHex ls]))
   \<and> (tasks (handleCreateSubmit_root sv s) = t # tasks s \<longrightarrow>
      (\<exists>ct ls. encrypt sv (toArray sv (createTask s)) PROTOCOL_ID KEY_ID = Inr ct
            \<and> lock sv [toArray sv TODO_PROTO_ADDR, ct] PROTOCOL_ID KEY_ID ''self'' = Inr ls
            \<and> lockingScript (snd t) = toHex ls))"
proof (intro conjI impI)
  assume "CallLock flds p k c \<in> set (issued s (handleCreateSubmit_frontend sv s))"
  then show "\<exists>ct. encrypt sv (toArray sv (createTask s)) PROTOCOL_ID KEY_ID = Inr ct
            \<and> flds = [toArray sv TODO_PROTO_ADDR, ct]"
    using handleCreateSubmit_frontend_cases [of s sv] by auto
next
  assume "CallCreateAction args \<in> set (issued s (handleCreateSubmit_frontend sv s))"
  then show "\<exists>ct ls. encrypt sv (toArray sv (createTask s)) PROTOCOL_ID KEY_ID = Inr ct
            \<and> lock sv [toArray sv TODO_PROTO_ADDR, ct] PROTOCOL_ID KEY_ID ''self'' = Inr ls
            \<and> map co_lockingScript (ca_outputs args) = [toHex ls]"
    using handleCreateSubmit_frontend_cases [of s sv] by (auto simp: create_args_def)
next
  assume "tasks (handleCreateSubmit_frontend sv s) = t # tasks s"
  then show "\<exists>ct ls. encrypt sv (toArray sv (createTask s)) PROTOCOL_ID KEY_ID = Inr ct
            \<and> lock sv [toArray sv TODO_PROTO_ADDR, ct] PROTOCOL_ID KEY_ID ''self'' = Inr ls
            \<and> lockingScript (snd t) = toHex ls"
    using handleCreateSubmit_frontend_cases [of s sv] by auto
next
  assume "CallLock flds p k c \<in> set (issued s (handleCreateSubmit_root sv s))"
  then show "\<exists>ct. encrypt sv (toArray sv (createTask s)) PROTOCOL_ID KEY_ID = Inr ct
            \<and> flds = [toArray sv TODO_PROTO_ADDR, ct]"
    using handleCreateSubmit_root_cases [of s sv] by auto
next
  assume "CallCreateAction args \<in> set (issued s (handleCreateSubmit_root sv s))"
  then show "\<exists>ct ls. encrypt sv (toArray sv (createTask s)) PROTOCOL_ID KEY_ID = Inr ct
            \<and> lock sv [toArray sv TODO_PROTO_ADDR, ct] PROTOCOL_ID KEY_ID ''self'' = Inr ls
            \<and> map co_lockingScript (ca_outputs args) = [toHex ls]"
    using handleCreateSubmit_root_cases [of s sv] by (auto simp: create_args_def)
next
  assume "tasks (handleCreateSubmit_root sv s) = t # tasks s"
  then show "\<exists>ct ls. encrypt sv (toArray sv (createTask s)) PROTOCOL_ID KEY_ID = Inr ct
            \<and> lock sv [toArray sv TODO_PROTO_ADDR, ct] PROTOCOL_ID KEY_ID ''self'' = Inr ls
            \<and> lockingScript (snd t) = toHex ls"
    using handleCreateSubmit_root_cases [of s sv] by auto
qed

text \<open>A creation on the test double, in both variants.\<close>

lemma create_frontend_run:
  "handleCreateSubmit_frontend fake_sdk (app_form ''ab'' (Finite 5)) =
     app0\<lparr>toasts := [ToastDark ''Task successfully created!''],
          tasks := [(0, \<lparr>task = ''ab'', sats = Finite 5, outpoint = ''dd.0'',
                         lockingScript = ''1ToDoDtKreEzbHYKFjmoBuduFmSXXUGZG/ba/'',
                         beef = Some [2]\<rparr>)],
          calls := [CallEncrypt [97, 98] (0, ''todo list'') ''1'',
                    CallLock [map of_char TODO_PROTO_ADDR, [98, 97]] (0, ''todo list'') ''1'' ''self'',
                    CallCreateAction (create_args True (app_form ''ab'' (Finite 5))
                       (LockingScript ''1ToDoDtKreEzbHYKFjmoBuduFmSXXUGZG/ba/''))],
          nextRef := 1\<rparr>"
  by (simp add: handleCreateSubmit_frontend_def handleCreateSubmit_frontend_try_def fake_defs effects
      Let_def create_args_def PROTOCOL_ID_def KEY_ID_def TODO_PROTO_ADDR_def DEFAULT_CREATE_AMOUNT_def
      template_def char_of_eq_iff)

lemma create_root_run:
  "handleCreateSubmit_root fake_sdk (app_form ''ab'' (Finite 5)) =
     app0\<lparr>toasts := [ToastDark ''Task successfully created!''],
          createAmount := Finite 1000,
          tasks := [(0, \<lparr>task = ''ab'', sats = Finite 5, outpoint = ''dd.0'',
                         lockingScript = ''1ToDoDtKreEzbHYKFjmoBuduFmSXXUGZG/ba/'',
                         beef = Some [2]\<rparr>)],
          calls := [CallEncrypt [97, 98] (0, ''todo list'') ''1'',
                    CallLock [map of_char TODO_PROTO_ADDR, [98, 97]] (0, ''todo list'') ''1'' ''self'',
                    CallCreateAction (create_args False (app_form ''ab'' (Finite 5))
                       (LockingScript ''1ToDoDtKreEzbHYKFjmoBuduFmSXXUGZG/ba/''))],
          nextRef := 1\<rparr>"
  by (simp add: handleCreateSubmit_root_def handleCreateSubmit_root_try_def fake_defs effects
      Let_def create_args_def PROTOCOL_ID_def KEY_ID_def TODO_PROTO_ADDR_def DEFAULT_CREATE_AMOUNT_def
      template_def char_of_eq_iff)


theorem lock_commits_two_fields_witness:
  "CallLock [map of_char TODO_PROTO_ADDR, [98, 97]] (0, ''todo list'') ''1'' ''self''
     \<in> set (issued (app_form ''ab'' (Finite 5))
              (handleCreateSubmit_frontend fake_sdk (app_form ''ab'' (Finite 5))))
   \<and> CallCreateAction (create_args True (app_form ''ab'' (Finite 5))
                         (LockingScript ''1ToDoDtKreEzbHYKFjmoBuduFmSXXUGZG/ba/''))
     \<in> set (issued (app_form ''ab'' (Finite 5))
              (handleCreateSubmit_frontend fake_sdk (app_form ''ab'' (Finite 5))))
   \<and> tasks (handleCreateSubmit_frontend fake_sdk (app_form ''ab'' (Finite 5)))
       = (0, \<lparr>task = ''ab'', sats = Finite 5, outpoint = ''dd.0'',
               lockingScript = ''1ToDoDtKreEzbHYKFjmoBuduFmSXXUGZG/ba/'', beef = Some [2]\<rparr>)
         # tasks (app_form ''ab'' (Finite 5))
   \<and> CallLock [map of_char TODO_PROTO_ADDR, [98, 97]] (0, ''todo list'') ''1'' ''self''
     \<in> set (issued (app_form ''ab'' (Finite 5))
              (handleCreateSubmit_root fake_sdk (app_form ''ab'' (Finite 5))))
   \<and> CallCreateAction (create_args False (app_form ''ab'' (Finite 5))
                         (LockingScript ''1ToDoDtKreEzbHYKFjmoBuduFmSXXUGZG/ba/''))
     \<in> set (issued (app_form ''ab'' (Finite 5))
              (handleCreateSubmit_root fake_sdk (app_form ''ab'' (Finite 5))))
   \<and> tasks (handleCreateSubmit_root fake_sdk (app_form ''ab'' (Finite 5)))
       = (0, \<lparr>task = ''ab'', sats = Finite 5, outpoint = ''dd.0'',
               lockingScript = ''1ToDoDtKreEzbHYKFjmoBuduFmSXXUGZG/ba/'', beef = Some [2]\<rparr>)
         # tasks (app_form ''ab'' (Finite 5))
   \<and> (\<exists>ct ls. encrypt fake_sdk (toArray fake_sdk (createTask (app_form ''ab'' (Finite 5))))
                  PROTOCOL_ID KEY_ID = Inr ct
             \<and> lock fake_sdk [toArray fake_sdk TODO_PROTO_ADDR, ct] PROTOCOL_ID KEY_ID ''self'' = Inr ls
             \<and> ''1ToDoDtKreEzbHYKFjmoBuduFmSXXUGZG/ba/'' = toHex ls)"
proof -
  let ?s = "app_form ''ab'' (Finite 5)"
  let ?t = "(0::nat, \<lparr>task = ''ab'', sats = Finite 5, outpoint = ''dd.0'',
               lockingScript = ''1ToDoDtKreEzbHYKFjmoBuduFmSXXUGZG/ba/'', beef = Some [2]\<rparr>)"
  have h1: "CallLock [map of_char TODO_PROTO_ADDR, [98, 97]] (0, ''todo list'') ''1'' ''self''
     \<in> set (issued ?s (handleCreateSubmit_frontend fake_sdk ?s))"
    unfolding create_frontend_run by (simp add: issued_def app_form_def app0_def)
  have h2: "CallCreateAction (create_args True ?s (LockingScript ''1ToDoDtKreEzbHYKFjmoBuduFmSXXUGZG/ba/''))
     \<in> set (issued ?s (handleCreateSubmit_frontend fake_sdk ?s))"
    unfolding create_frontend_run by (simp add: issued_def app_form_def app0_def)
  have h3: "tasks (handleCreateSubmit_frontend fake_sdk ?s) = ?t # tasks ?s"
    unfolding create_frontend_run by (simp add: app_form_def app0_def)
  have h4: "CallLock [map of_char TODO_PROTO_ADDR, [98, 97]] (0, ''todo list'') ''1'' ''self''
     \<in> set (issued ?s (handleCreateSubmit_root fake_sdk ?s))"
    unfolding create_root_run by (simp add: issued_def app_form_def app0_def)
  have h5: "CallCreateAction (create_args False ?s (LockingScript ''1ToDoDtKreEzbHYKFjmoBuduFmSXXUGZG/ba/''))
     \<in> set (issued ?s (handleCreateSubmit_root fake_sdk ?s))"
    unfolding create_root_run by (simp add: issued_def app_form_def app0_def)
  have h6: "tasks (handleCreateSubmit_root fake_sdk ?s) = ?t # tasks ?s"
    unfolding create_root_run by (simp add: app_form_def app0_def)
  note f = lock_commits_two_fields [where s = ?s and sv = fake_sdk and t = ?t
      and flds = "[map of_char TODO_PROTO_ADDR, [98, 97]]" and p = "(0, ''todo list'')"
      and k = "''1''" and c = "''self''"
      and args = "create_args True ?s (LockingScript ''1ToDoDtKreEzbHYKFjmoBuduFmSXXUGZG/ba/'')"]
  note r = lock_commits_two_fields [where s = ?s and sv = fake_sdk and t = ?t
      and flds = "[map of_char TODO_PROTO_ADDR, [98, 97]]" and p = "(0, ''todo list'')"
      and k = "''1''" and c = "''self''"
      and args = "create_args False ?s (LockingScript ''1ToDoDtKreEzbHYKFjmoBuduFmSXXUGZG/ba/'')"]
  from f h3 have c3: "\<exists>ct ls. encrypt fake_sdk (toArray fake_sdk (createTask ?s)) PROTOCOL_ID KEY_ID = Inr ct
             \<and> lock fake_sdk [toArray fake_sdk TODO_PROTO_ADDR, ct] PROTOCOL_ID KEY_ID ''self'' = Inr ls
             \<and> ''1ToDoDtKreEzbHYKFjmoBuduFmSXXUGZG/ba/'' = toHex ls"
    by simp
  from r h4 h5 h6 have True by simp
  with h1 h2 h3 h4 h5 h6 c3 show ?thesis by blast
qed

section \<open>Discovery: what reaches the list\<close>

text \<open>
  The first pass returns one entry for each output, and leaves in \<^verbatim>\<open>txid\<close> what the
  call on the last output wrote.
\<close>

lemma map_async_start_fst: "fst (map_async_start f xs t) = map (\<lambda>x. snd (f x)) xs"
  by (induction xs arbitrary: t) (simp_all add: Let_def split_beta)

lemma map_async_start_snd:
  "snd (map_async_start f xs t) = (if xs = [] then t else Some (fst (f (last xs))))"
  by (induction xs arbitrary: t) (simp_all add: Let_def split_beta)


lemma rights_map_Inr: "rights (map Inr xs) = xs"
  by (induction xs) simp_all


lemma collect_tasks_tasks:
  "map snd (tasks (collect_tasks started resume dcall s))
     = rev (rights (map (case_sum Inl resume) started))"
  by (simp add: collect_tasks_def Let_def new_objs_def rev_map [symmetric])


lemma collect_tasks_calls:
  "calls (collect_tasks started resume dcall s) = calls s @ map dcall (rights started)"
  by (simp add: collect_tasks_def Let_def new_objs_def)



text \<open>Discovery when \<^verbatim>\<open>listOutputs\<close> has answered.\<close>

lemma loadTasks_frontend_unfold:
  assumes "listOutputs sv listOutputs_args_frontend = Inr res"
  shows "loadTasks_frontend sv s =
    (collect_tasks
       (fst (map_async_start (loadTasks_callback_frontend sv (lr_BEEF res))
               (enumerate 0 (lr_outputs res)) None))
       (loadTasks_resume_frontend sv (lr_BEEF res)
          (snd (map_async_start (loadTasks_callback_frontend sv (lr_BEEF res))
                  (enumerate 0 (lr_outputs res)) None)))
       (decrypt_call PROTOCOL_ID KEY_ID)
       (issue (CallListOutputs listOutputs_args_frontend) (s\<lparr>tasksLoading := True\<rparr>)))
      \<lparr>tasksLoading := False\<rparr>"
  using assms
  by (simp add: loadTasks_frontend_def loadTasks_frontend_try_def load_catch_finally_def
      Let_def split_beta)

lemma loadTasks_root_unfold:
  assumes "listOutputs sv listOutputs_args_root = Inr res"
  shows "loadTasks_root sv s =
    (collect_tasks
       (fst (map_async_start (loadTasks_callback_root sv (lr_BEEF res))
               (enumerate 0 (lr_outputs res)) None))
       (loadTasks_resume_root sv (lr_BEEF res)
          (snd (map_async_start (loadTasks_callback_root sv (lr_BEEF res))
                  (enumerate 0 (lr_outputs res)) None)))
       (decrypt_call (0, ''todo list'') ''1'')
       (issue (CallListOutputs listOutputs_args_root) s))
      \<lparr>tasksLoading := False\<rparr>"
  using assms
  by (simp add: loadTasks_root_def loadTasks_root_try_def load_catch_finally_def
      Let_def split_beta)

lemma decryptedTasksResults_frontend_unfold:
  "decryptedTasksResults_frontend sv res =
     map (case_sum Inl (loadTasks_resume_frontend sv (lr_BEEF res)
            (snd (map_async_start (loadTasks_callback_frontend sv (lr_BEEF res))
                    (enumerate 0 (lr_outputs res)) None))))
         (fst (map_async_start (loadTasks_callback_frontend sv (lr_BEEF res))
                 (enumerate 0 (lr_outputs res)) None))"
  by (simp add: decryptedTasksResults_frontend_def Let_def split_beta)

lemma decryptedTasksResults_root_unfold:
  "decryptedTasksResults_root sv res =
     map (case_sum Inl (loadTasks_resume_root sv (lr_BEEF res)
            (snd (map_async_start (loadTasks_callback_root sv (lr_BEEF res))
                    (enumerate 0 (lr_outputs res)) None))))
         (fst (map_async_start (loadTasks_callback_root sv (lr_BEEF res))
                 (enumerate 0 (lr_outputs res)) None))"
  by (simp add: decryptedTasksResults_root_def Let_def split_beta)

lemma length_decryptedTasksResults_frontend:
  "length (decryptedTasksResults_frontend sv res) = length (lr_outputs res)"
  by (simp add: decryptedTasksResults_frontend_unfold map_async_start_fst)

lemma length_decryptedTasksResults_root:
  "length (decryptedTasksResults_root sv res) = length (lr_outputs res)"
  by (simp add: decryptedTasksResults_root_unfold map_async_start_fst)

lemma loadTasks_frontend_tasks:
  assumes "listOutputs sv listOutputs_args_frontend = Inr res"
  shows "map snd (tasks (loadTasks_frontend sv s)) = rev (rights (decryptedTasksResults_frontend sv res))"
  by (simp add: loadTasks_frontend_unfold [OF assms] collect_tasks_tasks
      decryptedTasksResults_frontend_unfold)

lemma loadTasks_root_tasks:
  assumes "listOutputs sv listOutputs_args_root = Inr res"
  shows "map snd (tasks (loadTasks_root sv s)) = rev (rights (decryptedTasksResults_root sv res))"
  by (simp add: loadTasks_root_unfold [OF assms] collect_tasks_tasks
      decryptedTasksResults_root_unfold)




subsection \<open>One position of the results\<close>

lemma enumerate_Nil_iff: "enumerate n xs = [] \<longleftrightarrow> xs = []"
  by (cases xs) simp_all

lemma last_enumerate: "xs \<noteq> [] \<Longrightarrow> last (enumerate n xs) = (n + length xs - 1, last xs)"
  by (induction xs arbitrary: n) (auto simp: enumerate_Nil_iff)

lemma fst_loadTasks_callback_frontend:
  "fst (loadTasks_callback_frontend sv BEEF (i, out)) = split_dot_0 (wo_outpoint out)"
  by (simp add: loadTasks_callback_frontend_def Let_def)

lemma fst_loadTasks_callback_root:
  "fst (loadTasks_callback_root sv BEEF (i, out)) = split_dot_0 (wo_outpoint out)"
  by (simp add: loadTasks_callback_root_def Let_def)

lemma decryptedTasksResults_frontend_nth:
  assumes "i < length (lr_outputs res)"
  shows "decryptedTasksResults_frontend sv res ! i =
     case_sum Inl
       (loadTasks_resume_frontend sv (lr_BEEF res)
          (Some (split_dot_0 (wo_outpoint (last (lr_outputs res))))))
       (snd (loadTasks_callback_frontend sv (lr_BEEF res) (i, lr_outputs res ! i)))"
proof -
  from assms have ne: "lr_outputs res \<noteq> []" by auto
  then have ne': "enumerate 0 (lr_outputs res) \<noteq> []" by (cases "lr_outputs res") simp_all
  show ?thesis
    using assms ne
    by (simp add: decryptedTasksResults_frontend_unfold map_async_start_fst map_async_start_snd
        ne' last_enumerate nth_enumerate_eq fst_loadTasks_callback_frontend)
qed

lemma decryptedTasksResults_root_nth:
  assumes "i < length (lr_outputs res)"
  shows "decryptedTasksResults_root sv res ! i =
     case_sum Inl
       (loadTasks_resume_root sv (lr_BEEF res)
          (Some (split_dot_0 (wo_outpoint (last (lr_outputs res))))))
       (snd (loadTasks_callback_root sv (lr_BEEF res) (i, lr_outputs res ! i)))"
proof -
  from assms have ne: "lr_outputs res \<noteq> []" by auto
  then have ne': "enumerate 0 (lr_outputs res) \<noteq> []" by (cases "lr_outputs res") simp_all
  show ?thesis
    using assms ne
    by (simp add: decryptedTasksResults_root_unfold map_async_start_fst map_async_start_snd
        ne' last_enumerate nth_enumerate_eq fst_loadTasks_callback_root)
qed

lemma loadTasks_callback_frontend_InrI:
  assumes "fromBEEF sv BEEF (Some (split_dot_0 (wo_outpoint out))) = Inr tx"
    and "tx_outputs tx = out0 # rest"
    and "decode sv (out_lockingScript out0) = Inr flds"
  shows "snd (loadTasks_callback_frontend sv BEEF (i, out))
           = Inr (i, out, out_lockingScript out0, at_index flds 1)"
  using assms by (simp add: loadTasks_callback_frontend_def Let_def)

lemma loadTasks_callback_frontend_InrD:
  assumes a: "snd (loadTasks_callback_frontend sv BEEF (i, out)) = Inr p"
  shows "\<exists>tx out0 rest flds.
        fromBEEF sv BEEF (Some (split_dot_0 (wo_outpoint out))) = Inr tx
        \<and> tx_outputs tx = out0 # rest
        \<and> decode sv (out_lockingScript out0) = Inr flds
        \<and> p = (i, out, out_lockingScript out0, at_index flds 1)"
proof (cases "fromBEEF sv BEEF (Some (split_dot_0 (wo_outpoint out)))")
  case (Inl e)
  with a show ?thesis by (simp add: loadTasks_callback_frontend_def Let_def)
next
  case tx: (Inr tx)
  show ?thesis
  proof (cases "tx_outputs tx")
    case Nil
    with a tx show ?thesis by (simp add: loadTasks_callback_frontend_def Let_def)
  next
    case (Cons out0 rest)
    show ?thesis
    proof (cases "decode sv (out_lockingScript out0)")
      case (Inl e)
      with a tx Cons show ?thesis by (simp add: loadTasks_callback_frontend_def Let_def)
    next
      case (Inr flds)
      from loadTasks_callback_frontend_InrI [OF tx Cons Inr, of i] a
      have "p = (i, out, out_lockingScript out0, at_index flds 1)" by simp
      with tx Cons Inr show ?thesis by blast
    qed
  qed
qed

lemma loadTasks_callback_root_InrI:
  assumes "fromBEEF sv BEEF (Some (split_dot_0 (wo_outpoint out))) = Inr tx"
    and "tx_outputs tx = out0 # rest"
    and "decode sv (out_lockingScript out0) = Inr flds"
  shows "snd (loadTasks_callback_root sv BEEF (i, out))
           = Inr (i, out, out_lockingScript out0, at_index flds 1)"
  using assms by (simp add: loadTasks_callback_root_def Let_def)

lemma loadTasks_callback_root_InrD:
  assumes a: "snd (loadTasks_callback_root sv BEEF (i, out)) = Inr p"
  shows "\<exists>tx out0 rest flds.
        fromBEEF sv BEEF (Some (split_dot_0 (wo_outpoint out))) = Inr tx
        \<and> tx_outputs tx = out0 # rest
        \<and> decode sv (out_lockingScript out0) = Inr flds
        \<and> p = (i, out, out_lockingScript out0, at_index flds 1)"
proof (cases "fromBEEF sv BEEF (Some (split_dot_0 (wo_outpoint out)))")
  case (Inl e)
  with a show ?thesis by (simp add: loadTasks_callback_root_def Let_def)
next
  case tx: (Inr tx)
  show ?thesis
  proof (cases "tx_outputs tx")
    case Nil
    with a tx show ?thesis by (simp add: loadTasks_callback_root_def Let_def)
  next
    case (Cons out0 rest)
    show ?thesis
    proof (cases "decode sv (out_lockingScript out0)")
      case (Inl e)
      with a tx Cons show ?thesis by (simp add: loadTasks_callback_root_def Let_def)
    next
      case (Inr flds)
      from loadTasks_callback_root_InrI [OF tx Cons Inr, of i] a
      have "p = (i, out, out_lockingScript out0, at_index flds 1)" by simp
      with tx Cons Inr show ?thesis by blast
    qed
  qed
qed


lemma loadTasks_resume_frontend_InrI:
  assumes "decrypt sv ct PROTOCOL_ID KEY_ID = Inr pt"
  shows "loadTasks_resume_frontend sv BEEF txid (i, out, ls, ct) =
     Inr \<lparr>task = toUTF8 sv pt,
          sats = (case wo_satoshis out of None \<Rightarrow> Finite 0 | Some v \<Rightarrow> v),
          outpoint = template txid @ ''.0'',
          lockingScript = toHex ls,
          beef = BEEF\<rparr>"
  using assms by (simp add: loadTasks_resume_frontend_def)

lemma loadTasks_resume_frontend_InrD:
  assumes a: "loadTasks_resume_frontend sv BEEF txid (i, out, ls, ct) = Inr t"
  shows "\<exists>pt. decrypt sv ct PROTOCOL_ID KEY_ID = Inr pt
        \<and> t = \<lparr>task = toUTF8 sv pt,
                sats = (case wo_satoshis out of None \<Rightarrow> Finite 0 | Some v \<Rightarrow> v),
                outpoint = template txid @ ''.0'',
                lockingScript = toHex ls,
                beef = BEEF\<rparr>"
proof (cases "decrypt sv ct PROTOCOL_ID KEY_ID")
  case (Inl e)
  with a show ?thesis by (simp add: loadTasks_resume_frontend_def)
next
  case (Inr pt)
  from loadTasks_resume_frontend_InrI [OF Inr, of BEEF txid i out ls] a
  have "t = \<lparr>task = toUTF8 sv pt,
                sats = (case wo_satoshis out of None \<Rightarrow> Finite 0 | Some v \<Rightarrow> v),
                outpoint = template txid @ ''.0'',
                lockingScript = toHex ls,
                beef = BEEF\<rparr>" by simp
  with Inr show ?thesis by blast
qed

lemma loadTasks_resume_root_InrI:
  assumes "decrypt sv ct PROTOCOL_ID KEY_ID = Inr pt"
  shows "loadTasks_resume_root sv BEEF txid (i, out, ls, ct) =
     Inr \<lparr>task = toUTF8 sv pt,
          sats = (case wo_satoshis out of None \<Rightarrow> Finite 0 | Some v \<Rightarrow> v),
          outpoint = template txid @ ''.'' @ toString_nat i,
          lockingScript = toHex ls,
          beef = BEEF\<rparr>"
  using assms by (simp add: loadTasks_resume_root_def PROTOCOL_ID_def KEY_ID_def)

lemma loadTasks_resume_root_InrD:
  assumes a: "loadTasks_resume_root sv BEEF txid (i, out, ls, ct) = Inr t"
  shows "\<exists>pt. decrypt sv ct PROTOCOL_ID KEY_ID = Inr pt
        \<and> t = \<lparr>task = toUTF8 sv pt,
                sats = (case wo_satoshis out of None \<Rightarrow> Finite 0 | Some v \<Rightarrow> v),
                outpoint = template txid @ ''.'' @ toString_nat i,
                lockingScript = toHex ls,
                beef = BEEF\<rparr>"
proof (cases "decrypt sv ct PROTOCOL_ID KEY_ID")
  case (Inl e)
  with a show ?thesis by (simp add: loadTasks_resume_root_def PROTOCOL_ID_def KEY_ID_def)
next
  case (Inr pt)
  from loadTasks_resume_root_InrI [OF Inr, of BEEF txid i out ls] a
  have "t = \<lparr>task = toUTF8 sv pt,
                sats = (case wo_satoshis out of None \<Rightarrow> Finite 0 | Some v \<Rightarrow> v),
                outpoint = template txid @ ''.'' @ toString_nat i,
                lockingScript = toHex ls,
                beef = BEEF\<rparr>" by simp
  with Inr show ?thesis by blast
qed

text \<open>When the result at a position is a Task, and which Task it is.\<close>

lemma result_frontend_InrI:
  assumes "i < length (lr_outputs res)"
    and "fromBEEF sv (lr_BEEF res) (Some (split_dot_0 (wo_outpoint (lr_outputs res ! i)))) = Inr tx"
    and "tx_outputs tx = out0 # rest"
    and "decode sv (out_lockingScript out0) = Inr flds"
    and "decrypt sv (at_index flds 1) PROTOCOL_ID KEY_ID = Inr pt"
  shows "decryptedTasksResults_frontend sv res ! i =
     Inr \<lparr>task = toUTF8 sv pt,
          sats = (case wo_satoshis (lr_outputs res ! i) of None \<Rightarrow> Finite 0 | Some v \<Rightarrow> v),
          outpoint = split_dot_0 (wo_outpoint (last (lr_outputs res))) @ ''.0'',
          lockingScript = toHex (out_lockingScript out0),
          beef = lr_BEEF res\<rparr>"
  unfolding decryptedTasksResults_frontend_nth [OF assms(1)]
    loadTasks_callback_frontend_InrI [OF assms(2,3,4)] sum.case
    loadTasks_resume_frontend_InrI [OF assms(5)] template_def option.case
  by (rule refl)

lemma result_frontend_InrD:
  assumes i: "i < length (lr_outputs res)"
    and a: "decryptedTasksResults_frontend sv res ! i = Inr t"
  shows "\<exists>tx out0 rest flds pt.
        fromBEEF sv (lr_BEEF res) (Some (split_dot_0 (wo_outpoint (lr_outputs res ! i)))) = Inr tx
        \<and> tx_outputs tx = out0 # rest
        \<and> decode sv (out_lockingScript out0) = Inr flds
        \<and> decrypt sv (at_index flds 1) PROTOCOL_ID KEY_ID = Inr pt
        \<and> t = \<lparr>task = toUTF8 sv pt,
                sats = (case wo_satoshis (lr_outputs res ! i) of None \<Rightarrow> Finite 0 | Some v \<Rightarrow> v),
                outpoint = split_dot_0 (wo_outpoint (last (lr_outputs res))) @ ''.0'',
                lockingScript = toHex (out_lockingScript out0),
                beef = lr_BEEF res\<rparr>"
proof (cases "snd (loadTasks_callback_frontend sv (lr_BEEF res) (i, lr_outputs res ! i))")
  case (Inl e)
  from a [unfolded decryptedTasksResults_frontend_nth [OF i] Inl sum.case] have False
    by (rule sum.distinct(1) [THEN notE])
  then show ?thesis ..
next
  case (Inr p)
  from loadTasks_callback_frontend_InrD [OF Inr] obtain tx out0 rest flds where
    p: "fromBEEF sv (lr_BEEF res) (Some (split_dot_0 (wo_outpoint (lr_outputs res ! i)))) = Inr tx"
       "tx_outputs tx = out0 # rest" "decode sv (out_lockingScript out0) = Inr flds"
       "p = (i, lr_outputs res ! i, out_lockingScript out0, at_index flds 1)"
    by blast
  from a [unfolded decryptedTasksResults_frontend_nth [OF i] Inr sum.case p(4)]
  have "loadTasks_resume_frontend sv (lr_BEEF res)
       (Some (split_dot_0 (wo_outpoint (last (lr_outputs res)))))
       (i, lr_outputs res ! i, out_lockingScript out0, at_index flds 1) = Inr t" .
  from loadTasks_resume_frontend_InrD [OF this, unfolded template_def option.case]
  obtain pt where
    pt: "decrypt sv (at_index flds 1) PROTOCOL_ID KEY_ID = Inr pt"
    and t: "t = \<lparr>task = toUTF8 sv pt,
                sats = (case wo_satoshis (lr_outputs res ! i) of None \<Rightarrow> Finite 0 | Some v \<Rightarrow> v),
                outpoint = split_dot_0 (wo_outpoint (last (lr_outputs res))) @ ''.0'',
                lockingScript = toHex (out_lockingScript out0),
                beef = lr_BEEF res\<rparr>"
    by blast
  from p(1,2,3) pt t show ?thesis by blast
qed

lemma result_frontend_decode_Inl:
  assumes "i < length (lr_outputs res)"
    and "fromBEEF sv (lr_BEEF res) (Some (split_dot_0 (wo_outpoint (lr_outputs res ! i)))) = Inr tx"
    and "tx_outputs tx = out0 # rest"
    and "decode sv (out_lockingScript out0) = Inl e"
  shows "decryptedTasksResults_frontend sv res ! i = Inl e"
proof -
  have "snd (loadTasks_callback_frontend sv (lr_BEEF res) (i, lr_outputs res ! i)) = Inl e"
    using assms(2,3,4) by (simp add: loadTasks_callback_frontend_def Let_def)
  then show ?thesis
    unfolding decryptedTasksResults_frontend_nth [OF assms(1)] by simp
qed

lemma result_root_InrI:
  assumes "i < length (lr_outputs res)"
    and "fromBEEF sv (lr_BEEF res) (Some (split_dot_0 (wo_outpoint (lr_outputs res ! i)))) = Inr tx"
    and "tx_outputs tx = out0 # rest"
    and "decode sv (out_lockingScript out0) = Inr flds"
    and "decrypt sv (at_index flds 1) PROTOCOL_ID KEY_ID = Inr pt"
  shows "decryptedTasksResults_root sv res ! i =
     Inr \<lparr>task = toUTF8 sv pt,
          sats = (case wo_satoshis (lr_outputs res ! i) of None \<Rightarrow> Finite 0 | Some v \<Rightarrow> v),
          outpoint = split_dot_0 (wo_outpoint (last (lr_outputs res))) @ ''.'' @ toString_nat i,
          lockingScript = toHex (out_lockingScript out0),
          beef = lr_BEEF res\<rparr>"
  unfolding decryptedTasksResults_root_nth [OF assms(1)]
    loadTasks_callback_root_InrI [OF assms(2,3,4)] sum.case
    loadTasks_resume_root_InrI [OF assms(5)] template_def option.case
  by (rule refl)

lemma result_root_InrD:
  assumes i: "i < length (lr_outputs res)"
    and a: "decryptedTasksResults_root sv res ! i = Inr t"
  shows "\<exists>tx out0 rest flds pt.
        fromBEEF sv (lr_BEEF res) (Some (split_dot_0 (wo_outpoint (lr_outputs res ! i)))) = Inr tx
        \<and> tx_outputs tx = out0 # rest
        \<and> decode sv (out_lockingScript out0) = Inr flds
        \<and> decrypt sv (at_index flds 1) PROTOCOL_ID KEY_ID = Inr pt
        \<and> t = \<lparr>task = toUTF8 sv pt,
                sats = (case wo_satoshis (lr_outputs res ! i) of None \<Rightarrow> Finite 0 | Some v \<Rightarrow> v),
                outpoint = split_dot_0 (wo_outpoint (last (lr_outputs res))) @ ''.'' @ toString_nat i,
                lockingScript = toHex (out_lockingScript out0),
                beef = lr_BEEF res\<rparr>"
proof (cases "snd (loadTasks_callback_root sv (lr_BEEF res) (i, lr_outputs res ! i))")
  case (Inl e)
  from a [unfolded decryptedTasksResults_root_nth [OF i] Inl sum.case] have False
    by (rule sum.distinct(1) [THEN notE])
  then show ?thesis ..
next
  case (Inr p)
  from loadTasks_callback_root_InrD [OF Inr] obtain tx out0 rest flds where
    p: "fromBEEF sv (lr_BEEF res) (Some (split_dot_0 (wo_outpoint (lr_outputs res ! i)))) = Inr tx"
       "tx_outputs tx = out0 # rest" "decode sv (out_lockingScript out0) = Inr flds"
       "p = (i, lr_outputs res ! i, out_lockingScript out0, at_index flds 1)"
    by blast
  from a [unfolded decryptedTasksResults_root_nth [OF i] Inr sum.case p(4)]
  have "loadTasks_resume_root sv (lr_BEEF res)
       (Some (split_dot_0 (wo_outpoint (last (lr_outputs res)))))
       (i, lr_outputs res ! i, out_lockingScript out0, at_index flds 1) = Inr t" .
  from loadTasks_resume_root_InrD [OF this, unfolded template_def option.case]
  obtain pt where
    pt: "decrypt sv (at_index flds 1) PROTOCOL_ID KEY_ID = Inr pt"
    and t: "t = \<lparr>task = toUTF8 sv pt,
                sats = (case wo_satoshis (lr_outputs res ! i) of None \<Rightarrow> Finite 0 | Some v \<Rightarrow> v),
                outpoint = split_dot_0 (wo_outpoint (last (lr_outputs res))) @ ''.'' @ toString_nat i,
                lockingScript = toHex (out_lockingScript out0),
                beef = lr_BEEF res\<rparr>"
    by blast
  from p(1,2,3) pt t show ?thesis by blast
qed

lemma result_root_decode_Inl:
  assumes "i < length (lr_outputs res)"
    and "fromBEEF sv (lr_BEEF res) (Some (split_dot_0 (wo_outpoint (lr_outputs res ! i)))) = Inr tx"
    and "tx_outputs tx = out0 # rest"
    and "decode sv (out_lockingScript out0) = Inl e"
  shows "decryptedTasksResults_root sv res ! i = Inl e"
proof -
  have "snd (loadTasks_callback_root sv (lr_BEEF res) (i, lr_outputs res ! i)) = Inl e"
    using assms(2,3,4) by (simp add: loadTasks_callback_root_def Let_def)
  then show ?thesis
    unfolding decryptedTasksResults_root_nth [OF assms(1)] by simp
qed

subsection \<open>Discovery on the test double\<close>

lemma results_frontend_fake_store:
  "decryptedTasksResults_frontend fake_sdk fake_store =
     [Inl (Error ''not a PushDrop script'' None),
      Inr \<lparr>task = ''ab'', sats = Finite 5, outpoint = ''bb.0'',
           lockingScript = ''1ToDoDtKreEzbHYKFjmoBuduFmSXXUGZG/ba/'', beef = Some [1]\<rparr>,
      Inr \<lparr>task = ''cd'', sats = Finite 9, outpoint = ''bb.0'',
           lockingScript = ''x/dc/'', beef = Some [1]\<rparr>,
      Inr \<lparr>task = ''ef'', sats = Finite 0, outpoint = ''bb.0'',
           lockingScript = ''1ToDoDtKreEzbHYKFjmoBuduFmSXXUGZG/fe/'', beef = Some [1]\<rparr>]"
  by (simp add: decryptedTasksResults_frontend_def loadTasks_callback_frontend_def
      loadTasks_resume_frontend_def fake_defs Let_def enumerate_eq_zip split_dot_0_def
      at_index_def template_def TODO_PROTO_ADDR_def char_of_eq_iff)

lemma results_root_fake_store:
  "decryptedTasksResults_root fake_sdk fake_store =
     [Inl (Error ''not a PushDrop script'' None),
      Inr \<lparr>task = ''ab'', sats = Finite 5, outpoint = ''bb.1'',
           lockingScript = ''1ToDoDtKreEzbHYKFjmoBuduFmSXXUGZG/ba/'', beef = Some [1]\<rparr>,
      Inr \<lparr>task = ''cd'', sats = Finite 9, outpoint = ''bb.2'',
           lockingScript = ''x/dc/'', beef = Some [1]\<rparr>,
      Inr \<lparr>task = ''ef'', sats = Finite 0, outpoint = ''bb.3'',
           lockingScript = ''1ToDoDtKreEzbHYKFjmoBuduFmSXXUGZG/fe/'', beef = Some [1]\<rparr>]"
  by (simp add: decryptedTasksResults_root_def loadTasks_callback_root_def
      loadTasks_resume_root_def fake_defs Let_def enumerate_eq_zip split_dot_0_def
      at_index_def template_def TODO_PROTO_ADDR_def char_of_eq_iff digit_def)

lemma results_frontend_fake_store_ok:
  "decryptedTasksResults_frontend fake_sdk fake_store_ok =
     map Inr
     [\<lparr>task = ''ab'', sats = Finite 5, outpoint = ''bb.0'',
           lockingScript = ''1ToDoDtKreEzbHYKFjmoBuduFmSXXUGZG/ba/'', beef = Some [1]\<rparr>,
      \<lparr>task = ''cd'', sats = Finite 9, outpoint = ''bb.0'',
           lockingScript = ''x/dc/'', beef = Some [1]\<rparr>,
      \<lparr>task = ''ef'', sats = Finite 0, outpoint = ''bb.0'',
           lockingScript = ''1ToDoDtKreEzbHYKFjmoBuduFmSXXUGZG/fe/'', beef = Some [1]\<rparr>]"
  by (simp add: decryptedTasksResults_frontend_def loadTasks_callback_frontend_def
      loadTasks_resume_frontend_def fake_defs Let_def enumerate_eq_zip split_dot_0_def
      at_index_def template_def TODO_PROTO_ADDR_def char_of_eq_iff)

lemma results_root_fake_store_ok:
  "decryptedTasksResults_root fake_sdk fake_store_ok =
     map Inr
     [\<lparr>task = ''ab'', sats = Finite 5, outpoint = ''bb.0'',
           lockingScript = ''1ToDoDtKreEzbHYKFjmoBuduFmSXXUGZG/ba/'', beef = Some [1]\<rparr>,
      \<lparr>task = ''cd'', sats = Finite 9, outpoint = ''bb.1'',
           lockingScript = ''x/dc/'', beef = Some [1]\<rparr>,
      \<lparr>task = ''ef'', sats = Finite 0, outpoint = ''bb.2'',
           lockingScript = ''1ToDoDtKreEzbHYKFjmoBuduFmSXXUGZG/fe/'', beef = Some [1]\<rparr>]"
  by (simp add: decryptedTasksResults_root_def loadTasks_callback_root_def
      loadTasks_resume_root_def fake_defs Let_def enumerate_eq_zip split_dot_0_def
      at_index_def template_def TODO_PROTO_ADDR_def char_of_eq_iff digit_def)



section \<open>The order of the list\<close>

text \<open>A creation that goes through, in full.\<close>

lemma handleCreateSubmit_frontend_success:
  assumes "createTask s \<noteq> []" and "\<not> strictEq (createAmount s) (Finite 0)"
    and "\<not> isNaN (createAmount s)" and "\<not> lessThan_js (createAmount s) (Finite 1)"
    and "encrypt sv (toArray sv (createTask s)) PROTOCOL_ID KEY_ID = Inr ct"
    and "lock sv [toArray sv TODO_PROTO_ADDR, ct] PROTOCOL_ID KEY_ID ''self'' = Inr ls"
    and "createAction sv (create_args True s ls) = Inr cres"
  shows "tasks (handleCreateSubmit_frontend sv s)
           = (nextRef s, \<lparr>task = createTask s, sats = createAmount s,
                          outpoint = template (cr_txid cres) @ ''.0'',
                          lockingScript = toHex ls, beef = cr_tx cres\<rparr>) # tasks s"
    and "issued s (handleCreateSubmit_frontend sv s)
           = [CallEncrypt (toArray sv (createTask s)) PROTOCOL_ID KEY_ID,
              CallLock [toArray sv TODO_PROTO_ADDR, ct] PROTOCOL_ID KEY_ID ''self'',
              CallCreateAction (create_args True s ls)]"
  using assms
  by (simp_all add: handleCreateSubmit_frontend_def handleCreateSubmit_frontend_try_def effects
      Let_def issued_def)

lemma handleCreateSubmit_root_success:
  assumes "createTask s \<noteq> []" and "\<not> strictEq (createAmount s) (Finite 0)"
    and "\<not> isNaN (createAmount s)" and "\<not> lessThan_js (createAmount s) (Finite 1)"
    and "encrypt sv (toArray sv (createTask s)) PROTOCOL_ID KEY_ID = Inr ct"
    and "lock sv [toArray sv TODO_PROTO_ADDR, ct] PROTOCOL_ID KEY_ID ''self'' = Inr ls"
    and "createAction sv (create_args False s ls) = Inr cres"
  shows "tasks (handleCreateSubmit_root sv s)
           = (nextRef s, \<lparr>task = createTask s, sats = createAmount s,
                          outpoint = template (cr_txid cres) @ ''.0'',
                          lockingScript = toHex ls, beef = cr_tx cres\<rparr>) # tasks s"
    and "issued s (handleCreateSubmit_root sv s)
           = [CallEncrypt (toArray sv (createTask s)) PROTOCOL_ID KEY_ID,
              CallLock [toArray sv TODO_PROTO_ADDR, ct] PROTOCOL_ID KEY_ID ''self'',
              CallCreateAction (create_args False s ls)]"
  using assms
  by (simp_all add: handleCreateSubmit_root_def handleCreateSubmit_root_try_def effects
      Let_def issued_def PROTOCOL_ID_def KEY_ID_def)

text \<open>
  Claim C5. When every output of the store yields a Task, the list after discovery is
  the reversal of the Tasks in the order of the store: for R1, R2, R3 it is R3, R2, R1.
  A creation that goes through (a valid form, and \<^verbatim>\<open>encrypt\<close>, \<^verbatim>\<open>lock\<close> and
  \<^verbatim>\<open>createAction\<close> all answer) puts the new Task, with the text and amount of the
  form, in front of the list it started from, and issues no \<^verbatim>\<open>listOutputs\<close> call.
\<close>

theorem catalog_newest_first:
  "(listOutputs sv listOutputs_args_frontend = Inr res
      \<and> decryptedTasksResults_frontend sv res = map Inr rs \<longrightarrow>
      map snd (tasks (loadTasks_frontend sv s)) = rev rs)
   \<and> (listOutputs sv listOutputs_args_root = Inr res
      \<and> decryptedTasksResults_root sv res = map Inr rs \<longrightarrow>
      map snd (tasks (loadTasks_root sv s)) = rev rs)
   \<and> (createTask s \<noteq> [] \<and> \<not> strictEq (createAmount s) (Finite 0)
      \<and> \<not> isNaN (createAmount s) \<and> \<not> lessThan_js (createAmount s) (Finite 1)
      \<and> encrypt sv (toArray sv (createTask s)) PROTOCOL_ID KEY_ID = Inr ct
      \<and> lock sv [toArray sv TODO_PROTO_ADDR, ct] PROTOCOL_ID KEY_ID ''self'' = Inr ls
      \<and> createAction sv (create_args True s ls) = Inr cres \<longrightarrow>
      (\<exists>t. tasks (handleCreateSubmit_frontend sv s) = t # tasks s
           \<and> task (snd t) = createTask s \<and> sats (snd t) = createAmount s)
      \<and> (\<forall>a. CallListOutputs a \<notin> set (issued s (handleCreateSubmit_frontend sv s))))
   \<and> (createTask s \<noteq> [] \<and> \<not> strictEq (createAmount s) (Finite 0)
      \<and> \<not> isNaN (createAmount s) \<and> \<not> lessThan_js (createAmount s) (Finite 1)
      \<and> encrypt sv (toArray sv (createTask s)) PROTOCOL_ID KEY_ID = Inr ct
      \<and> lock sv [toArray sv TODO_PROTO_ADDR, ct] PROTOCOL_ID KEY_ID ''self'' = Inr ls
      \<and> createAction sv (create_args False s ls) = Inr cres \<longrightarrow>
      (\<exists>t. tasks (handleCreateSubmit_root sv s) = t # tasks s
           \<and> task (snd t) = createTask s \<and> sats (snd t) = createAmount s)
      \<and> (\<forall>a. CallListOutputs a \<notin> set (issued s (handleCreateSubmit_root sv s))))"
proof (intro conjI impI)
  assume "listOutputs sv listOutputs_args_frontend = Inr res
      \<and> decryptedTasksResults_frontend sv res = map Inr rs"
  then show "map snd (tasks (loadTasks_frontend sv s)) = rev rs"
    by (simp add: loadTasks_frontend_tasks rights_map_Inr)
next
  assume "listOutputs sv listOutputs_args_root = Inr res
      \<and> decryptedTasksResults_root sv res = map Inr rs"
  then show "map snd (tasks (loadTasks_root sv s)) = rev rs"
    by (simp add: loadTasks_root_tasks rights_map_Inr)
next
  assume a: "createTask s \<noteq> [] \<and> \<not> strictEq (createAmount s) (Finite 0)
      \<and> \<not> isNaN (createAmount s) \<and> \<not> lessThan_js (createAmount s) (Finite 1)
      \<and> encrypt sv (toArray sv (createTask s)) PROTOCOL_ID KEY_ID = Inr ct
      \<and> lock sv [toArray sv TODO_PROTO_ADDR, ct] PROTOCOL_ID KEY_ID ''self'' = Inr ls
      \<and> createAction sv (create_args True s ls) = Inr cres"
  then have t: "tasks (handleCreateSubmit_frontend sv s)
           = (nextRef s, \<lparr>task = createTask s, sats = createAmount s,
                          outpoint = template (cr_txid cres) @ ''.0'',
                          lockingScript = toHex ls, beef = cr_tx cres\<rparr>) # tasks s"
    and c: "issued s (handleCreateSubmit_frontend sv s)
           = [CallEncrypt (toArray sv (createTask s)) PROTOCOL_ID KEY_ID,
              CallLock [toArray sv TODO_PROTO_ADDR, ct] PROTOCOL_ID KEY_ID ''self'',
              CallCreateAction (create_args True s ls)]"
    by (simp_all add: handleCreateSubmit_frontend_success)
  show "\<exists>t. tasks (handleCreateSubmit_frontend sv s) = t # tasks s
           \<and> task (snd t) = createTask s \<and> sats (snd t) = createAmount s"
    unfolding t by simp
  show "\<forall>a. CallListOutputs a \<notin> set (issued s (handleCreateSubmit_frontend sv s))"
    unfolding c by simp
next
  assume a: "createTask s \<noteq> [] \<and> \<not> strictEq (createAmount s) (Finite 0)
      \<and> \<not> isNaN (createAmount s) \<and> \<not> lessThan_js (createAmount s) (Finite 1)
      \<and> encrypt sv (toArray sv (createTask s)) PROTOCOL_ID KEY_ID = Inr ct
      \<and> lock sv [toArray sv TODO_PROTO_ADDR, ct] PROTOCOL_ID KEY_ID ''self'' = Inr ls
      \<and> createAction sv (create_args False s ls) = Inr cres"
  then have t: "tasks (handleCreateSubmit_root sv s)
           = (nextRef s, \<lparr>task = createTask s, sats = createAmount s,
                          outpoint = template (cr_txid cres) @ ''.0'',
                          lockingScript = toHex ls, beef = cr_tx cres\<rparr>) # tasks s"
    and c: "issued s (handleCreateSubmit_root sv s)
           = [CallEncrypt (toArray sv (createTask s)) PROTOCOL_ID KEY_ID,
              CallLock [toArray sv TODO_PROTO_ADDR, ct] PROTOCOL_ID KEY_ID ''self'',
              CallCreateAction (create_args False s ls)]"
    by (simp_all add: handleCreateSubmit_root_success)
  show "\<exists>t. tasks (handleCreateSubmit_root sv s) = t # tasks s
           \<and> task (snd t) = createTask s \<and> sats (snd t) = createAmount s"
    unfolding t by simp
  show "\<forall>a. CallListOutputs a \<notin> set (issued s (handleCreateSubmit_root sv s))"
    unfolding c by simp
qed

text \<open>Discovery on the test double with the second store.\<close>

lemma results_frontend_sdk_store_ok:
  "decryptedTasksResults_frontend sdk_store_ok fake_store_ok =
     map Inr
     [\<lparr>task = ''ab'', sats = Finite 5, outpoint = ''bb.0'',
           lockingScript = ''1ToDoDtKreEzbHYKFjmoBuduFmSXXUGZG/ba/'', beef = Some [1]\<rparr>,
      \<lparr>task = ''cd'', sats = Finite 9, outpoint = ''bb.0'',
           lockingScript = ''x/dc/'', beef = Some [1]\<rparr>,
      \<lparr>task = ''ef'', sats = Finite 0, outpoint = ''bb.0'',
           lockingScript = ''1ToDoDtKreEzbHYKFjmoBuduFmSXXUGZG/fe/'', beef = Some [1]\<rparr>]"
  by (simp add: decryptedTasksResults_frontend_def loadTasks_callback_frontend_def
      loadTasks_resume_frontend_def sdk_store_ok_def fake_defs Let_def enumerate_eq_zip
      split_dot_0_def at_index_def template_def TODO_PROTO_ADDR_def char_of_eq_iff)

lemma results_root_sdk_store_ok:
  "decryptedTasksResults_root sdk_store_ok fake_store_ok =
     map Inr
     [\<lparr>task = ''ab'', sats = Finite 5, outpoint = ''bb.0'',
           lockingScript = ''1ToDoDtKreEzbHYKFjmoBuduFmSXXUGZG/ba/'', beef = Some [1]\<rparr>,
      \<lparr>task = ''cd'', sats = Finite 9, outpoint = ''bb.1'',
           lockingScript = ''x/dc/'', beef = Some [1]\<rparr>,
      \<lparr>task = ''ef'', sats = Finite 0, outpoint = ''bb.2'',
           lockingScript = ''1ToDoDtKreEzbHYKFjmoBuduFmSXXUGZG/fe/'', beef = Some [1]\<rparr>]"
  by (simp add: decryptedTasksResults_root_def loadTasks_callback_root_def
      loadTasks_resume_root_def sdk_store_ok_def fake_defs Let_def enumerate_eq_zip
      split_dot_0_def at_index_def template_def TODO_PROTO_ADDR_def char_of_eq_iff digit_def)

theorem catalog_newest_first_witness:
  "listOutputs sdk_store_ok listOutputs_args_frontend = Inr fake_store_ok
   \<and> listOutputs sdk_store_ok listOutputs_args_root = Inr fake_store_ok
   \<and> map task (rights (decryptedTasksResults_frontend sdk_store_ok fake_store_ok))
       = [''ab'', ''cd'', ''ef'']
   \<and> map task (map snd (tasks (loadTasks_frontend sdk_store_ok app0))) = [''ef'', ''cd'', ''ab'']
   \<and> map task (map snd (tasks (loadTasks_root sdk_store_ok app0))) = [''ef'', ''cd'', ''ab'']
   \<and> createTask (app_form ''ab'' (Finite 5)) = ''ab''
   \<and> (\<exists>t. tasks (handleCreateSubmit_frontend fake_sdk (app_form ''ab'' (Finite 5)))
             = t # tasks (app_form ''ab'' (Finite 5)) \<and> task (snd t) = ''ab'')
   \<and> (\<exists>t. tasks (handleCreateSubmit_root fake_sdk (app_form ''ab'' (Finite 5)))
             = t # tasks (app_form ''ab'' (Finite 5)) \<and> task (snd t) = ''ab'')"
proof -
  let ?s = "app_form ''ab'' (Finite 5)"
  let ?ls = "LockingScript ''1ToDoDtKreEzbHYKFjmoBuduFmSXXUGZG/ba/''"
  have h1: "listOutputs sdk_store_ok listOutputs_args_frontend = Inr fake_store_ok"
    by (simp add: sdk_store_ok_def)
  have h2: "listOutputs sdk_store_ok listOutputs_args_root = Inr fake_store_ok"
    by (simp add: sdk_store_ok_def)
  note rf = results_frontend_sdk_store_ok
  note rr = results_root_sdk_store_ok
  note f = catalog_newest_first [where sv = sdk_store_ok and res = fake_store_ok and s = app0,
      THEN conjunct1, rule_format, OF conjI, OF h1 rf]
  note r = catalog_newest_first [where sv = sdk_store_ok and res = fake_store_ok and s = app0,
      THEN conjunct2, THEN conjunct1, rule_format, OF conjI, OF h2 rr]
  have v: "createTask ?s \<noteq> [] \<and> \<not> strictEq (createAmount ?s) (Finite 0)
      \<and> \<not> isNaN (createAmount ?s) \<and> \<not> lessThan_js (createAmount ?s) (Finite 1)
      \<and> encrypt fake_sdk (toArray fake_sdk (createTask ?s)) PROTOCOL_ID KEY_ID = Inr [98, 97]
      \<and> lock fake_sdk [toArray fake_sdk TODO_PROTO_ADDR, [98, 97]] PROTOCOL_ID KEY_ID ''self''
          = Inr ?ls"
    by (simp add: fake_defs TODO_PROTO_ADDR_def char_of_eq_iff)
  have cf: "createAction fake_sdk (create_args True ?s ?ls)
      = Inr \<lparr>cr_txid = Some ''dd'', cr_tx = Some [2], cr_signableTransaction = None\<rparr>"
    by (simp add: fake_defs create_args_def)
  have cr: "createAction fake_sdk (create_args False ?s ?ls)
      = Inr \<lparr>cr_txid = Some ''dd'', cr_tx = Some [2], cr_signableTransaction = None\<rparr>"
    by (simp add: fake_defs create_args_def)
  from v cf have vf: "createTask ?s \<noteq> [] \<and> \<not> strictEq (createAmount ?s) (Finite 0)
      \<and> \<not> isNaN (createAmount ?s) \<and> \<not> lessThan_js (createAmount ?s) (Finite 1)
      \<and> encrypt fake_sdk (toArray fake_sdk (createTask ?s)) PROTOCOL_ID KEY_ID = Inr [98, 97]
      \<and> lock fake_sdk [toArray fake_sdk TODO_PROTO_ADDR, [98, 97]] PROTOCOL_ID KEY_ID ''self''
          = Inr ?ls
      \<and> createAction fake_sdk (create_args True ?s ?ls)
      = Inr \<lparr>cr_txid = Some ''dd'', cr_tx = Some [2], cr_signableTransaction = None\<rparr>"
    by blast
  from v cr have vr: "createTask ?s \<noteq> [] \<and> \<not> strictEq (createAmount ?s) (Finite 0)
      \<and> \<not> isNaN (createAmount ?s) \<and> \<not> lessThan_js (createAmount ?s) (Finite 1)
      \<and> encrypt fake_sdk (toArray fake_sdk (createTask ?s)) PROTOCOL_ID KEY_ID = Inr [98, 97]
      \<and> lock fake_sdk [toArray fake_sdk TODO_PROTO_ADDR, [98, 97]] PROTOCOL_ID KEY_ID ''self''
          = Inr ?ls
      \<and> createAction fake_sdk (create_args False ?s ?ls)
      = Inr \<lparr>cr_txid = Some ''dd'', cr_tx = Some [2], cr_signableTransaction = None\<rparr>"
    by blast
  note cf' = catalog_newest_first [where sv = fake_sdk and s = ?s,
      THEN conjunct2, THEN conjunct2, THEN conjunct1, rule_format, OF vf, THEN conjunct1]
  note cr' = catalog_newest_first [where sv = fake_sdk and s = ?s,
      THEN conjunct2, THEN conjunct2, THEN conjunct2, rule_format, OF vr, THEN conjunct1]
  have ct: "createTask ?s = ''ab''"
    by (simp add: app_form_def)
  from cf' ct have e1: "\<exists>t. tasks (handleCreateSubmit_frontend fake_sdk ?s) = t # tasks ?s
      \<and> task (snd t) = ''ab''"
    by auto
  from cr' ct have e2: "\<exists>t. tasks (handleCreateSubmit_root fake_sdk ?s) = t # tasks ?s
      \<and> task (snd t) = ''ab''"
    by auto
  have m: "map task (rights (decryptedTasksResults_frontend sdk_store_ok fake_store_ok))
       = [''ab'', ''cd'', ''ef'']"
    by (simp add: rf)
  from f have f': "map task (map snd (tasks (loadTasks_frontend sdk_store_ok app0)))
      = [''ef'', ''cd'', ''ab'']"
    by simp
  from r have r': "map task (map snd (tasks (loadTasks_root sdk_store_ok app0)))
      = [''ef'', ''cd'', ''ab'']"
    by simp
  from h1 h2 m f' r' ct e1 e2 show ?thesis
    by blast
qed

section \<open>Redemption: the amount handed to the unlocker\<close>

text \<open>The \<^verbatim>\<open>catch\<close> and \<^verbatim>\<open>finally\<close> blocks issue no call.\<close>

lemma issued_complete_frontend:
  "issued s (handleCompleteSubmit_frontend sv s) = issued s (snd (handleCompleteSubmit_frontend_try sv s))"
  by (simp add: handleCompleteSubmit_frontend_def complete_catch_finally_def issued_def effects
      split: prod.splits option.splits)

lemma handleCompleteSubmit_frontend_unlock_calls:
  assumes "selectedTask s = Some sel"
    and "CallUnlock u \<in> set (issued s (handleCompleteSubmit_frontend sv s))"
  shows "\<exists>ls. fromHex sv (lockingScript (snd sel)) = Inr ls
            \<and> u = unlock PROTOCOL_ID KEY_ID ''self'' ''all'' False (sats (snd sel)) ls"
  using assms unfolding issued_complete_frontend
  by (simp add: handleCompleteSubmit_frontend_try_def issued_def issue_def toast_dark_def
      console_log_def Let_def split: sum.splits option.splits)


lemma issued_complete_root:
  "issued s (handleCompleteSubmit_root sv s) = issued s (snd (handleCompleteSubmit_root_try sv s))"
  by (simp add: handleCompleteSubmit_root_def complete_catch_finally_def issued_def effects
      split: prod.splits option.splits)

lemma handleCompleteSubmit_root_unlock_calls:
  assumes "selectedTask s = Some sel"
    and "CallUnlock u \<in> set (issued s (handleCompleteSubmit_root sv s))"
  shows "\<exists>ls. fromHex sv (lockingScript (snd sel)) = Inr ls
            \<and> u = unlock PROTOCOL_ID KEY_ID ''self'' ''all'' False (sats (snd sel)) ls"
  using assms unfolding issued_complete_root
  by (simp add: handleCompleteSubmit_root_try_def issued_def issue_def toast_dark_def
      console_log_def Let_def PROTOCOL_ID_def KEY_ID_def split: sum.splits option.splits)

lemma handleCompleteSubmit_frontend_reaches_unlock:
  assumes "selectedTask s = Some sel"
    and "createAction sv (complete_args (beef (snd sel)) (Some True) (snd sel)) = Inr cres"
    and "cr_signableTransaction cres = Some st"
    and "fromBEEF sv (Some (st_tx st)) None = Inr ptx"
    and "fromHex sv (lockingScript (snd sel)) = Inr ls"
  shows "CallUnlock (unlock PROTOCOL_ID KEY_ID ''self'' ''all'' False (sats (snd sel)) ls)
           \<in> set (issued s (handleCompleteSubmit_frontend sv s))"
  using assms unfolding issued_complete_frontend
  by (simp add: handleCompleteSubmit_frontend_try_def issued_def issue_def toast_dark_def
      console_log_def Let_def split: sum.splits option.splits)

lemma handleCompleteSubmit_root_reaches_unlock:
  assumes "selectedTask s = Some sel"
    and "fromBinary sv (beef (snd sel)) = Inr loadedBeef"
    and "getChainTracker sv ''main'' = Inr tracker"
    and "verify sv loadedBeef tracker True = Inr ok"
    and "createAction sv (complete_args (Some (toBinary sv loadedBeef)) None (snd sel)) = Inr cres"
    and "cr_signableTransaction cres = Some st"
    and "fromBEEF sv (Some (st_tx st)) None = Inr ptx"
    and "fromHex sv (lockingScript (snd sel)) = Inr ls"
  shows "CallUnlock (unlock PROTOCOL_ID KEY_ID ''self'' ''all'' False (sats (snd sel)) ls)
           \<in> set (issued s (handleCompleteSubmit_root sv s))"
  using assms unfolding issued_complete_root
  by (simp add: handleCompleteSubmit_root_try_def issued_def issue_def toast_dark_def
      console_log_def Let_def PROTOCOL_ID_def KEY_ID_def split: sum.splits option.splits)

text \<open>A Task added by creation carries the amount of the form, which passed the checks.\<close>

lemma created_amount_frontend:
  assumes "tasks (handleCreateSubmit_frontend sv s) = nt # tasks s"
  shows "sats (snd nt) = createAmount s \<and> \<not> lessThan_js (createAmount s) (Finite 1)
         \<and> \<not> strictEq (createAmount s) (Finite 0) \<and> \<not> isNaN (createAmount s)"
  using assms
  by (auto simp: handleCreateSubmit_frontend_def handleCreateSubmit_frontend_try_def effects Let_def
      split: if_splits sum.splits)

lemma created_amount_root:
  assumes "tasks (handleCreateSubmit_root sv s) = nt # tasks s"
  shows "sats (snd nt) = createAmount s \<and> \<not> lessThan_js (createAmount s) (Finite 1)
         \<and> \<not> strictEq (createAmount s) (Finite 0) \<and> \<not> isNaN (createAmount s)"
  using assms
  by (auto simp: handleCreateSubmit_root_def handleCreateSubmit_root_try_def effects Let_def
      split: if_splits sum.splits)

text \<open>The answer of the Chain Verifier does not reach the rest of the \<^verbatim>\<open>try\<close> block.\<close>

lemma verify_answer_unused:
  "handleCompleteSubmit_root_try (sv\<lparr>verify := (\<lambda>b tracker strict. Inr ok)\<rparr>) s
     = handleCompleteSubmit_root_try (sv\<lparr>verify := (\<lambda>b tracker strict. Inr ok')\<rparr>) s"
  by (simp add: handleCompleteSubmit_root_try_def Let_def split: sum.splits option.splits)


text \<open>
  A result that is a Task is one of the Tasks kept by the filter.
\<close>

lemma Inr_nth_rights: "i < length rs \<Longrightarrow> rs ! i = Inr t \<Longrightarrow> t \<in> set (rights rs)"
proof (induction rs arbitrary: i rule: rights.induct)
  case 1
  then show ?case by simp
next
  case (2 x xs)
  then show ?case by (cases i) simp_all
next
  case (3 y xs)
  then show ?case by (cases i) simp_all
qed

text \<open>
  The list that discovery leaves, with the addresses of its objects, and what it is on
  the test double.
\<close>

lemma collect_tasks_objs:
  "tasks (collect_tasks started resume dcall s)
     = rev (zip [nextRef s..<nextRef s + length (rights (map (case_sum Inl resume) started))]
                (rights (map (case_sum Inl resume) started)))"
  by (simp add: collect_tasks_def Let_def new_objs_def)

lemma loadTasks_frontend_objs:
  assumes "listOutputs sv listOutputs_args_frontend = Inr res"
  shows "tasks (loadTasks_frontend sv s)
     = rev (zip [nextRef s..<nextRef s + length (rights (decryptedTasksResults_frontend sv res))]
                (rights (decryptedTasksResults_frontend sv res)))"
  by (simp add: loadTasks_frontend_unfold [OF assms] collect_tasks_objs
      decryptedTasksResults_frontend_unfold issue_def)

lemma loadTasks_root_objs:
  assumes "listOutputs sv listOutputs_args_root = Inr res"
  shows "tasks (loadTasks_root sv s)
     = rev (zip [nextRef s..<nextRef s + length (rights (decryptedTasksResults_root sv res))]
                (rights (decryptedTasksResults_root sv res)))"
  by (simp add: loadTasks_root_unfold [OF assms] collect_tasks_objs
      decryptedTasksResults_root_unfold issue_def)

lemma tasks_loadTasks_frontend_fake:
  "tasks (loadTasks_frontend fake_sdk app0) =
     [(2, zero_task),
      (1, \<lparr>task = ''cd'', sats = Finite 9, outpoint = ''bb.0'', lockingScript = ''x/dc/'',
           beef = Some [1]\<rparr>),
      (0, fake_task\<lparr>outpoint := ''bb.0''\<rparr>)]"
proof -
  have l: "listOutputs fake_sdk listOutputs_args_frontend = Inr fake_store"
    by (simp add: fake_sdk_def)
  show ?thesis
    unfolding loadTasks_frontend_objs [OF l] results_frontend_fake_store
    by (simp add: app0_def zero_task_def fake_task_def upt_rec)
qed

lemma tasks_loadTasks_root_fake:
  "tasks (loadTasks_root fake_sdk app0_root) =
     [(2, zero_task\<lparr>outpoint := ''bb.3''\<rparr>),
      (1, \<lparr>task = ''cd'', sats = Finite 9, outpoint = ''bb.2'', lockingScript = ''x/dc/'',
           beef = Some [1]\<rparr>),
      (0, fake_task\<lparr>outpoint := ''bb.1''\<rparr>)]"
proof -
  have l: "listOutputs fake_sdk listOutputs_args_root = Inr fake_store"
    by (simp add: fake_sdk_def)
  show ?thesis
    unfolding loadTasks_root_objs [OF l] results_root_fake_store
    by (simp add: app0_root_def app0_def zero_task_def fake_task_def upt_rec)
qed

text \<open>
  Claim C10. In both variants, the Task that discovery builds for an output for which
  the store gives no amount has 0 satoshis and is in the list of tasks that discovery
  leaves, which holds the Tasks built, newest first, and nothing else; a Task added by
  creation, in contrast, never has an amount that is 0, NaN or below 1. When a Task of
  0 satoshis is the selected one and redemption gets as far as building the unlocker,
  the \<^verbatim>\<open>unlock\<close> call receives 0 as the amount to unlock, and no \<^verbatim>\<open>unlock\<close> call of that
  redemption receives anything else; so it is, in particular, after a click on such a
  Task of the list that discovery left.
\<close>

theorem missing_amount_catalogued_as_zero:
  "(listOutputs sv listOutputs_args_frontend = Inr res
      \<and> i < length (lr_outputs res) \<and> wo_satoshis (lr_outputs res ! i) = None
      \<and> decryptedTasksResults_frontend sv res ! i = Inr t \<longrightarrow>
      sats t = Finite 0
      \<and> t \<in> set (map snd (tasks (loadTasks_frontend sv s)))
      \<and> map snd (tasks (loadTasks_frontend sv s))
          = rev (rights (decryptedTasksResults_frontend sv res)))
   \<and> (listOutputs sv listOutputs_args_root = Inr res
      \<and> i < length (lr_outputs res) \<and> wo_satoshis (lr_outputs res ! i) = None
      \<and> decryptedTasksResults_root sv res ! i = Inr t \<longrightarrow>
      sats t = Finite 0
      \<and> t \<in> set (map snd (tasks (loadTasks_root sv s)))
      \<and> map snd (tasks (loadTasks_root sv s))
          = rev (rights (decryptedTasksResults_root sv res)))
   \<and> (tasks (handleCreateSubmit_frontend sv s) = nt # tasks s \<longrightarrow>
      sats (snd nt) = createAmount s \<and> \<not> lessThan_js (sats (snd nt)) (Finite 1)
      \<and> \<not> strictEq (sats (snd nt)) (Finite 0) \<and> \<not> isNaN (sats (snd nt)))
   \<and> (tasks (handleCreateSubmit_root sv s) = nt # tasks s \<longrightarrow>
      sats (snd nt) = createAmount s \<and> \<not> lessThan_js (sats (snd nt)) (Finite 1)
      \<and> \<not> strictEq (sats (snd nt)) (Finite 0) \<and> \<not> isNaN (sats (snd nt)))
   \<and> (selectedTask s = Some sel \<and> sats (snd sel) = Finite 0
      \<and> createAction sv (complete_args (beef (snd sel)) (Some True) (snd sel)) = Inr cres
      \<and> cr_signableTransaction cres = Some st
      \<and> fromBEEF sv (Some (st_tx st)) None = Inr ptx
      \<and> fromHex sv (lockingScript (snd sel)) = Inr ls \<longrightarrow>
      CallUnlock (unlock PROTOCOL_ID KEY_ID ''self'' ''all'' False (Finite 0) ls)
        \<in> set (issued s (handleCompleteSubmit_frontend sv s))
      \<and> (\<forall>u. CallUnlock u \<in> set (issued s (handleCompleteSubmit_frontend sv s))
             \<longrightarrow> u_sourceSatoshis u = Finite 0))
   \<and> (selectedTask s = Some sel \<and> sats (snd sel) = Finite 0
      \<and> fromBinary sv (beef (snd sel)) = Inr loadedBeef
      \<and> getChainTracker sv ''main'' = Inr tracker
      \<and> verify sv loadedBeef tracker True = Inr ok
      \<and> createAction sv (complete_args (Some (toBinary sv loadedBeef)) None (snd sel)) = Inr cres
      \<and> cr_signableTransaction cres = Some st
      \<and> fromBEEF sv (Some (st_tx st)) None = Inr ptx
      \<and> fromHex sv (lockingScript (snd sel)) = Inr ls \<longrightarrow>
      CallUnlock (unlock PROTOCOL_ID KEY_ID ''self'' ''all'' False (Finite 0) ls)
        \<in> set (issued s (handleCompleteSubmit_root sv s))
      \<and> (\<forall>u. CallUnlock u \<in> set (issued s (handleCompleteSubmit_root sv s))
             \<longrightarrow> u_sourceSatoshis u = Finite 0))
   \<and> (x \<in> set (tasks (loadTasks_frontend sv s)) \<and> sats (snd x) = Finite 0
      \<and> createAction sv (complete_args (beef (snd x)) (Some True) (snd x)) = Inr cres
      \<and> cr_signableTransaction cres = Some st
      \<and> fromBEEF sv (Some (st_tx st)) None = Inr ptx
      \<and> fromHex sv (lockingScript (snd x)) = Inr ls \<longrightarrow>
      CallUnlock (unlock PROTOCOL_ID KEY_ID ''self'' ''all'' False (Finite 0) ls)
        \<in> set (issued (openCompleteModal x (loadTasks_frontend sv s))
                 (handleCompleteSubmit_frontend sv (openCompleteModal x (loadTasks_frontend sv s))))
      \<and> (\<forall>u. CallUnlock u
               \<in> set (issued (openCompleteModal x (loadTasks_frontend sv s))
                        (handleCompleteSubmit_frontend sv
                           (openCompleteModal x (loadTasks_frontend sv s))))
             \<longrightarrow> u_sourceSatoshis u = Finite 0))
   \<and> (x \<in> set (tasks (loadTasks_root sv s)) \<and> sats (snd x) = Finite 0
      \<and> fromBinary sv (beef (snd x)) = Inr loadedBeef
      \<and> getChainTracker sv ''main'' = Inr tracker
      \<and> verify sv loadedBeef tracker True = Inr ok
      \<and> createAction sv (complete_args (Some (toBinary sv loadedBeef)) None (snd x)) = Inr cres
      \<and> cr_signableTransaction cres = Some st
      \<and> fromBEEF sv (Some (st_tx st)) None = Inr ptx
      \<and> fromHex sv (lockingScript (snd x)) = Inr ls \<longrightarrow>
      CallUnlock (unlock PROTOCOL_ID KEY_ID ''self'' ''all'' False (Finite 0) ls)
        \<in> set (issued (openCompleteModal x (loadTasks_root sv s))
                 (handleCompleteSubmit_root sv (openCompleteModal x (loadTasks_root sv s))))
      \<and> (\<forall>u. CallUnlock u
               \<in> set (issued (openCompleteModal x (loadTasks_root sv s))
                        (handleCompleteSubmit_root sv (openCompleteModal x (loadTasks_root sv s))))
             \<longrightarrow> u_sourceSatoshis u = Finite 0))"
proof (intro conjI impI allI)
  assume a: "listOutputs sv listOutputs_args_frontend = Inr res
      \<and> i < length (lr_outputs res) \<and> wo_satoshis (lr_outputs res ! i) = None
      \<and> decryptedTasksResults_frontend sv res ! i = Inr t"
  then have l: "listOutputs sv listOutputs_args_frontend = Inr res"
    and n: "i < length (lr_outputs res)"
    and r: "decryptedTasksResults_frontend sv res ! i = Inr t"
    by simp_all
  from result_frontend_InrD [OF n r] a show "sats t = Finite 0"
    by auto
  from n have "i < length (decryptedTasksResults_frontend sv res)"
    by (simp add: length_decryptedTasksResults_frontend)
  from Inr_nth_rights [OF this r]
  show "t \<in> set (map snd (tasks (loadTasks_frontend sv s)))"
    by (simp add: loadTasks_frontend_tasks [OF l])
  show "map snd (tasks (loadTasks_frontend sv s))
          = rev (rights (decryptedTasksResults_frontend sv res))"
    by (rule loadTasks_frontend_tasks [OF l])
next
  assume a: "listOutputs sv listOutputs_args_root = Inr res
      \<and> i < length (lr_outputs res) \<and> wo_satoshis (lr_outputs res ! i) = None
      \<and> decryptedTasksResults_root sv res ! i = Inr t"
  then have l: "listOutputs sv listOutputs_args_root = Inr res"
    and n: "i < length (lr_outputs res)"
    and r: "decryptedTasksResults_root sv res ! i = Inr t"
    by simp_all
  from result_root_InrD [OF n r] a show "sats t = Finite 0"
    by auto
  from n have "i < length (decryptedTasksResults_root sv res)"
    by (simp add: length_decryptedTasksResults_root)
  from Inr_nth_rights [OF this r]
  show "t \<in> set (map snd (tasks (loadTasks_root sv s)))"
    by (simp add: loadTasks_root_tasks [OF l])
  show "map snd (tasks (loadTasks_root sv s))
          = rev (rights (decryptedTasksResults_root sv res))"
    by (rule loadTasks_root_tasks [OF l])
next
  assume a: "tasks (handleCreateSubmit_frontend sv s) = nt # tasks s"
  note c = created_amount_frontend [OF a]
  from c show "sats (snd nt) = createAmount s" by simp
  from c show "\<not> lessThan_js (sats (snd nt)) (Finite 1)" by simp
  from c show "\<not> strictEq (sats (snd nt)) (Finite 0)" by simp
  from c show "\<not> isNaN (sats (snd nt))" by simp
next
  assume a: "tasks (handleCreateSubmit_root sv s) = nt # tasks s"
  note c = created_amount_root [OF a]
  from c show "sats (snd nt) = createAmount s" by simp
  from c show "\<not> lessThan_js (sats (snd nt)) (Finite 1)" by simp
  from c show "\<not> strictEq (sats (snd nt)) (Finite 0)" by simp
  from c show "\<not> isNaN (sats (snd nt))" by simp
next
  assume a: "selectedTask s = Some sel \<and> sats (snd sel) = Finite 0
      \<and> createAction sv (complete_args (beef (snd sel)) (Some True) (snd sel)) = Inr cres
      \<and> cr_signableTransaction cres = Some st
      \<and> fromBEEF sv (Some (st_tx st)) None = Inr ptx
      \<and> fromHex sv (lockingScript (snd sel)) = Inr ls"
  from a handleCompleteSubmit_frontend_reaches_unlock [of s sel sv cres st ptx ls]
  show "CallUnlock (unlock PROTOCOL_ID KEY_ID ''self'' ''all'' False (Finite 0) ls)
        \<in> set (issued s (handleCompleteSubmit_frontend sv s))"
    by simp
  fix u
  assume "CallUnlock u \<in> set (issued s (handleCompleteSubmit_frontend sv s))"
  with a handleCompleteSubmit_frontend_unlock_calls [of s sel u sv]
  show "u_sourceSatoshis u = Finite 0"
    by (auto simp: unlock_def)
next
  assume a: "selectedTask s = Some sel \<and> sats (snd sel) = Finite 0
      \<and> fromBinary sv (beef (snd sel)) = Inr loadedBeef
      \<and> getChainTracker sv ''main'' = Inr tracker
      \<and> verify sv loadedBeef tracker True = Inr ok
      \<and> createAction sv (complete_args (Some (toBinary sv loadedBeef)) None (snd sel)) = Inr cres
      \<and> cr_signableTransaction cres = Some st
      \<and> fromBEEF sv (Some (st_tx st)) None = Inr ptx
      \<and> fromHex sv (lockingScript (snd sel)) = Inr ls"
  from a handleCompleteSubmit_root_reaches_unlock [of s sel sv loadedBeef tracker ok cres st ptx ls]
  show "CallUnlock (unlock PROTOCOL_ID KEY_ID ''self'' ''all'' False (Finite 0) ls)
        \<in> set (issued s (handleCompleteSubmit_root sv s))"
    by simp
  fix u
  assume "CallUnlock u \<in> set (issued s (handleCompleteSubmit_root sv s))"
  with a handleCompleteSubmit_root_unlock_calls [of s sel u sv]
  show "u_sourceSatoshis u = Finite 0"
    by (auto simp: unlock_def)
next
  let ?s = "openCompleteModal x (loadTasks_frontend sv s)"
  assume a: "x \<in> set (tasks (loadTasks_frontend sv s)) \<and> sats (snd x) = Finite 0
      \<and> createAction sv (complete_args (beef (snd x)) (Some True) (snd x)) = Inr cres
      \<and> cr_signableTransaction cres = Some st
      \<and> fromBEEF sv (Some (st_tx st)) None = Inr ptx
      \<and> fromHex sv (lockingScript (snd x)) = Inr ls"
  have sel: "selectedTask ?s = Some x"
    by (simp add: openCompleteModal_def)
  from a handleCompleteSubmit_frontend_reaches_unlock [OF sel, of sv cres st ptx ls]
  show "CallUnlock (unlock PROTOCOL_ID KEY_ID ''self'' ''all'' False (Finite 0) ls)
        \<in> set (issued ?s (handleCompleteSubmit_frontend sv ?s))"
    by simp
  fix u
  assume "CallUnlock u \<in> set (issued ?s (handleCompleteSubmit_frontend sv ?s))"
  with a handleCompleteSubmit_frontend_unlock_calls [OF sel, of u sv]
  show "u_sourceSatoshis u = Finite 0"
    by (auto simp: unlock_def)
next
  let ?s = "openCompleteModal x (loadTasks_root sv s)"
  assume a: "x \<in> set (tasks (loadTasks_root sv s)) \<and> sats (snd x) = Finite 0
      \<and> fromBinary sv (beef (snd x)) = Inr loadedBeef
      \<and> getChainTracker sv ''main'' = Inr tracker
      \<and> verify sv loadedBeef tracker True = Inr ok
      \<and> createAction sv (complete_args (Some (toBinary sv loadedBeef)) None (snd x)) = Inr cres
      \<and> cr_signableTransaction cres = Some st
      \<and> fromBEEF sv (Some (st_tx st)) None = Inr ptx
      \<and> fromHex sv (lockingScript (snd x)) = Inr ls"
  have sel: "selectedTask ?s = Some x"
    by (simp add: openCompleteModal_def)
  from a handleCompleteSubmit_root_reaches_unlock [OF sel, of sv loadedBeef tracker ok cres st ptx ls]
  show "CallUnlock (unlock PROTOCOL_ID KEY_ID ''self'' ''all'' False (Finite 0) ls)
        \<in> set (issued ?s (handleCompleteSubmit_root sv ?s))"
    by simp
  fix u
  assume "CallUnlock u \<in> set (issued ?s (handleCompleteSubmit_root sv ?s))"
  with a handleCompleteSubmit_root_unlock_calls [OF sel, of u sv]
  show "u_sourceSatoshis u = Finite 0"
    by (auto simp: unlock_def)
qed

text \<open>
  On the test double the output \<open>bb.2\<close> has no amount: discovery puts its Task first
  in the list, and the redemption of the first Task of that list unlocks 0 satoshis.
\<close>

theorem missing_amount_catalogued_as_zero_witness:
  "listOutputs fake_sdk listOutputs_args_frontend = Inr fake_store
   \<and> listOutputs fake_sdk listOutputs_args_root = Inr fake_store
   \<and> wo_satoshis (lr_outputs fake_store ! 3) = None
   \<and> decryptedTasksResults_frontend fake_sdk fake_store ! 3 = Inr zero_task
   \<and> decryptedTasksResults_root fake_sdk fake_store ! 3 = Inr (zero_task\<lparr>outpoint := ''bb.3''\<rparr>)
   \<and> sats zero_task = Finite 0
   \<and> sats (zero_task\<lparr>outpoint := ''bb.3''\<rparr>) = Finite 0
   \<and> zero_task \<in> set (map snd (tasks (loadTasks_frontend fake_sdk app0)))
   \<and> zero_task\<lparr>outpoint := ''bb.3''\<rparr> \<in> set (map snd (tasks (loadTasks_root fake_sdk app0_root)))
   \<and> hd (tasks (loadTasks_frontend fake_sdk app0)) = (2, zero_task)
   \<and> hd (tasks (loadTasks_root fake_sdk app0_root)) = (2, zero_task\<lparr>outpoint := ''bb.3''\<rparr>)
   \<and> tasks (handleCreateSubmit_frontend fake_sdk (app_form ''ab'' (Finite 5)))
       = (0, \<lparr>task = ''ab'', sats = Finite 5, outpoint = ''dd.0'',
               lockingScript = ''1ToDoDtKreEzbHYKFjmoBuduFmSXXUGZG/ba/'', beef = Some [2]\<rparr>)
         # tasks (app_form ''ab'' (Finite 5))
   \<and> tasks (handleCreateSubmit_root fake_sdk (app_form ''ab'' (Finite 5)))
       = (0, \<lparr>task = ''ab'', sats = Finite 5, outpoint = ''dd.0'',
               lockingScript = ''1ToDoDtKreEzbHYKFjmoBuduFmSXXUGZG/ba/'', beef = Some [2]\<rparr>)
         # tasks (app_form ''ab'' (Finite 5))
   \<and> \<not> lessThan_js (Finite 5) (Finite 1)
   \<and> CallUnlock (unlock PROTOCOL_ID KEY_ID ''self'' ''all'' False (Finite 0)
                  (LockingScript (lockingScript zero_task)))
       \<in> set (issued (openCompleteModal (hd (tasks (loadTasks_frontend fake_sdk app0)))
                         (loadTasks_frontend fake_sdk app0))
                (handleCompleteSubmit_frontend fake_sdk
                   (openCompleteModal (hd (tasks (loadTasks_frontend fake_sdk app0)))
                      (loadTasks_frontend fake_sdk app0))))
   \<and> CallUnlock (unlock PROTOCOL_ID KEY_ID ''self'' ''all'' False (Finite 0)
                  (LockingScript (lockingScript zero_task)))
       \<in> set (issued (openCompleteModal (hd (tasks (loadTasks_root fake_sdk app0_root)))
                         (loadTasks_root fake_sdk app0_root))
                (handleCompleteSubmit_root fake_sdk
                   (openCompleteModal (hd (tasks (loadTasks_root fake_sdk app0_root)))
                      (loadTasks_root fake_sdk app0_root))))"
proof -
  let ?s = "app_form ''ab'' (Finite 5)"
  let ?nt = "(0::nat, \<lparr>task = ''ab'', sats = Finite 5, outpoint = ''dd.0'',
               lockingScript = ''1ToDoDtKreEzbHYKFjmoBuduFmSXXUGZG/ba/'', beef = Some [2]\<rparr>)"
  let ?zr = "zero_task\<lparr>outpoint := ''bb.3''\<rparr>"
  let ?cres = "\<lparr>cr_txid = None, cr_tx = None,
                cr_signableTransaction = Some \<lparr>st_tx = [3], st_reference = ''ref''\<rparr>\<rparr>"
  let ?st = "\<lparr>st_tx = [3], st_reference = ''ref''\<rparr>"
  let ?ptx = "\<lparr>tx_outputs = []\<rparr>"
  let ?ls = "LockingScript (lockingScript zero_task)"
  let ?df = "loadTasks_frontend fake_sdk app0"
  let ?dr = "loadTasks_root fake_sdk app0_root"
  have lf: "listOutputs fake_sdk listOutputs_args_frontend = Inr fake_store"
    and lr: "listOutputs fake_sdk listOutputs_args_root = Inr fake_store"
    by (simp_all add: fake_sdk_def)
  have n: "(3::nat) < length (lr_outputs fake_store)"
    and o: "wo_satoshis (lr_outputs fake_store ! 3) = None"
    by (simp_all add: fake_store_def fake_outputs_def)
  have rf: "decryptedTasksResults_frontend fake_sdk fake_store ! 3 = Inr zero_task"
    by (simp add: results_frontend_fake_store zero_task_def)
  have rr: "decryptedTasksResults_root fake_sdk fake_store ! 3 = Inr ?zr"
    by (simp add: results_root_fake_store zero_task_def)
  from lf n o rf have h1: "listOutputs fake_sdk listOutputs_args_frontend = Inr fake_store
      \<and> 3 < length (lr_outputs fake_store) \<and> wo_satoshis (lr_outputs fake_store ! 3) = None
      \<and> decryptedTasksResults_frontend fake_sdk fake_store ! 3 = Inr zero_task"
    by blast
  from lr n o rr have h2: "listOutputs fake_sdk listOutputs_args_root = Inr fake_store
      \<and> 3 < length (lr_outputs fake_store) \<and> wo_satoshis (lr_outputs fake_store ! 3) = None
      \<and> decryptedTasksResults_root fake_sdk fake_store ! 3 = Inr ?zr"
    by blast
  note c1 = missing_amount_catalogued_as_zero [where s = app0, THEN conjunct1, rule_format, OF h1]
  note c2 = missing_amount_catalogued_as_zero [where s = app0_root, THEN conjunct2, THEN conjunct1,
      rule_format, OF h2]
  from c1 have c1a: "sats zero_task = Finite 0"
    and c1b: "zero_task \<in> set (map snd (tasks ?df))"
    by blast+
  from c2 have c2a: "sats ?zr = Finite 0"
    and c2b: "?zr \<in> set (map snd (tasks ?dr))"
    by blast+
  have hf: "hd (tasks ?df) = (2, zero_task)"
    unfolding tasks_loadTasks_frontend_fake by simp
  have hr: "hd (tasks ?dr) = (2, ?zr)"
    unfolding tasks_loadTasks_root_fake by simp
  have mf: "(2, zero_task) \<in> set (tasks ?df)"
    unfolding tasks_loadTasks_frontend_fake by simp
  have mr: "(2, ?zr) \<in> set (tasks ?dr)"
    unfolding tasks_loadTasks_root_fake by simp
  have h3: "tasks (handleCreateSubmit_frontend fake_sdk ?s) = ?nt # tasks ?s"
    unfolding create_frontend_run by (simp add: app_form_def app0_def)
  have h4: "tasks (handleCreateSubmit_root fake_sdk ?s) = ?nt # tasks ?s"
    unfolding create_root_run by (simp add: app_form_def app0_def)
  note c3 = missing_amount_catalogued_as_zero [THEN conjunct2, THEN conjunct2, THEN conjunct1,
      rule_format, OF h3]
  note c4 = missing_amount_catalogued_as_zero [THEN conjunct2, THEN conjunct2, THEN conjunct2,
      THEN conjunct1, rule_format, OF h4]
  from c3 c4 have c34: "\<not> lessThan_js (Finite 5) (Finite 1)"
    by simp
  have self: "selectedTask (openCompleteModal (2, zero_task) ?df) = Some (2, zero_task)"
    and selr: "selectedTask (openCompleteModal (2, ?zr) ?dr) = Some (2, ?zr)"
    by (simp_all add: openCompleteModal_def)
  have svf: "createAction fake_sdk (complete_args (beef (snd (2::nat, zero_task))) (Some True)
            (snd (2::nat, zero_task))) = Inr ?cres
      \<and> cr_signableTransaction ?cres = Some ?st
      \<and> fromBEEF fake_sdk (Some (st_tx ?st)) None = Inr ?ptx
      \<and> fromHex fake_sdk (lockingScript (snd (2::nat, zero_task))) = Inr ?ls"
    by (simp add: fake_sdk_def fake_createAction_def fake_fromBEEF_def complete_args_def)
  have svr: "fromBinary fake_sdk (beef (snd (2::nat, ?zr))) = Inr (Beef [1])
      \<and> getChainTracker fake_sdk ''main'' = Inr (ChainTracker ''main'')
      \<and> verify fake_sdk (Beef [1]) (ChainTracker ''main'') True = Inr False
      \<and> createAction fake_sdk (complete_args (Some (toBinary fake_sdk (Beef [1]))) None
            (snd (2::nat, ?zr))) = Inr ?cres
      \<and> cr_signableTransaction ?cres = Some ?st
      \<and> fromBEEF fake_sdk (Some (st_tx ?st)) None = Inr ?ptx
      \<and> fromHex fake_sdk (lockingScript (snd (2::nat, ?zr))) = Inr ?ls"
    by (simp add: fake_sdk_def fake_createAction_def fake_fromBEEF_def complete_args_def
        zero_task_def)
  have zf: "sats (snd (2::nat, zero_task)) = Finite 0"
    and zr: "sats (snd (2::nat, ?zr)) = Finite 0"
    by (simp_all add: zero_task_def)
  from self zf svf have h5: "selectedTask (openCompleteModal (2, zero_task) ?df) = Some (2, zero_task)
      \<and> sats (snd (2::nat, zero_task)) = Finite 0
      \<and> createAction fake_sdk (complete_args (beef (snd (2::nat, zero_task))) (Some True)
            (snd (2::nat, zero_task))) = Inr ?cres
      \<and> cr_signableTransaction ?cres = Some ?st
      \<and> fromBEEF fake_sdk (Some (st_tx ?st)) None = Inr ?ptx
      \<and> fromHex fake_sdk (lockingScript (snd (2::nat, zero_task))) = Inr ?ls"
    by blast
  from selr zr svr have h6: "selectedTask (openCompleteModal (2, ?zr) ?dr) = Some (2, ?zr)
      \<and> sats (snd (2::nat, ?zr)) = Finite 0
      \<and> fromBinary fake_sdk (beef (snd (2::nat, ?zr))) = Inr (Beef [1])
      \<and> getChainTracker fake_sdk ''main'' = Inr (ChainTracker ''main'')
      \<and> verify fake_sdk (Beef [1]) (ChainTracker ''main'') True = Inr False
      \<and> createAction fake_sdk (complete_args (Some (toBinary fake_sdk (Beef [1]))) None
            (snd (2::nat, ?zr))) = Inr ?cres
      \<and> cr_signableTransaction ?cres = Some ?st
      \<and> fromBEEF fake_sdk (Some (st_tx ?st)) None = Inr ?ptx
      \<and> fromHex fake_sdk (lockingScript (snd (2::nat, ?zr))) = Inr ?ls"
    by blast
  from mf zf svf have h7: "(2, zero_task) \<in> set (tasks ?df)
      \<and> sats (snd (2::nat, zero_task)) = Finite 0
      \<and> createAction fake_sdk (complete_args (beef (snd (2::nat, zero_task))) (Some True)
            (snd (2::nat, zero_task))) = Inr ?cres
      \<and> cr_signableTransaction ?cres = Some ?st
      \<and> fromBEEF fake_sdk (Some (st_tx ?st)) None = Inr ?ptx
      \<and> fromHex fake_sdk (lockingScript (snd (2::nat, zero_task))) = Inr ?ls"
    by blast
  from mr zr svr have h8: "(2, ?zr) \<in> set (tasks ?dr)
      \<and> sats (snd (2::nat, ?zr)) = Finite 0
      \<and> fromBinary fake_sdk (beef (snd (2::nat, ?zr))) = Inr (Beef [1])
      \<and> getChainTracker fake_sdk ''main'' = Inr (ChainTracker ''main'')
      \<and> verify fake_sdk (Beef [1]) (ChainTracker ''main'') True = Inr False
      \<and> createAction fake_sdk (complete_args (Some (toBinary fake_sdk (Beef [1]))) None
            (snd (2::nat, ?zr))) = Inr ?cres
      \<and> cr_signableTransaction ?cres = Some ?st
      \<and> fromBEEF fake_sdk (Some (st_tx ?st)) None = Inr ?ptx
      \<and> fromHex fake_sdk (lockingScript (snd (2::nat, ?zr))) = Inr ?ls"
    by blast
  note c5 = missing_amount_catalogued_as_zero [THEN conjunct2, THEN conjunct2, THEN conjunct2,
      THEN conjunct2, THEN conjunct1, rule_format, OF h5, THEN conjunct1]
  note c6 = missing_amount_catalogued_as_zero [THEN conjunct2, THEN conjunct2, THEN conjunct2,
      THEN conjunct2, THEN conjunct2, THEN conjunct1, rule_format, OF h6, THEN conjunct1]
  note c7 = missing_amount_catalogued_as_zero [THEN conjunct2, THEN conjunct2, THEN conjunct2,
      THEN conjunct2, THEN conjunct2, THEN conjunct2, THEN conjunct1, rule_format, OF h7,
      THEN conjunct1]
  note c8 = missing_amount_catalogued_as_zero [THEN conjunct2, THEN conjunct2, THEN conjunct2,
      THEN conjunct2, THEN conjunct2, THEN conjunct2, THEN conjunct2, rule_format, OF h8,
      THEN conjunct1]
  from c5 c7 have u7: "CallUnlock (unlock PROTOCOL_ID KEY_ID ''self'' ''all'' False (Finite 0) ?ls)
       \<in> set (issued (openCompleteModal (hd (tasks ?df)) ?df)
                (handleCompleteSubmit_frontend fake_sdk (openCompleteModal (hd (tasks ?df)) ?df)))"
    unfolding hf by (rule conjunct1 [OF conjI])
  from c6 c8 have u8: "CallUnlock (unlock PROTOCOL_ID KEY_ID ''self'' ''all'' False (Finite 0) ?ls)
       \<in> set (issued (openCompleteModal (hd (tasks ?dr)) ?dr)
                (handleCompleteSubmit_root fake_sdk (openCompleteModal (hd (tasks ?dr)) ?dr)))"
    unfolding hr by (rule conjunct1 [OF conjI])
  show ?thesis
    by (intro conjI lf lr o rf rr c1a c2a c1b c2b hf hr h3 h4 c34 u7 u8)
qed

section \<open>Redemption: the answer of the Chain Verifier\<close>

text \<open>
  Claim C1. The root variant asks the Chain Verifier about the evidence of the Task and
  binds the answer to \<^verbatim>\<open>ok\<close>, which nothing reads: whatever the answer, the handler
  ends in the same state. On the test double the verifier answers \<^verbatim>\<open>false\<close>; the
  redemption is signed, the success toast is the only toast, and the console holds
  nothing but the result of \<^verbatim>\<open>signAction\<close>.
\<close>

theorem verification_result_ignored:
  "handleCompleteSubmit_root (sv\<lparr>verify := (\<lambda>b tracker strict. Inr ok)\<rparr>) s
     = handleCompleteSubmit_root (sv\<lparr>verify := (\<lambda>b tracker strict. Inr ok')\<rparr>) s
   \<and> verify fake_sdk (Beef [1]) (ChainTracker ''main'') True = Inr False
   \<and> CallVerify (Beef [1]) (ChainTracker ''main'') True
       \<in> set (calls (handleCompleteSubmit_root fake_sdk (app_selected fake_task)))
   \<and> toasts (handleCompleteSubmit_root fake_sdk (app_selected fake_task)) = [ToastDark congrats]
   \<and> console (handleCompleteSubmit_root fake_sdk (app_selected fake_task))
       = [ConsoleLog (SignActionResult (Some ''ee'') None)]
   \<and> tasks (handleCompleteSubmit_root fake_sdk (app_selected fake_task)) = []"
proof (intro conjI)
  show "handleCompleteSubmit_root (sv\<lparr>verify := (\<lambda>b tracker strict. Inr ok)\<rparr>) s
     = handleCompleteSubmit_root (sv\<lparr>verify := (\<lambda>b tracker strict. Inr ok')\<rparr>) s"
    unfolding handleCompleteSubmit_root_def by (simp add: verify_answer_unused [where ok = ok and ok' = ok'])
  show "verify fake_sdk (Beef [1]) (ChainTracker ''main'') True = Inr False"
    by (simp add: fake_sdk_def)
  show "CallVerify (Beef [1]) (ChainTracker ''main'') True
       \<in> set (calls (handleCompleteSubmit_root fake_sdk (app_selected fake_task)))"
    by (simp add: handleCompleteSubmit_root_def handleCompleteSubmit_root_try_def
        complete_catch_finally_def fake_defs effects Let_def unlock_def complete_args_def)
  show "toasts (handleCompleteSubmit_root fake_sdk (app_selected fake_task)) = [ToastDark congrats]"
    by (simp add: handleCompleteSubmit_root_def handleCompleteSubmit_root_try_def
        complete_catch_finally_def fake_defs effects Let_def unlock_def complete_args_def)
  show "console (handleCompleteSubmit_root fake_sdk (app_selected fake_task))
       = [ConsoleLog (SignActionResult (Some ''ee'') None)]"
    by (simp add: handleCompleteSubmit_root_def handleCompleteSubmit_root_try_def
        complete_catch_finally_def fake_defs effects Let_def unlock_def complete_args_def)
  show "tasks (handleCompleteSubmit_root fake_sdk (app_selected fake_task)) = []"
    by (simp add: handleCompleteSubmit_root_def handleCompleteSubmit_root_try_def
        complete_catch_finally_def fake_defs effects Let_def unlock_def complete_args_def
        splice1_def)
qed

section \<open>Encryption and decryption contexts\<close>

text \<open>The calls of a discovery: \<^verbatim>\<open>listOutputs\<close>, then one \<^verbatim>\<open>decrypt\<close> per callback that got that far.\<close>

lemma issued_loadTasks_frontend:
  "issued s (loadTasks_frontend sv s) =
     CallListOutputs listOutputs_args_frontend #
     (case listOutputs sv listOutputs_args_frontend of
        Inl e \<Rightarrow> []
      | Inr res \<Rightarrow> map (decrypt_call PROTOCOL_ID KEY_ID)
          (rights (fst (map_async_start (loadTasks_callback_frontend sv (lr_BEEF res))
                          (enumerate 0 (lr_outputs res)) None))))"
proof (cases "listOutputs sv listOutputs_args_frontend")
  case (Inl e)
  then show ?thesis
    by (simp add: loadTasks_frontend_def loadTasks_frontend_try_def load_catch_finally_def
        effects issued_def Let_def)
next
  case (Inr res)
  show ?thesis
    by (simp add: loadTasks_frontend_unfold [OF Inr] Inr collect_tasks_calls issue_def issued_def)
qed

lemma issued_loadTasks_root:
  "issued s (loadTasks_root sv s) =
     CallListOutputs listOutputs_args_root #
     (case listOutputs sv listOutputs_args_root of
        Inl e \<Rightarrow> []
      | Inr res \<Rightarrow> map (decrypt_call (0, ''todo list'') ''1'')
          (rights (fst (map_async_start (loadTasks_callback_root sv (lr_BEEF res))
                          (enumerate 0 (lr_outputs res)) None))))"
proof (cases "listOutputs sv listOutputs_args_root")
  case (Inl e)
  then show ?thesis
    by (simp add: loadTasks_root_def loadTasks_root_try_def load_catch_finally_def
        effects issued_def Let_def)
next
  case (Inr res)
  show ?thesis
    by (simp add: loadTasks_root_unfold [OF Inr] Inr collect_tasks_calls issue_def issued_def)
qed

text \<open>
  Claim C8. Creation calls \<^verbatim>\<open>encrypt\<close> on the bytes of the task text under the protocol
  \<open>[0, 'todo list']\<close> and the key \<open>'1'\<close>, and every \<^verbatim>\<open>decrypt\<close> call of discovery is made
  under the same protocol and key, in both variants. So, for a wallet whose
  \<^verbatim>\<open>decrypt\<close> inverts its \<^verbatim>\<open>encrypt\<close> under that context and for a text \<open>P\<close> that
  survives the conversion to bytes and back, an output whose decoded script has the
  ciphertext of \<open>P\<close> as its field 1 is catalogued as a Task whose text is \<open>P\<close>.
\<close>

theorem decrypt_recovers_plaintext:
  assumes inverse: "\<forall>p c. encrypt sv p (0, ''todo list'') ''1'' = Inr c
                       \<longrightarrow> decrypt sv (Some c) (0, ''todo list'') ''1'' = Inr p"
    and utf8: "toUTF8 sv (toArray sv P) = P"
  shows "(CallEncrypt p proto key \<in> set (issued s (handleCreateSubmit_frontend sv s)) \<longrightarrow>
            p = toArray sv (createTask s) \<and> proto = (0, ''todo list'') \<and> key = ''1'')
       \<and> (CallEncrypt p proto key \<in> set (issued s (handleCreateSubmit_root sv s)) \<longrightarrow>
            p = toArray sv (createTask s) \<and> proto = (0, ''todo list'') \<and> key = ''1'')
       \<and> (CallDecrypt c proto key \<in> set (issued s (loadTasks_frontend sv s)) \<longrightarrow>
            proto = (0, ''todo list'') \<and> key = ''1'')
       \<and> (CallDecrypt c proto key \<in> set (issued s (loadTasks_root sv s)) \<longrightarrow>
            proto = (0, ''todo list'') \<and> key = ''1'')
       \<and> (encrypt sv (toArray sv P) (0, ''todo list'') ''1'' = Inr ct
            \<and> i < length (lr_outputs res)
            \<and> fromBEEF sv (lr_BEEF res) (Some (split_dot_0 (wo_outpoint (lr_outputs res ! i)))) = Inr tx
            \<and> tx_outputs tx = out0 # rest
            \<and> decode sv (out_lockingScript out0) = Inr flds
            \<and> at_index flds 1 = Some ct \<longrightarrow>
            (\<exists>t. decryptedTasksResults_frontend sv res ! i = Inr t \<and> task t = P))
       \<and> (encrypt sv (toArray sv P) (0, ''todo list'') ''1'' = Inr ct
            \<and> i < length (lr_outputs res)
            \<and> fromBEEF sv (lr_BEEF res) (Some (split_dot_0 (wo_outpoint (lr_outputs res ! i)))) = Inr tx
            \<and> tx_outputs tx = out0 # rest
            \<and> decode sv (out_lockingScript out0) = Inr flds
            \<and> at_index flds 1 = Some ct \<longrightarrow>
            (\<exists>t. decryptedTasksResults_root sv res ! i = Inr t \<and> task t = P))"
proof (intro conjI impI)
  assume "CallEncrypt p proto key \<in> set (issued s (handleCreateSubmit_frontend sv s))"
  with handleCreateSubmit_frontend_cases [of s sv]
  have "p = toArray sv (createTask s) \<and> proto = PROTOCOL_ID \<and> key = KEY_ID"
    by auto
  then show "p = toArray sv (createTask s)" and "proto = (0, ''todo list'')" and "key = ''1''"
    by (simp_all add: PROTOCOL_ID_def KEY_ID_def)
next
  assume "CallEncrypt p proto key \<in> set (issued s (handleCreateSubmit_root sv s))"
  with handleCreateSubmit_root_cases [of s sv]
  have "p = toArray sv (createTask s) \<and> proto = PROTOCOL_ID \<and> key = KEY_ID"
    by auto
  then show "p = toArray sv (createTask s)" and "proto = (0, ''todo list'')" and "key = ''1''"
    by (simp_all add: PROTOCOL_ID_def KEY_ID_def)
next
  assume "CallDecrypt c proto key \<in> set (issued s (loadTasks_frontend sv s))"
  then have "proto = PROTOCOL_ID \<and> key = KEY_ID"
    unfolding issued_loadTasks_frontend
    by (cases "listOutputs sv listOutputs_args_frontend") (auto simp: decrypt_call_def)
  then show "proto = (0, ''todo list'')" and "key = ''1''"
    by (simp_all add: PROTOCOL_ID_def KEY_ID_def)
next
  assume "CallDecrypt c proto key \<in> set (issued s (loadTasks_root sv s))"
  then have "proto = (0, ''todo list'') \<and> key = ''1''"
    unfolding issued_loadTasks_root
    by (cases "listOutputs sv listOutputs_args_root") (auto simp: decrypt_call_def)
  then show "proto = (0, ''todo list'')" and "key = ''1''"
    by simp_all
next
  assume a: "encrypt sv (toArray sv P) (0, ''todo list'') ''1'' = Inr ct
            \<and> i < length (lr_outputs res)
            \<and> fromBEEF sv (lr_BEEF res) (Some (split_dot_0 (wo_outpoint (lr_outputs res ! i)))) = Inr tx
            \<and> tx_outputs tx = out0 # rest
            \<and> decode sv (out_lockingScript out0) = Inr flds
            \<and> at_index flds 1 = Some ct"
  with inverse have d: "decrypt sv (at_index flds 1) PROTOCOL_ID KEY_ID = Inr (toArray sv P)"
    by (simp add: PROTOCOL_ID_def KEY_ID_def)
  from a have "i < length (lr_outputs res)"
    and "fromBEEF sv (lr_BEEF res) (Some (split_dot_0 (wo_outpoint (lr_outputs res ! i)))) = Inr tx"
    and "tx_outputs tx = out0 # rest" and "decode sv (out_lockingScript out0) = Inr flds"
    by simp_all
  from result_frontend_InrI [OF this d] utf8
  show "\<exists>t. decryptedTasksResults_frontend sv res ! i = Inr t \<and> task t = P"
    by simp
next
  assume a: "encrypt sv (toArray sv P) (0, ''todo list'') ''1'' = Inr ct
            \<and> i < length (lr_outputs res)
            \<and> fromBEEF sv (lr_BEEF res) (Some (split_dot_0 (wo_outpoint (lr_outputs res ! i)))) = Inr tx
            \<and> tx_outputs tx = out0 # rest
            \<and> decode sv (out_lockingScript out0) = Inr flds
            \<and> at_index flds 1 = Some ct"
  with inverse have d: "decrypt sv (at_index flds 1) PROTOCOL_ID KEY_ID = Inr (toArray sv P)"
    by (simp add: PROTOCOL_ID_def KEY_ID_def)
  from a have "i < length (lr_outputs res)"
    and "fromBEEF sv (lr_BEEF res) (Some (split_dot_0 (wo_outpoint (lr_outputs res ! i)))) = Inr tx"
    and "tx_outputs tx = out0 # rest" and "decode sv (out_lockingScript out0) = Inr flds"
    by simp_all
  from result_root_InrI [OF this d] utf8
  show "\<exists>t. decryptedTasksResults_root sv res ! i = Inr t \<and> task t = P"
    by simp
qed


text \<open>The calls of a discovery on the test double.\<close>

lemma loadTasks_frontend_fake_calls:
  "issued app0 (loadTasks_frontend fake_sdk app0) =
     [CallListOutputs listOutputs_args_frontend,
      CallDecrypt (Some [98, 97]) (0, ''todo list'') ''1'',
      CallDecrypt (Some [100, 99]) (0, ''todo list'') ''1'',
      CallDecrypt (Some [102, 101]) (0, ''todo list'') ''1'']"
  by (simp add: issued_loadTasks_frontend loadTasks_callback_frontend_def decrypt_call_def
      fake_defs Let_def enumerate_eq_zip split_dot_0_def at_index_def TODO_PROTO_ADDR_def
      PROTOCOL_ID_def KEY_ID_def char_of_eq_iff)

lemma loadTasks_root_fake_calls:
  "issued app0 (loadTasks_root fake_sdk app0) =
     [CallListOutputs listOutputs_args_root,
      CallDecrypt (Some [98, 97]) (0, ''todo list'') ''1'',
      CallDecrypt (Some [100, 99]) (0, ''todo list'') ''1'',
      CallDecrypt (Some [102, 101]) (0, ''todo list'') ''1'']"
  by (simp add: issued_loadTasks_root loadTasks_callback_root_def decrypt_call_def
      fake_defs Let_def enumerate_eq_zip split_dot_0_def at_index_def TODO_PROTO_ADDR_def
      char_of_eq_iff)

theorem decrypt_recovers_plaintext_witness:
  "decrypt fake_sdk (Some [98, 97]) (0, ''todo list'') ''1'' = Inr [97, 98]
   \<and> toUTF8 fake_sdk (toArray fake_sdk ''ab'') = ''ab''
   \<and> CallEncrypt [97, 98] (0, ''todo list'') ''1''
       \<in> set (issued (app_form ''ab'' (Finite 5))
                (handleCreateSubmit_frontend fake_sdk (app_form ''ab'' (Finite 5))))
   \<and> CallEncrypt [97, 98] (0, ''todo list'') ''1''
       \<in> set (issued (app_form ''ab'' (Finite 5))
                (handleCreateSubmit_root fake_sdk (app_form ''ab'' (Finite 5))))
   \<and> CallDecrypt (Some [98, 97]) (0, ''todo list'') ''1''
       \<in> set (issued app0 (loadTasks_frontend fake_sdk app0))
   \<and> CallDecrypt (Some [98, 97]) (0, ''todo list'') ''1''
       \<in> set (issued app0 (loadTasks_root fake_sdk app0))
   \<and> encrypt fake_sdk (toArray fake_sdk ''ab'') (0, ''todo list'') ''1'' = Inr [98, 97]
   \<and> decode fake_sdk (LockingScript ''1ToDoDtKreEzbHYKFjmoBuduFmSXXUGZG/ba/'')
       = Inr [map of_char TODO_PROTO_ADDR, [98, 97]]
   \<and> (\<exists>t. decryptedTasksResults_frontend fake_sdk fake_store ! 1 = Inr t \<and> task t = ''ab'')
   \<and> (\<exists>t. decryptedTasksResults_root fake_sdk fake_store ! 1 = Inr t \<and> task t = ''ab'')"
proof -
  let ?s = "app_form ''ab'' (Finite 5)"
  let ?ls = "LockingScript ''1ToDoDtKreEzbHYKFjmoBuduFmSXXUGZG/ba/''"
  let ?tx = "\<lparr>tx_outputs = [\<lparr>out_lockingScript = ?ls\<rparr>]\<rparr>"
  have inv: "\<forall>p c. encrypt fake_sdk p (0, ''todo list'') ''1'' = Inr c
            \<longrightarrow> decrypt fake_sdk (Some c) (0, ''todo list'') ''1'' = Inr p"
    by (auto simp: fake_sdk_def)
  have utf8: "toUTF8 fake_sdk (toArray fake_sdk ''ab'') = ''ab''"
    by (simp add: fake_sdk_def char_of_eq_iff)
  note main = decrypt_recovers_plaintext [OF inv utf8]
  have h1: "CallEncrypt [97, 98] (0, ''todo list'') ''1''
       \<in> set (issued ?s (handleCreateSubmit_frontend fake_sdk ?s))"
    unfolding create_frontend_run by (simp add: issued_def app_form_def app0_def)
  have h2: "CallEncrypt [97, 98] (0, ''todo list'') ''1''
       \<in> set (issued ?s (handleCreateSubmit_root fake_sdk ?s))"
    unfolding create_root_run by (simp add: issued_def app_form_def app0_def)
  have h3: "CallDecrypt (Some [98, 97]) (0, ''todo list'') ''1''
       \<in> set (issued app0 (loadTasks_frontend fake_sdk app0))"
    unfolding loadTasks_frontend_fake_calls by simp
  have h4: "CallDecrypt (Some [98, 97]) (0, ''todo list'') ''1''
       \<in> set (issued app0 (loadTasks_root fake_sdk app0))"
    unfolding loadTasks_root_fake_calls by simp
  have e: "encrypt fake_sdk (toArray fake_sdk ''ab'') (0, ''todo list'') ''1'' = Inr [98, 97]"
    by (simp add: fake_sdk_def)
  have d: "decode fake_sdk ?ls = Inr [map of_char TODO_PROTO_ADDR, [98, 97]]"
    by (simp add: fake_sdk_def fake_decode_def TODO_PROTO_ADDR_def)
  have h5: "encrypt fake_sdk (toArray fake_sdk ''ab'') (0, ''todo list'') ''1'' = Inr [98, 97]
      \<and> 1 < length (lr_outputs fake_store)
      \<and> fromBEEF fake_sdk (lr_BEEF fake_store)
           (Some (split_dot_0 (wo_outpoint (lr_outputs fake_store ! 1)))) = Inr ?tx
      \<and> tx_outputs ?tx = \<lparr>out_lockingScript = ?ls\<rparr> # []
      \<and> decode fake_sdk (out_lockingScript \<lparr>out_lockingScript = ?ls\<rparr>)
           = Inr [map of_char TODO_PROTO_ADDR, [98, 97]]
      \<and> at_index [map of_char TODO_PROTO_ADDR, [98, 97]] 1 = Some [98, 97]"
    using e d
    by (simp add: fake_sdk_def fake_fromBEEF_def fake_store_def fake_outputs_def fake_lock_def
        split_dot_0_def at_index_def TODO_PROTO_ADDR_def char_of_eq_iff)
  note c1 = main [THEN conjunct1, rule_format, OF h1]
  note c2 = main [THEN conjunct2, THEN conjunct1, rule_format, OF h2]
  note c3 = main [THEN conjunct2, THEN conjunct2, THEN conjunct1, rule_format, OF h3]
  note c4 = main [THEN conjunct2, THEN conjunct2, THEN conjunct2, THEN conjunct1, rule_format, OF h4]
  note c5 = main [THEN conjunct2, THEN conjunct2, THEN conjunct2, THEN conjunct2, THEN conjunct1,
      rule_format, OF h5]
  note c6 = main [THEN conjunct2, THEN conjunct2, THEN conjunct2, THEN conjunct2, THEN conjunct2,
      rule_format, OF h5]
  from c1 c2 c3 c4 have True
    by simp
  moreover from inv e have "decrypt fake_sdk (Some [98, 97]) (0, ''todo list'') ''1'' = Inr [97, 98]"
    by (simp add: fake_sdk_def)
  ultimately show ?thesis
    using utf8 h1 h2 h3 h4 e d c5 c6 by blast
qed

section \<open>Discovery: the identity and the script of a catalogued Task\<close>











section \<open>Discovery: which scripts are recognised\<close>

lemma rights_append: "rights (xs @ ys) = rights xs @ rights ys"
  by (induction xs rule: rights.induct) simp_all

lemma rights_skip:
  assumes "i < length rs" and "rs ! i = Inl e"
  shows "rights rs = rights (take i rs) @ rights (drop (Suc i) rs)"
proof -
  from assms(1) have "rs = take i rs @ rs ! i # drop (Suc i) rs"
    by (rule id_take_nth_drop)
  then have "rights rs = rights (take i rs @ Inl e # drop (Suc i) rs)"
    using assms(2) by simp
  then show ?thesis
    by (simp add: rights_append)
qed

text \<open>
  Claim C7, as amended. Discovery recognises a script by nothing but the outcome of
  the script builder's \<^verbatim>\<open>decode\<close>, which is handed the script alone, and reads field 1
  of what \<^verbatim>\<open>decode\<close> returns. In both variants, for the script of output 0 of the
  transaction of an output:
  when \<^verbatim>\<open>decode\<close> rejects it, the result at that position is the error, and the list
  of tasks is built from the results before and after it, so the record is skipped
  and discovery goes on;
  when the script is the one that \<^verbatim>\<open>lock\<close> built from the two fields marker and
  ciphertext, and \<^verbatim>\<open>decode\<close> returns a list that begins with these two fields (the
  builder may have appended fields of its own), the ciphertext handed to \<^verbatim>\<open>decrypt\<close>
  is that of the second field, and when it decrypts the record is in the list of tasks
  with the decrypted text;
  when \<^verbatim>\<open>decode\<close> returns any list of fields and field 1 decrypts, the record is in
  the list of tasks, whatever field 0 is and however many fields there are.
\<close>

theorem decode_decides_recognition:
  "(listOutputs sv listOutputs_args_frontend = Inr res
      \<and> i < length (lr_outputs res)
      \<and> fromBEEF sv (lr_BEEF res) (Some (split_dot_0 (wo_outpoint (lr_outputs res ! i)))) = Inr tx
      \<and> tx_outputs tx = out0 # rest \<longrightarrow>
      (decode sv (out_lockingScript out0) = Inl e \<longrightarrow>
         decryptedTasksResults_frontend sv res ! i = Inl e
         \<and> map snd (tasks (loadTasks_frontend sv s))
             = rev (rights (take i (decryptedTasksResults_frontend sv res))
                    @ rights (drop (Suc i) (decryptedTasksResults_frontend sv res))))
      \<and> (lock sv [m, ct] PROTOCOL_ID KEY_ID ''self'' = Inr (out_lockingScript out0)
          \<and> decode sv (out_lockingScript out0) = Inr (m # ct # extra) \<longrightarrow>
         snd (loadTasks_callback_frontend sv (lr_BEEF res) (i, lr_outputs res ! i))
           = Inr (i, lr_outputs res ! i, out_lockingScript out0, Some ct))
      \<and> (lock sv [m, ct] PROTOCOL_ID KEY_ID ''self'' = Inr (out_lockingScript out0)
          \<and> decode sv (out_lockingScript out0) = Inr (m # ct # extra)
          \<and> decrypt sv (Some ct) PROTOCOL_ID KEY_ID = Inr pt \<longrightarrow>
         (\<exists>t. decryptedTasksResults_frontend sv res ! i = Inr t
              \<and> task t = toUTF8 sv pt \<and> lockingScript t = toHex (out_lockingScript out0)
              \<and> t \<in> set (map snd (tasks (loadTasks_frontend sv s)))))
      \<and> (decode sv (out_lockingScript out0) = Inr flds
          \<and> decrypt sv (at_index flds 1) PROTOCOL_ID KEY_ID = Inr pt \<longrightarrow>
         (\<exists>t. decryptedTasksResults_frontend sv res ! i = Inr t
              \<and> task t = toUTF8 sv pt \<and> lockingScript t = toHex (out_lockingScript out0)
              \<and> t \<in> set (map snd (tasks (loadTasks_frontend sv s))))))
   \<and> (listOutputs sv listOutputs_args_root = Inr res
      \<and> i < length (lr_outputs res)
      \<and> fromBEEF sv (lr_BEEF res) (Some (split_dot_0 (wo_outpoint (lr_outputs res ! i)))) = Inr tx
      \<and> tx_outputs tx = out0 # rest \<longrightarrow>
      (decode sv (out_lockingScript out0) = Inl e \<longrightarrow>
         decryptedTasksResults_root sv res ! i = Inl e
         \<and> map snd (tasks (loadTasks_root sv s))
             = rev (rights (take i (decryptedTasksResults_root sv res))
                    @ rights (drop (Suc i) (decryptedTasksResults_root sv res))))
      \<and> (lock sv [m, ct] PROTOCOL_ID KEY_ID ''self'' = Inr (out_lockingScript out0)
          \<and> decode sv (out_lockingScript out0) = Inr (m # ct # extra) \<longrightarrow>
         snd (loadTasks_callback_root sv (lr_BEEF res) (i, lr_outputs res ! i))
           = Inr (i, lr_outputs res ! i, out_lockingScript out0, Some ct))
      \<and> (lock sv [m, ct] PROTOCOL_ID KEY_ID ''self'' = Inr (out_lockingScript out0)
          \<and> decode sv (out_lockingScript out0) = Inr (m # ct # extra)
          \<and> decrypt sv (Some ct) PROTOCOL_ID KEY_ID = Inr pt \<longrightarrow>
         (\<exists>t. decryptedTasksResults_root sv res ! i = Inr t
              \<and> task t = toUTF8 sv pt \<and> lockingScript t = toHex (out_lockingScript out0)
              \<and> t \<in> set (map snd (tasks (loadTasks_root sv s)))))
      \<and> (decode sv (out_lockingScript out0) = Inr flds
          \<and> decrypt sv (at_index flds 1) PROTOCOL_ID KEY_ID = Inr pt \<longrightarrow>
         (\<exists>t. decryptedTasksResults_root sv res ! i = Inr t
              \<and> task t = toUTF8 sv pt \<and> lockingScript t = toHex (out_lockingScript out0)
              \<and> t \<in> set (map snd (tasks (loadTasks_root sv s))))))"
proof (intro conjI impI)
  assume a: "listOutputs sv listOutputs_args_frontend = Inr res
      \<and> i < length (lr_outputs res)
      \<and> fromBEEF sv (lr_BEEF res) (Some (split_dot_0 (wo_outpoint (lr_outputs res ! i)))) = Inr tx
      \<and> tx_outputs tx = out0 # rest"
  then have l: "listOutputs sv listOutputs_args_frontend = Inr res"
    and i: "i < length (lr_outputs res)"
    and tx: "fromBEEF sv (lr_BEEF res) (Some (split_dot_0 (wo_outpoint (lr_outputs res ! i)))) = Inr tx"
    and o: "tx_outputs tx = out0 # rest"
    by simp_all
  from i have n: "i < length (decryptedTasksResults_frontend sv res)"
    by (simp add: length_decryptedTasksResults_frontend)
  have catalogued: "\<exists>t. decryptedTasksResults_frontend sv res ! i = Inr t
              \<and> task t = toUTF8 sv pt \<and> lockingScript t = toHex (out_lockingScript out0)
              \<and> t \<in> set (map snd (tasks (loadTasks_frontend sv s)))"
    if d: "decode sv (out_lockingScript out0) = Inr fs"
      and p: "decrypt sv (at_index fs 1) PROTOCOL_ID KEY_ID = Inr pt" for fs
  proof -
    note r = result_frontend_InrI [OF i tx o d p]
    from Inr_nth_rights [OF n r] show ?thesis
      unfolding loadTasks_frontend_tasks [OF l] r by simp
  qed
  {
    assume d: "decode sv (out_lockingScript out0) = Inl e"
    show r: "decryptedTasksResults_frontend sv res ! i = Inl e"
      by (rule result_frontend_decode_Inl [OF i tx o d])
    from rights_skip [OF n r]
    show "map snd (tasks (loadTasks_frontend sv s))
             = rev (rights (take i (decryptedTasksResults_frontend sv res))
                    @ rights (drop (Suc i) (decryptedTasksResults_frontend sv res)))"
      unfolding loadTasks_frontend_tasks [OF l] by (rule arg_cong)
  }
  {
    assume "lock sv [m, ct] PROTOCOL_ID KEY_ID ''self'' = Inr (out_lockingScript out0)
          \<and> decode sv (out_lockingScript out0) = Inr (m # ct # extra)"
    then have d: "decode sv (out_lockingScript out0) = Inr (m # ct # extra)"
      by simp
    have "at_index (m # ct # extra) 1 = Some ct"
      by (simp add: at_index_def)
    with loadTasks_callback_frontend_InrI [OF tx o d, of i]
    show "snd (loadTasks_callback_frontend sv (lr_BEEF res) (i, lr_outputs res ! i))
           = Inr (i, lr_outputs res ! i, out_lockingScript out0, Some ct)"
      by simp
  }
  {
    assume "lock sv [m, ct] PROTOCOL_ID KEY_ID ''self'' = Inr (out_lockingScript out0)
          \<and> decode sv (out_lockingScript out0) = Inr (m # ct # extra)
          \<and> decrypt sv (Some ct) PROTOCOL_ID KEY_ID = Inr pt"
    then have d: "decode sv (out_lockingScript out0) = Inr (m # ct # extra)"
      and p: "decrypt sv (Some ct) PROTOCOL_ID KEY_ID = Inr pt"
      by simp_all
    have "at_index (m # ct # extra) 1 = Some ct"
      by (simp add: at_index_def)
    with p have "decrypt sv (at_index (m # ct # extra) 1) PROTOCOL_ID KEY_ID = Inr pt"
      by simp
    from catalogued [OF d this]
    show "\<exists>t. decryptedTasksResults_frontend sv res ! i = Inr t
              \<and> task t = toUTF8 sv pt \<and> lockingScript t = toHex (out_lockingScript out0)
              \<and> t \<in> set (map snd (tasks (loadTasks_frontend sv s)))" .
  }
  {
    assume "decode sv (out_lockingScript out0) = Inr flds
          \<and> decrypt sv (at_index flds 1) PROTOCOL_ID KEY_ID = Inr pt"
    then have d: "decode sv (out_lockingScript out0) = Inr flds"
      and p: "decrypt sv (at_index flds 1) PROTOCOL_ID KEY_ID = Inr pt"
      by simp_all
    from catalogued [OF d p]
    show "\<exists>t. decryptedTasksResults_frontend sv res ! i = Inr t
              \<and> task t = toUTF8 sv pt \<and> lockingScript t = toHex (out_lockingScript out0)
              \<and> t \<in> set (map snd (tasks (loadTasks_frontend sv s)))" .
  }
next
  assume a: "listOutputs sv listOutputs_args_root = Inr res
      \<and> i < length (lr_outputs res)
      \<and> fromBEEF sv (lr_BEEF res) (Some (split_dot_0 (wo_outpoint (lr_outputs res ! i)))) = Inr tx
      \<and> tx_outputs tx = out0 # rest"
  then have l: "listOutputs sv listOutputs_args_root = Inr res"
    and i: "i < length (lr_outputs res)"
    and tx: "fromBEEF sv (lr_BEEF res) (Some (split_dot_0 (wo_outpoint (lr_outputs res ! i)))) = Inr tx"
    and o: "tx_outputs tx = out0 # rest"
    by simp_all
  from i have n: "i < length (decryptedTasksResults_root sv res)"
    by (simp add: length_decryptedTasksResults_root)
  have catalogued: "\<exists>t. decryptedTasksResults_root sv res ! i = Inr t
              \<and> task t = toUTF8 sv pt \<and> lockingScript t = toHex (out_lockingScript out0)
              \<and> t \<in> set (map snd (tasks (loadTasks_root sv s)))"
    if d: "decode sv (out_lockingScript out0) = Inr fs"
      and p: "decrypt sv (at_index fs 1) PROTOCOL_ID KEY_ID = Inr pt" for fs
  proof -
    note r = result_root_InrI [OF i tx o d p]
    from Inr_nth_rights [OF n r] show ?thesis
      unfolding loadTasks_root_tasks [OF l] r by simp
  qed
  {
    assume d: "decode sv (out_lockingScript out0) = Inl e"
    show r: "decryptedTasksResults_root sv res ! i = Inl e"
      by (rule result_root_decode_Inl [OF i tx o d])
    from rights_skip [OF n r]
    show "map snd (tasks (loadTasks_root sv s))
             = rev (rights (take i (decryptedTasksResults_root sv res))
                    @ rights (drop (Suc i) (decryptedTasksResults_root sv res)))"
      unfolding loadTasks_root_tasks [OF l] by (rule arg_cong)
  }
  {
    assume "lock sv [m, ct] PROTOCOL_ID KEY_ID ''self'' = Inr (out_lockingScript out0)
          \<and> decode sv (out_lockingScript out0) = Inr (m # ct # extra)"
    then have d: "decode sv (out_lockingScript out0) = Inr (m # ct # extra)"
      by simp
    have "at_index (m # ct # extra) 1 = Some ct"
      by (simp add: at_index_def)
    with loadTasks_callback_root_InrI [OF tx o d, of i]
    show "snd (loadTasks_callback_root sv (lr_BEEF res) (i, lr_outputs res ! i))
           = Inr (i, lr_outputs res ! i, out_lockingScript out0, Some ct)"
      by simp
  }
  {
    assume "lock sv [m, ct] PROTOCOL_ID KEY_ID ''self'' = Inr (out_lockingScript out0)
          \<and> decode sv (out_lockingScript out0) = Inr (m # ct # extra)
          \<and> decrypt sv (Some ct) PROTOCOL_ID KEY_ID = Inr pt"
    then have d: "decode sv (out_lockingScript out0) = Inr (m # ct # extra)"
      and p: "decrypt sv (Some ct) PROTOCOL_ID KEY_ID = Inr pt"
      by simp_all
    have "at_index (m # ct # extra) 1 = Some ct"
      by (simp add: at_index_def)
    with p have "decrypt sv (at_index (m # ct # extra) 1) PROTOCOL_ID KEY_ID = Inr pt"
      by simp
    from catalogued [OF d this]
    show "\<exists>t. decryptedTasksResults_root sv res ! i = Inr t
              \<and> task t = toUTF8 sv pt \<and> lockingScript t = toHex (out_lockingScript out0)
              \<and> t \<in> set (map snd (tasks (loadTasks_root sv s)))" .
  }
  {
    assume "decode sv (out_lockingScript out0) = Inr flds
          \<and> decrypt sv (at_index flds 1) PROTOCOL_ID KEY_ID = Inr pt"
    then have d: "decode sv (out_lockingScript out0) = Inr flds"
      and p: "decrypt sv (at_index flds 1) PROTOCOL_ID KEY_ID = Inr pt"
      by simp_all
    from catalogued [OF d p]
    show "\<exists>t. decryptedTasksResults_root sv res ! i = Inr t
              \<and> task t = toUTF8 sv pt \<and> lockingScript t = toHex (out_lockingScript out0)
              \<and> t \<in> set (map snd (tasks (loadTasks_root sv s)))" .
  }
qed

text \<open>What the test double finds for the first three outputs of its store.\<close>

lemma fake_store_outputs:
  "(0::nat) < length (lr_outputs fake_store)" "(1::nat) < length (lr_outputs fake_store)"
  "(2::nat) < length (lr_outputs fake_store)"
  "fromBEEF fake_sdk (lr_BEEF fake_store) (Some (split_dot_0 (wo_outpoint (lr_outputs fake_store ! 0))))
     = Inr \<lparr>tx_outputs = [\<lparr>out_lockingScript = LockingScript []\<rparr>]\<rparr>"
  "fromBEEF fake_sdk (lr_BEEF fake_store) (Some (split_dot_0 (wo_outpoint (lr_outputs fake_store ! 1))))
     = Inr \<lparr>tx_outputs = [\<lparr>out_lockingScript
                = LockingScript ''1ToDoDtKreEzbHYKFjmoBuduFmSXXUGZG/ba/''\<rparr>]\<rparr>"
  "fromBEEF fake_sdk (lr_BEEF fake_store) (Some (split_dot_0 (wo_outpoint (lr_outputs fake_store ! 2))))
     = Inr \<lparr>tx_outputs = [\<lparr>out_lockingScript = LockingScript ''x/dc/''\<rparr>]\<rparr>"
  by (simp_all add: fake_sdk_def fake_fromBEEF_def fake_store_def fake_outputs_def fake_lock_def
      split_dot_0_def TODO_PROTO_ADDR_def char_of_eq_iff)

lemma fake_decode_examples:
  "decode fake_sdk (out_lockingScript \<lparr>out_lockingScript = LockingScript []\<rparr>)
     = Inl (Error ''not a PushDrop script'' None)"
  "decode fake_sdk (out_lockingScript
       \<lparr>out_lockingScript = LockingScript ''1ToDoDtKreEzbHYKFjmoBuduFmSXXUGZG/ba/''\<rparr>)
     = Inr [map of_char TODO_PROTO_ADDR, [98, 97]]"
  "decode fake_sdk (out_lockingScript \<lparr>out_lockingScript = LockingScript ''x/dc/''\<rparr>)
     = Inr [[120], [100, 99]]"
  by (simp_all add: fake_sdk_def fake_decode_def TODO_PROTO_ADDR_def)

text \<open>What the signing wallet builds at creation and finds in its store.\<close>

lemma results_frontend_signed_store:
  "decryptedTasksResults_frontend sdk_signing signed_store =
     [Inr \<lparr>task = ''ab'', sats = Finite 5, outpoint = ''gg.0'',
           lockingScript = ''1ToDoDtKreEzbHYKFjmoBuduFmSXXUGZG/ba/sig/'', beef = Some [4]\<rparr>]"
  by (simp add: decryptedTasksResults_frontend_def loadTasks_callback_frontend_def
      loadTasks_resume_frontend_def signing_defs fake_defs Let_def enumerate_eq_zip
      split_dot_0_def at_index_def template_def TODO_PROTO_ADDR_def char_of_eq_iff)

lemma results_root_signed_store:
  "decryptedTasksResults_root sdk_signing signed_store =
     [Inr \<lparr>task = ''ab'', sats = Finite 5, outpoint = ''gg.0'',
           lockingScript = ''1ToDoDtKreEzbHYKFjmoBuduFmSXXUGZG/ba/sig/'', beef = Some [4]\<rparr>]"
  by (simp add: decryptedTasksResults_root_def loadTasks_callback_root_def
      loadTasks_resume_root_def signing_defs fake_defs Let_def enumerate_eq_zip
      split_dot_0_def at_index_def template_def TODO_PROTO_ADDR_def char_of_eq_iff
      toString_nat.simps digit_def)

lemma signed_store_outputs:
  "listOutputs sdk_signing listOutputs_args_frontend = Inr signed_store"
  "listOutputs sdk_signing listOutputs_args_root = Inr signed_store"
  "(0::nat) < length (lr_outputs signed_store)"
  "fromBEEF sdk_signing (lr_BEEF signed_store)
       (Some (split_dot_0 (wo_outpoint (lr_outputs signed_store ! 0))))
     = Inr \<lparr>tx_outputs = [\<lparr>out_lockingScript
                = LockingScript ''1ToDoDtKreEzbHYKFjmoBuduFmSXXUGZG/ba/sig/''\<rparr>]\<rparr>"
  by (simp_all add: signing_defs fake_sdk_def fake_lock_def split_dot_0_def TODO_PROTO_ADDR_def
      char_of_eq_iff)

lemma signing_examples:
  "encrypt sdk_signing (toArray sdk_signing ''ab'') PROTOCOL_ID KEY_ID = Inr [98, 97]"
  "lock sdk_signing [toArray sdk_signing TODO_PROTO_ADDR, [98, 97]] PROTOCOL_ID KEY_ID ''self''
     = Inr (out_lockingScript \<lparr>out_lockingScript
              = LockingScript ''1ToDoDtKreEzbHYKFjmoBuduFmSXXUGZG/ba/sig/''\<rparr>)"
  "decode sdk_signing (out_lockingScript \<lparr>out_lockingScript
              = LockingScript ''1ToDoDtKreEzbHYKFjmoBuduFmSXXUGZG/ba/sig/''\<rparr>)
     = Inr (toArray sdk_signing TODO_PROTO_ADDR # [98, 97] # [signature_field])"
  "decrypt sdk_signing (Some [98, 97]) PROTOCOL_ID KEY_ID = Inr [97, 98]"
  "toUTF8 sdk_signing [97, 98] = ''ab''"
  by (simp_all add: signing_defs fake_sdk_def fake_lock_def fake_decode_def TODO_PROTO_ADDR_def
      char_of_eq_iff)

lemma create_frontend_signing:
  "tasks (handleCreateSubmit_frontend sdk_signing (app_form ''ab'' (Finite 5))) =
     [(0, \<lparr>task = ''ab'', sats = Finite 5, outpoint = ''dd.0'',
           lockingScript = ''1ToDoDtKreEzbHYKFjmoBuduFmSXXUGZG/ba/sig/'', beef = Some [2]\<rparr>)]"
  by (simp add: handleCreateSubmit_frontend_def handleCreateSubmit_frontend_try_def signing_defs
      fake_defs effects Let_def create_args_def PROTOCOL_ID_def KEY_ID_def TODO_PROTO_ADDR_def
      DEFAULT_CREATE_AMOUNT_def template_def char_of_eq_iff)

lemma create_root_signing:
  "tasks (handleCreateSubmit_root sdk_signing (app_form ''ab'' (Finite 5))) =
     [(0, \<lparr>task = ''ab'', sats = Finite 5, outpoint = ''dd.0'',
           lockingScript = ''1ToDoDtKreEzbHYKFjmoBuduFmSXXUGZG/ba/sig/'', beef = Some [2]\<rparr>)]"
  by (simp add: handleCreateSubmit_root_def handleCreateSubmit_root_try_def signing_defs
      fake_defs effects Let_def create_args_def PROTOCOL_ID_def KEY_ID_def TODO_PROTO_ADDR_def
      DEFAULT_CREATE_AMOUNT_def template_def char_of_eq_iff)

theorem decode_decides_recognition_witness:
  "listOutputs fake_sdk listOutputs_args_frontend = Inr fake_store
   \<and> listOutputs fake_sdk listOutputs_args_root = Inr fake_store
   \<and> decryptedTasksResults_frontend fake_sdk fake_store ! 0
       = Inl (Error ''not a PushDrop script'' None)
   \<and> decryptedTasksResults_root fake_sdk fake_store ! 0
       = Inl (Error ''not a PushDrop script'' None)
   \<and> map snd (tasks (loadTasks_frontend fake_sdk app0))
       = rev (rights (take 0 (decryptedTasksResults_frontend fake_sdk fake_store))
              @ rights (drop (Suc 0) (decryptedTasksResults_frontend fake_sdk fake_store)))
   \<and> map snd (tasks (loadTasks_root fake_sdk app0_root))
       = rev (rights (take 0 (decryptedTasksResults_root fake_sdk fake_store))
              @ rights (drop (Suc 0) (decryptedTasksResults_root fake_sdk fake_store)))
   \<and> listOutputs sdk_signing listOutputs_args_frontend = Inr signed_store
   \<and> listOutputs sdk_signing listOutputs_args_root = Inr signed_store
   \<and> lock sdk_signing [toArray sdk_signing TODO_PROTO_ADDR, [98, 97]] PROTOCOL_ID KEY_ID ''self''
       = Inr (LockingScript ''1ToDoDtKreEzbHYKFjmoBuduFmSXXUGZG/ba/sig/'')
   \<and> decode sdk_signing (LockingScript ''1ToDoDtKreEzbHYKFjmoBuduFmSXXUGZG/ba/sig/'')
       = Inr [toArray sdk_signing TODO_PROTO_ADDR, [98, 97], signature_field]
   \<and> snd (loadTasks_callback_frontend sdk_signing (lr_BEEF signed_store)
            (0, lr_outputs signed_store ! 0))
       = Inr (0, lr_outputs signed_store ! 0,
              LockingScript ''1ToDoDtKreEzbHYKFjmoBuduFmSXXUGZG/ba/sig/'', Some [98, 97])
   \<and> snd (loadTasks_callback_root sdk_signing (lr_BEEF signed_store)
            (0, lr_outputs signed_store ! 0))
       = Inr (0, lr_outputs signed_store ! 0,
              LockingScript ''1ToDoDtKreEzbHYKFjmoBuduFmSXXUGZG/ba/sig/'', Some [98, 97])
   \<and> (\<exists>t. decryptedTasksResults_frontend sdk_signing signed_store ! 0 = Inr t
          \<and> task t = ''ab'' \<and> lockingScript t = ''1ToDoDtKreEzbHYKFjmoBuduFmSXXUGZG/ba/sig/''
          \<and> t \<in> set (map snd (tasks (loadTasks_frontend sdk_signing app0))))
   \<and> (\<exists>t. decryptedTasksResults_root sdk_signing signed_store ! 0 = Inr t
          \<and> task t = ''ab'' \<and> lockingScript t = ''1ToDoDtKreEzbHYKFjmoBuduFmSXXUGZG/ba/sig/''
          \<and> t \<in> set (map snd (tasks (loadTasks_root sdk_signing app0_root))))
   \<and> (\<exists>t. decryptedTasksResults_frontend fake_sdk fake_store ! 2 = Inr t
          \<and> task t = ''cd'' \<and> lockingScript t = ''x/dc/''
          \<and> t \<in> set (map snd (tasks (loadTasks_frontend fake_sdk app0))))
   \<and> (\<exists>t. decryptedTasksResults_root fake_sdk fake_store ! 2 = Inr t
          \<and> task t = ''cd'' \<and> lockingScript t = ''x/dc/''
          \<and> t \<in> set (map snd (tasks (loadTasks_root fake_sdk app0_root))))"
proof -
  have lf: "listOutputs fake_sdk listOutputs_args_frontend = Inr fake_store"
    and lr: "listOutputs fake_sdk listOutputs_args_root = Inr fake_store"
    by (simp_all add: fake_sdk_def)
  have o: "\<And>x. tx_outputs \<lparr>tx_outputs = [x]\<rparr> = x # []"
    by simp
  have p: "decrypt fake_sdk (at_index [[120], [100, 99]] 1) PROTOCOL_ID KEY_ID = Inr [99, 100]"
    by (simp add: fake_sdk_def at_index_def)
  have u: "toUTF8 fake_sdk [99, 100] = ''cd''"
    by (simp add: fake_sdk_def char_of_eq_iff)
  note f0 = decode_decides_recognition [where s = app0, THEN conjunct1, rule_format,
      OF conjI [OF lf conjI [OF fake_store_outputs(1) conjI [OF fake_store_outputs(4) o]]]]
  note f1 = decode_decides_recognition [where s = app0, THEN conjunct1, rule_format,
      OF conjI [OF signed_store_outputs(1)
        conjI [OF signed_store_outputs(3) conjI [OF signed_store_outputs(4) o]]]]
  note f2 = decode_decides_recognition [where s = app0, THEN conjunct1, rule_format,
      OF conjI [OF lf conjI [OF fake_store_outputs(3) conjI [OF fake_store_outputs(6) o]]]]
  note r0 = decode_decides_recognition [where s = app0_root, THEN conjunct2, rule_format,
      OF conjI [OF lr conjI [OF fake_store_outputs(1) conjI [OF fake_store_outputs(4) o]]]]
  note r1 = decode_decides_recognition [where s = app0_root, THEN conjunct2, rule_format,
      OF conjI [OF signed_store_outputs(2)
        conjI [OF signed_store_outputs(3) conjI [OF signed_store_outputs(4) o]]]]
  note r2 = decode_decides_recognition [where s = app0_root, THEN conjunct2, rule_format,
      OF conjI [OF lr conjI [OF fake_store_outputs(3) conjI [OF fake_store_outputs(6) o]]]]
  note a1 = f0 [THEN conjunct1, rule_format, OF fake_decode_examples(1)]
  note a2 = r0 [THEN conjunct1, rule_format, OF fake_decode_examples(1)]
  note b1 = f1 [THEN conjunct2, THEN conjunct1, rule_format,
      OF conjI [OF signing_examples(2) signing_examples(3)]]
  note b2 = r1 [THEN conjunct2, THEN conjunct1, rule_format,
      OF conjI [OF signing_examples(2) signing_examples(3)]]
  note d1 = f1 [THEN conjunct2, THEN conjunct2, THEN conjunct1, rule_format,
      OF conjI [OF signing_examples(2) conjI [OF signing_examples(3) signing_examples(4)]]]
  note d2 = r1 [THEN conjunct2, THEN conjunct2, THEN conjunct1, rule_format,
      OF conjI [OF signing_examples(2) conjI [OF signing_examples(3) signing_examples(4)]]]
  note c1 = f2 [THEN conjunct2, THEN conjunct2, THEN conjunct2, rule_format,
      OF conjI [OF fake_decode_examples(3) p]]
  note c2 = r2 [THEN conjunct2, THEN conjunct2, THEN conjunct2, rule_format,
      OF conjI [OF fake_decode_examples(3) p]]
  have k: "lock sdk_signing [toArray sdk_signing TODO_PROTO_ADDR, [98, 97]] PROTOCOL_ID KEY_ID ''self''
       = Inr (LockingScript ''1ToDoDtKreEzbHYKFjmoBuduFmSXXUGZG/ba/sig/'')"
    using signing_examples(2) by simp
  have dc: "decode sdk_signing (LockingScript ''1ToDoDtKreEzbHYKFjmoBuduFmSXXUGZG/ba/sig/'')
       = Inr [toArray sdk_signing TODO_PROTO_ADDR, [98, 97], signature_field]"
    using signing_examples(3) by simp
  from b1 have b1': "snd (loadTasks_callback_frontend sdk_signing (lr_BEEF signed_store)
            (0, lr_outputs signed_store ! 0))
       = Inr (0, lr_outputs signed_store ! 0,
              LockingScript ''1ToDoDtKreEzbHYKFjmoBuduFmSXXUGZG/ba/sig/'', Some [98, 97])"
    by simp
  from b2 have b2': "snd (loadTasks_callback_root sdk_signing (lr_BEEF signed_store)
            (0, lr_outputs signed_store ! 0))
       = Inr (0, lr_outputs signed_store ! 0,
              LockingScript ''1ToDoDtKreEzbHYKFjmoBuduFmSXXUGZG/ba/sig/'', Some [98, 97])"
    by simp
  from d1 have d1': "\<exists>t. decryptedTasksResults_frontend sdk_signing signed_store ! 0 = Inr t
          \<and> task t = ''ab'' \<and> lockingScript t = ''1ToDoDtKreEzbHYKFjmoBuduFmSXXUGZG/ba/sig/''
          \<and> t \<in> set (map snd (tasks (loadTasks_frontend sdk_signing app0)))"
    by (simp add: signing_examples(5))
  from d2 have d2': "\<exists>t. decryptedTasksResults_root sdk_signing signed_store ! 0 = Inr t
          \<and> task t = ''ab'' \<and> lockingScript t = ''1ToDoDtKreEzbHYKFjmoBuduFmSXXUGZG/ba/sig/''
          \<and> t \<in> set (map snd (tasks (loadTasks_root sdk_signing app0_root)))"
    by (simp add: signing_examples(5))
  from c1 have c1': "\<exists>t. decryptedTasksResults_frontend fake_sdk fake_store ! 2 = Inr t
          \<and> task t = ''cd'' \<and> lockingScript t = ''x/dc/''
          \<and> t \<in> set (map snd (tasks (loadTasks_frontend fake_sdk app0)))"
    by (simp add: u)
  from c2 have c2': "\<exists>t. decryptedTasksResults_root fake_sdk fake_store ! 2 = Inr t
          \<and> task t = ''cd'' \<and> lockingScript t = ''x/dc/''
          \<and> t \<in> set (map snd (tasks (loadTasks_root fake_sdk app0_root)))"
    by (simp add: u)
  show ?thesis
    by (intro conjI lf lr a1 [THEN conjunct1] a2 [THEN conjunct1] a1 [THEN conjunct2]
        a2 [THEN conjunct2] signed_store_outputs(1) signed_store_outputs(2) k dc
        b1' b2' d1' d2' c1' c2')
qed


text \<open>
  The claim as it stands fails in both halves. The script that the signing wallet
  builds at creation from the two fields of the task \<open>ab\<close> decodes to three fields, the
  third being the signature of the builder, not to the two fields it was built from;
  and discovery catalogues it all the same. The script of the output \<open>ee.0\<close> of the
  first test double carries the two fields \<open>x\<close> and a ciphertext, \<open>x\<close> is not the
  marker of this protocol, \<^verbatim>\<open>decode\<close> returns the two fields, and discovery puts the
  record in the list, in both variants.
\<close>

theorem codec_shape_counterexample:
  "encrypt sdk_signing (toArray sdk_signing ''ab'') PROTOCOL_ID KEY_ID = Inr [98, 97]
   \<and> lock sdk_signing [toArray sdk_signing TODO_PROTO_ADDR, [98, 97]] PROTOCOL_ID KEY_ID ''self''
       = Inr (LockingScript ''1ToDoDtKreEzbHYKFjmoBuduFmSXXUGZG/ba/sig/'')
   \<and> decode sdk_signing (LockingScript ''1ToDoDtKreEzbHYKFjmoBuduFmSXXUGZG/ba/sig/'')
       = Inr [toArray sdk_signing TODO_PROTO_ADDR, [98, 97], [115, 105, 103]]
   \<and> decode sdk_signing (LockingScript ''1ToDoDtKreEzbHYKFjmoBuduFmSXXUGZG/ba/sig/'')
       \<noteq> Inr [toArray sdk_signing TODO_PROTO_ADDR, [98, 97]]
   \<and> map lockingScript
        (map snd (tasks (handleCreateSubmit_frontend sdk_signing (app_form ''ab'' (Finite 5)))))
       = [''1ToDoDtKreEzbHYKFjmoBuduFmSXXUGZG/ba/sig/'']
   \<and> map lockingScript
        (map snd (tasks (handleCreateSubmit_root sdk_signing (app_form ''ab'' (Finite 5)))))
       = [''1ToDoDtKreEzbHYKFjmoBuduFmSXXUGZG/ba/sig/'']
   \<and> map task (map snd (tasks (loadTasks_frontend sdk_signing app0))) = [''ab'']
   \<and> map task (map snd (tasks (loadTasks_root sdk_signing app0_root))) = [''ab'']
   \<and> listOutputs fake_sdk listOutputs_args_frontend = Inr fake_store
   \<and> listOutputs fake_sdk listOutputs_args_root = Inr fake_store
   \<and> map wo_outpoint (lr_outputs fake_store) = [''cc.0'', ''aa.0'', ''ee.0'', ''bb.2'']
   \<and> fromBEEF fake_sdk (lr_BEEF fake_store) (Some ''ee'')
       = Inr \<lparr>tx_outputs = [\<lparr>out_lockingScript = LockingScript ''x/dc/''\<rparr>]\<rparr>
   \<and> decode fake_sdk (LockingScript ''x/dc/'') = Inr [[120], [100, 99]]
   \<and> toArray fake_sdk TODO_PROTO_ADDR \<noteq> [120]
   \<and> map lockingScript (map snd (tasks (loadTasks_frontend fake_sdk app0)))
       = [''1ToDoDtKreEzbHYKFjmoBuduFmSXXUGZG/fe/'', ''x/dc/'',
          ''1ToDoDtKreEzbHYKFjmoBuduFmSXXUGZG/ba/'']
   \<and> map lockingScript (map snd (tasks (loadTasks_root fake_sdk app0_root)))
       = [''1ToDoDtKreEzbHYKFjmoBuduFmSXXUGZG/fe/'', ''x/dc/'',
          ''1ToDoDtKreEzbHYKFjmoBuduFmSXXUGZG/ba/'']"
proof -
  have e: "encrypt sdk_signing (toArray sdk_signing ''ab'') PROTOCOL_ID KEY_ID = Inr [98, 97]"
    by (rule signing_examples(1))
  have k: "lock sdk_signing [toArray sdk_signing TODO_PROTO_ADDR, [98, 97]] PROTOCOL_ID KEY_ID ''self''
       = Inr (LockingScript ''1ToDoDtKreEzbHYKFjmoBuduFmSXXUGZG/ba/sig/'')"
    using signing_examples(2) by simp
  have dc: "decode sdk_signing (LockingScript ''1ToDoDtKreEzbHYKFjmoBuduFmSXXUGZG/ba/sig/'')
       = Inr [toArray sdk_signing TODO_PROTO_ADDR, [98, 97], [115, 105, 103]]"
    using signing_examples(3) by (simp add: signature_field_def)
  have dn: "decode sdk_signing (LockingScript ''1ToDoDtKreEzbHYKFjmoBuduFmSXXUGZG/ba/sig/'')
       \<noteq> Inr [toArray sdk_signing TODO_PROTO_ADDR, [98, 97]]"
    unfolding dc by simp
  have cf: "map lockingScript
        (map snd (tasks (handleCreateSubmit_frontend sdk_signing (app_form ''ab'' (Finite 5)))))
       = [''1ToDoDtKreEzbHYKFjmoBuduFmSXXUGZG/ba/sig/'']"
    unfolding create_frontend_signing by simp
  have cr: "map lockingScript
        (map snd (tasks (handleCreateSubmit_root sdk_signing (app_form ''ab'' (Finite 5)))))
       = [''1ToDoDtKreEzbHYKFjmoBuduFmSXXUGZG/ba/sig/'']"
    unfolding create_root_signing by simp
  have sf: "map task (map snd (tasks (loadTasks_frontend sdk_signing app0))) = [''ab'']"
    unfolding loadTasks_frontend_tasks [OF signed_store_outputs(1)] results_frontend_signed_store
    by simp
  have sr: "map task (map snd (tasks (loadTasks_root sdk_signing app0_root))) = [''ab'']"
    unfolding loadTasks_root_tasks [OF signed_store_outputs(2)] results_root_signed_store
    by simp
  have lf: "listOutputs fake_sdk listOutputs_args_frontend = Inr fake_store"
    and lr: "listOutputs fake_sdk listOutputs_args_root = Inr fake_store"
    by (simp_all add: fake_sdk_def)
  have s: "map wo_outpoint (lr_outputs fake_store) = [''cc.0'', ''aa.0'', ''ee.0'', ''bb.2'']"
    by (simp add: fake_store_def fake_outputs_def)
  have b: "fromBEEF fake_sdk (lr_BEEF fake_store) (Some ''ee'')
       = Inr \<lparr>tx_outputs = [\<lparr>out_lockingScript = LockingScript ''x/dc/''\<rparr>]\<rparr>"
    by (simp add: fake_sdk_def fake_fromBEEF_def fake_lock_def char_of_eq_iff)
  have d: "decode fake_sdk (LockingScript ''x/dc/'') = Inr [[120], [100, 99]]"
    by (simp add: fake_sdk_def fake_decode_def)
  have m: "toArray fake_sdk TODO_PROTO_ADDR \<noteq> [120]"
    by (simp add: fake_sdk_def TODO_PROTO_ADDR_def)
  have tf: "map lockingScript (map snd (tasks (loadTasks_frontend fake_sdk app0)))
       = [''1ToDoDtKreEzbHYKFjmoBuduFmSXXUGZG/fe/'', ''x/dc/'',
          ''1ToDoDtKreEzbHYKFjmoBuduFmSXXUGZG/ba/'']"
    unfolding loadTasks_frontend_tasks [OF lf] results_frontend_fake_store by simp
  have tr: "map lockingScript (map snd (tasks (loadTasks_root fake_sdk app0_root)))
       = [''1ToDoDtKreEzbHYKFjmoBuduFmSXXUGZG/fe/'', ''x/dc/'',
          ''1ToDoDtKreEzbHYKFjmoBuduFmSXXUGZG/ba/'']"
    unfolding loadTasks_root_tasks [OF lr] results_root_fake_store by simp
  show ?thesis
    by (intro conjI e k dc dn cf cr sf sr lf lr s b d m tf tr)
qed

end
